(* ===== verification/PyPrelude.thy ===== *)
theory PyPrelude
  imports Main "HOL-Library.Sublist"
begin

text \<open>
  Shared vocabulary of the development: Python \<open>str\<close> values as lists of Unicode
  code points, the string methods the sources call (\<open>strip\<close>, \<open>lower\<close> on the
  letters the code tests, \<open>endswith\<close>, the \<open>in\<close> operator, \<open>str()\<close> of an
  integer), a first-match search over a list, and the lemmas about them that the
  component theories use.
\<close>

named_theorems pystr_simps "evaluation rules for the Python string model"

type_synonym pystr = "nat list"

text \<open>
  A Python \<open>str\<close> is a sequence of code points. \<open>U\<close> turns an ASCII literal of
  the source into that sequence; non-ASCII literals of the source (Thai text) are
  written as their code points.
\<close>

definition U :: "string \<Rightarrow> pystr" where
  "U s = map of_char s"

text \<open>
  \<open>str.isspace\<close> on one code point, which is also what \<open>\s\<close> matches in a
  \<open>str\<close> pattern of the \<open>re\<close> module: the characters with bidirectional class
  WS, B or S or general category Zs.
\<close>

definition py_isspace :: "nat \<Rightarrow> bool" where
  "py_isspace c \<longleftrightarrow>
     (9 \<le> c \<and> c \<le> 13) \<or> (28 \<le> c \<and> c \<le> 32) \<or> c = 133 \<or> c = 160 \<or> c = 5760 \<or>
     (8192 \<le> c \<and> c \<le> 8202) \<or> c = 8232 \<or> c = 8233 \<or> c = 8239 \<or> c = 8287 \<or> c = 12288"

text \<open>\<open>str.strip()\<close> with no argument: whitespace removed at both ends.\<close>

definition py_lstrip :: "pystr \<Rightarrow> pystr" where
  "py_lstrip s = dropWhile py_isspace s"

definition py_rstrip :: "pystr \<Rightarrow> pystr" where
  "py_rstrip s = rev (dropWhile py_isspace (rev s))"

definition py_strip :: "pystr \<Rightarrow> pystr" where
  "py_strip s = py_rstrip (py_lstrip s)"

text \<open>\<open>s.endswith(t)\<close>.\<close>

definition py_endswith :: "pystr \<Rightarrow> pystr \<Rightarrow> bool" where
  "py_endswith s t \<longleftrightarrow> (length t \<le> length s \<and> drop (length s - length t) s = t)"

text \<open>\<open>t in s\<close> for strings: \<open>t\<close> occurs contiguously in \<open>s\<close>.\<close>

fun py_startswith :: "pystr \<Rightarrow> pystr \<Rightarrow> bool" where
  "py_startswith s [] = True"
| "py_startswith [] (c # cs) = False"
| "py_startswith (d # ds) (c # cs) = (d = c \<and> py_startswith ds cs)"

fun py_in :: "pystr \<Rightarrow> pystr \<Rightarrow> bool" where
  "py_in t [] = (t = [])"
| "py_in t (c # cs) = (py_startswith (c # cs) t \<or> py_in t cs)"

text \<open>
  \<open>s.lower()\<close> restricted to ASCII. The sources only test lowered strings for
  ASCII words (\<open>"artist"\<close>) and for a Thai word; no code point outside ASCII but
  U+0130 and U+212A lowers to an ASCII letter, and neither can complete those words,
  so the tests give the same answer on ASCII lowering as on full Unicode lowering.
\<close>

definition ascii_lower :: "nat \<Rightarrow> nat" where
  "ascii_lower c = (if 65 \<le> c \<and> c \<le> 90 then c + 32 else c)"

definition py_lower :: "pystr \<Rightarrow> pystr" where
  "py_lower s = map ascii_lower s"

text \<open>\<open>str(n)\<close> for a non-negative and for any Python \<open>int\<close>.\<close>

fun py_str_nat :: "nat \<Rightarrow> pystr" where
  "py_str_nat n = (if n < 10 then [48 + n] else py_str_nat (n div 10) @ [48 + n mod 10])"

declare py_str_nat.simps [simp del]

definition py_str_int :: "int \<Rightarrow> pystr" where
  "py_str_int i = (if i < 0 then 45 # py_str_nat (nat (- i)) else py_str_nat (nat i))"

text \<open>The first element of a list for which \<open>f\<close> gives a result, and that result.\<close>

fun first_some :: "('a \<Rightarrow> 'b option) \<Rightarrow> 'a list \<Rightarrow> 'b option" where
  "first_some f [] = None"
| "first_some f (x # xs) = (case f x of Some y \<Rightarrow> Some y | None \<Rightarrow> first_some f xs)"

text \<open>
  The exceptions the programs raise: a failure of the model service; Python's
  \<open>AttributeError\<close>, \<open>IndexError\<close>, \<open>TypeError\<close> and \<open>KeyError\<close> of dynamic typing
  and indexing, each with the text \<open>str(e)\<close> gives; \<open>EOFError\<close> of \<open>input()\<close> at
  the end of the input, whose \<open>str\<close> is empty; and the \<open>ValueError\<close> the code raises
  itself.
\<close>

datatype pyexc =
    ModelServiceError pystr | AttributeError pystr | IndexError pystr | TypeError pystr
  | KeyError pystr | EOFError | ValueError pystr

text \<open>\<open>str(e)\<close> of an exception, as an f-string prints it.\<close>

fun py_str_exc :: "pyexc \<Rightarrow> pystr" where
  "py_str_exc (ModelServiceError m) = m"
| "py_str_exc (AttributeError m) = m"
| "py_str_exc (IndexError m) = m"
| "py_str_exc (TypeError m) = m"
| "py_str_exc (KeyError m) = m"
| "py_str_exc EOFError = []"
| "py_str_exc (ValueError m) = m"

text \<open>
  Code that may raise is a function into a sum, \<open>Inl\<close> the exception: \<open>sbind\<close>
  runs the rest only after a result, and \<open>smap\<close> is a list comprehension, evaluated
  left to right and stopped by the first exception.
\<close>

definition sbind :: "'e + 'a \<Rightarrow> ('a \<Rightarrow> 'e + 'b) \<Rightarrow> 'e + 'b" where
  "sbind m f = (case m of Inl e \<Rightarrow> Inl e | Inr a \<Rightarrow> f a)"

fun smap :: "('a \<Rightarrow> 'e + 'b) \<Rightarrow> 'a list \<Rightarrow> 'e + 'b list" where
  "smap f [] = Inr []"
| "smap f (x # xs) = sbind (f x) (\<lambda>y. sbind (smap f xs) (\<lambda>ys. Inr (y # ys)))"

text \<open>\<open>row[i]\<close> on a tuple: the element, or Python's \<open>IndexError\<close> message.\<close>

definition py_index :: "'a list \<Rightarrow> nat \<Rightarrow> pystr + 'a" where
  "py_index xs i = (if i < length xs then Inr (xs ! i) else Inl (U ''tuple index out of range''))"

subsection \<open>Lemmas\<close>

lemma U_simps [pystr_simps, simp]:
  "U [] = []" "U (c # s) = of_char c # U s" "U (s @ t) = U s @ U t"
  by (simp_all add: U_def)

lemma length_U [simp]: "length (U s) = length s"
  by (simp add: U_def)

lemma py_startswith_iff [simp]: "py_startswith s t \<longleftrightarrow> prefix t s"
  by (induction s t rule: py_startswith.induct) auto

lemma py_in_iff_sublist: "py_in t s \<longleftrightarrow> sublist t s"
proof (induction s)
  case Nil
  then show ?case by simp
next
  case (Cons c cs)
  then show ?case
    by (cases t) (auto simp: sublist_Cons_right)
qed

lemma py_in_append_left [simp]: "py_in t (t @ s)"
  by (simp add: py_in_iff_sublist)

lemma py_in_middle: "py_in t (a @ t @ b)"
  by (simp add: py_in_iff_sublist)

lemma py_in_mono: "py_in t s \<Longrightarrow> py_in t (a @ s @ b)"
  unfolding py_in_iff_sublist by (metis sublist_appendI sublist_order.order_trans)

lemma py_endswith_append [simp]: "py_endswith (s @ t) t"
  by (simp add: py_endswith_def)

lemma py_endswith_single: "py_endswith s [c] \<longleftrightarrow> s \<noteq> [] \<and> last s = c"
  by (cases s rule: rev_cases) (auto simp: py_endswith_def)

lemma py_strip_split:
  "\<exists>a b. s = a @ py_strip s @ b \<and> (\<forall>x\<in>set a. py_isspace x) \<and> (\<forall>x\<in>set b. py_isspace x)"
proof -
  let ?l = "dropWhile py_isspace s"
  have s: "s = takeWhile py_isspace s @ ?l" by simp
  have "rev ?l = takeWhile py_isspace (rev ?l) @ dropWhile py_isspace (rev ?l)" by simp
  then have l: "?l = py_rstrip ?l @ rev (takeWhile py_isspace (rev ?l))"
    by (metis py_rstrip_def rev_append rev_rev_ident)
  show ?thesis
    by (rule exI [of _ "takeWhile py_isspace s"], rule exI [of _ "rev (takeWhile py_isspace (rev ?l))"])
       (metis (no_types, lifting) s l py_strip_def py_lstrip_def set_rev set_takeWhileD)
qed

lemma py_strip_unique:
  assumes s: "s = a @ m @ b" and a: "\<forall>x\<in>set a. py_isspace x" and b: "\<forall>x\<in>set b. py_isspace x"
    and m: "m = [] \<or> (\<not> py_isspace (hd m) \<and> \<not> py_isspace (last m))"
  shows "py_strip s = m"
proof (cases "m = []")
  case True
  have "py_lstrip s = dropWhile py_isspace b"
    using s a True by (simp add: py_lstrip_def dropWhile_append2)
  also have "\<dots> = []" using b by (simp add: dropWhile_eq_Nil_conv)
  finally show ?thesis using True by (simp add: py_strip_def py_rstrip_def)
next
  case False
  then obtain x xs where mx: "m = x # xs" by (cases m) auto
  with m have "\<not> py_isspace x" by simp
  with a s mx have l: "py_lstrip s = m @ b" by (simp add: py_lstrip_def dropWhile_append2)
  from False obtain ys y where my: "m = ys @ [y]" by (cases m rule: rev_cases) auto
  with m False have "\<not> py_isspace y" by simp
  have "dropWhile py_isspace (rev b @ rev m) = dropWhile py_isspace (rev m)"
    by (rule dropWhile_append2) (use b in auto)
  also have "\<dots> = rev m" using my \<open>\<not> py_isspace y\<close> by simp
  finally have "dropWhile py_isspace (rev b @ rev m) = rev m" .
  with l show ?thesis by (simp add: py_strip_def py_rstrip_def)
qed

lemma py_strip_ends:
  assumes ne: "py_strip s \<noteq> []"
  shows "\<not> py_isspace (hd (py_strip s)) \<and> \<not> py_isspace (last (py_strip s))"
proof -
  let ?l = "dropWhile py_isspace s"
  have st: "py_strip s = rev (dropWhile py_isspace (rev ?l))"
    by (simp add: py_strip_def py_rstrip_def py_lstrip_def)
  have d: "dropWhile py_isspace (rev ?l) \<noteq> []" using ne st by auto
  have lst: "\<not> py_isspace (last (py_strip s))"
    using d st by (simp add: last_rev hd_dropWhile)
  have "rev ?l = takeWhile py_isspace (rev ?l) @ dropWhile py_isspace (rev ?l)" by simp
  then have "?l = py_strip s @ rev (takeWhile py_isspace (rev ?l))"
    by (metis st rev_append rev_rev_ident)
  then have "hd ?l = hd (py_strip s)" and "?l \<noteq> []" using ne
    by (metis hd_append2, metis append_is_Nil_conv)
  then have "\<not> py_isspace (hd (py_strip s))" by (metis hd_dropWhile)
  with lst show ?thesis by simp
qed

lemma py_strip_idem [simp]: "py_strip (py_strip s) = py_strip s"
  using py_strip_unique [of "py_strip s" "[]" "py_strip s" "[]"] py_strip_ends [of s] by auto

lemma py_strip_core:
  assumes t: "t \<noteq> []" "\<not> py_isspace (hd t)" "\<not> py_isspace (last t)"
    and ws: "\<forall>x\<in>set ws. py_isspace x" and b: "b = [] \<or> \<not> py_isspace (hd b)"
  shows "py_strip (t @ ws @ b) = (if py_strip b = [] then t else t @ ws @ py_strip b)"
proof -
  obtain a' c' where bs: "b = a' @ py_strip b @ c'" and a': "\<forall>x\<in>set a'. py_isspace x"
    and c': "\<forall>x\<in>set c'. py_isspace x"
    using py_strip_split by blast
  show ?thesis
  proof (cases "py_strip b = []")
    case True
    with bs a' c' have "\<forall>x\<in>set b. py_isspace x" by (metis Un_iff append_Nil set_append)
    with b have "b = []" by (cases b) auto
    then have "py_strip (t @ ws @ b) = t"
      using t ws by (intro py_strip_unique [of _ "[]" t ws]) auto
    with True show ?thesis by simp
  next
    case False
    have "a' = []"
    proof (rule ccontr)
      assume "a' \<noteq> []"
      then have "hd b = hd a'" using bs by (metis hd_append2)
      with \<open>a' \<noteq> []\<close> a' b bs show False by (metis hd_in_set append_is_Nil_conv)
    qed
    with bs have b2: "b = py_strip b @ c'" by simp
    have "py_strip (t @ ws @ b) = t @ ws @ py_strip b"
      using t ws c' py_strip_ends [OF False] False
      by (intro py_strip_unique [of _ "[]" _ c']) (simp_all add: b2 [symmetric])
    with False show ?thesis by simp
  qed
qed

lemma py_strip_prefix: "b = [] \<or> \<not> py_isspace (hd b) \<Longrightarrow> prefix (py_strip b) b"
proof -
  assume b: "b = [] \<or> \<not> py_isspace (hd b)"
  then have l: "py_lstrip b = b" by (cases b) (auto simp: py_lstrip_def)
  have "rev b = takeWhile py_isspace (rev b) @ dropWhile py_isspace (rev b)" by simp
  then have "b = py_rstrip b @ rev (takeWhile py_isspace (rev b))"
    by (metis py_rstrip_def rev_append rev_rev_ident)
  then show ?thesis using l by (metis py_strip_def prefixI)
qed

lemma py_strip_subset: "set (py_strip m) \<subseteq> set m"
  using py_strip_split [of m] by (metis Un_upper1 Un_upper2 set_append subset_trans)

lemma first_some_Some:
  "first_some f xs = Some y \<Longrightarrow> \<exists>x\<in>set xs. f x = Some y"
  by (induction xs) (auto split: option.splits)

lemma first_some_None [simp]:
  "first_some f xs = None \<longleftrightarrow> (\<forall>x\<in>set xs. f x = None)"
  by (induction xs) (auto split: option.splits)

lemma first_some_unique:
  "x \<in> set xs \<Longrightarrow> (\<forall>y\<in>set xs. y \<noteq> x \<longrightarrow> f y = None) \<Longrightarrow> first_some f xs = f x"
proof (induction xs)
  case (Cons a xs)
  then show ?case by (cases "a = x") (auto split: option.split)
qed simp

lemma first_some_map: "first_some f (map g xs) = first_some (f \<circ> g) xs"
  by (induction xs) (simp_all split: option.split)

lemma find_append: "find P (xs @ ys) = (case find P xs of None \<Rightarrow> find P ys | Some x \<Rightarrow> Some x)"
  by (induction xs) auto

text \<open>
  A hypothesis \<open>\<forall>y\<in>set xs. P y \<longrightarrow> y = x\<close> makes the simplifier rewrite every
  term to \<open>x\<close>; the uniqueness lemmas below are therefore proved with \<open>blast\<close>.
\<close>

lemma find_unique:
  "x \<in> set xs \<Longrightarrow> P x \<Longrightarrow> (\<forall>y\<in>set xs. P y \<longrightarrow> y = x) \<Longrightarrow> find P xs = Some x"
proof (induction xs)
  case (Cons a xs)
  show ?case
  proof (cases "P a")
    case True
    with Cons.prems have "a = x" by (meson list.set_intros(1))
    with True show ?thesis by simp
  next
    case False
    with Cons.prems have "x \<in> set xs" by (metis set_ConsD)
    moreover have "\<forall>y\<in>set xs. P y \<longrightarrow> y = x" using Cons.prems(3) by (meson list.set_intros(2))
    ultimately have "find P xs = Some x" using Cons.IH Cons.prems(2) by blast
    with False show ?thesis by simp
  qed
qed simp

lemma find_map_upt_first:
  assumes "j < m" "P (f j)" "\<forall>i<j. \<not> P (f i)"
  shows "find P (map f [0..<m]) = Some (f j)"
proof -
  have "j < length (map f [0..<m]) \<and> P (map f [0..<m] ! j) \<and> f j = map f [0..<m] ! j \<and>
        (\<forall>i<j. \<not> P (map f [0..<m] ! i))"
    using assms by simp
  then show ?thesis by (subst find_Some_iff) blast
qed

lemma upt_0_Suc: "[0..<Suc n] = 0 # map Suc [0..<n]"
  by (simp only: upt_conv_Cons zero_less_Suc map_Suc_upt)

lemma py_str_nat_digits: "set (py_str_nat n) \<subseteq> {48..57}"
proof (induction n rule: py_str_nat.induct)
  case (1 n)
  then show ?case by (subst py_str_nat.simps) auto
qed

lemma py_str_nat_nonempty [simp]: "py_str_nat n \<noteq> []"
  by (subst py_str_nat.simps) simp

lemma py_isspace_ascii [pystr_simps]:
  "py_isspace 32" "py_isspace 10" "py_isspace 9" "py_isspace 13"
  "\<not> py_isspace 59"
  by (simp_all add: py_isspace_def)

lemma sbind_simps [simp]: "sbind (Inl e) f = Inl e" "sbind (Inr a) f = f a"
  by (simp_all add: sbind_def)

lemma sbind_Inr_iff: "sbind m f = Inr b \<longleftrightarrow> (\<exists>a. m = Inr a \<and> f a = Inr b)"
  by (cases m) simp_all

lemma smap_Inr_iff: "smap f xs = Inr ys \<longleftrightarrow> list_all2 (\<lambda>x y. f x = Inr y) xs ys"
  by (induction xs arbitrary: ys) (auto simp: sbind_Inr_iff list_all2_Cons1)

lemma smap_length: "smap f xs = Inr ys \<Longrightarrow> length ys = length xs"
  by (simp add: smap_Inr_iff list_all2_lengthD)

lemma smap_total: "(\<And>x. x \<in> set xs \<Longrightarrow> f x = Inr (g x)) \<Longrightarrow> smap f xs = Inr (map g xs)"
  by (induction xs) simp_all

lemma py_index_Inr [simp]: "i < length xs \<Longrightarrow> py_index xs i = Inr (xs ! i)"
  by (simp add: py_index_def)

lemma smap_Inl_ex: "(\<exists>e. smap f xs = Inl e) \<longleftrightarrow> (\<exists>x\<in>set xs. \<exists>e. f x = Inl e)"
  by (induction xs) (auto simp: sbind_def split: sum.splits)

lemma smap_Inl_same: "(\<And>x e. f x = Inl e \<Longrightarrow> e = e0) \<Longrightarrow> smap f xs = Inl e \<Longrightarrow> e = e0"
  by (induction xs) (auto simp: sbind_def split: sum.splits)

end
