(* ===== verification/Extractor.thy ===== *)
theory Extractor
  imports PyPrelude
begin

text \<open>
  The SQL extractor, \<open>extract_sql_query\<close> of \<open>src/ver1-1.py\<close> (lines 69--77).
  It runs \<open>re.search\<close> with the pattern
  \<^verbatim>\<open>(?i)(SELECT|INSERT|UPDATE|DELETE|WITH|CREATE|ALTER|DROP)\s+.*?(?=;|$|\n\n|\Z)\<close>
  and flag \<open>re.DOTALL\<close>, strips the match and appends a semicolon when it is missing.
  Two models of the search are given: \<open>bt_search\<close> follows the backtracking order of
  Python's regular expression engine literally (every start position, every
  alternative in order, the greedy \<open>\s+\<close> from its longest run down, the lazy
  \<open>.*?\<close> from the empty string up); \<open>re_search\<close> is the direct scan the rest of the
  development uses. They are proved equal.
\<close>

section \<open>The pattern\<close>

definition sql_keywords :: "pystr list" where
  "sql_keywords = map U [''SELECT'', ''INSERT'', ''UPDATE'', ''DELETE'', ''WITH'', ''CREATE'',
     ''ALTER'', ''DROP'']"

text \<open>The alternatives are words of upper-case ASCII letters.\<close>

definition upper_word :: "pystr \<Rightarrow> bool" where
  "upper_word k \<longleftrightarrow> (\<forall>p\<in>set k. 65 \<le> p \<and> p \<le> 90)"

text \<open>
  A pattern letter under \<open>(?i)\<close> matches a text code point whose simple lower case
  is the letter's lower case; Python's engine adds the equivalences i/U+0131 and
  s/U+017F. U+0130 lowers to i and U+212A (Kelvin sign) to k.
\<close>

definition re_ic_match :: "nat \<Rightarrow> nat \<Rightarrow> bool" where
  "re_ic_match p x \<longleftrightarrow>
     ascii_lower x = ascii_lower p \<or>
     (ascii_lower p = 105 \<and> (x = 304 \<or> x = 305)) \<or>
     (ascii_lower p = 107 \<and> x = 8490) \<or>
     (ascii_lower p = 115 \<and> x = 383)"

fun ic_prefix :: "pystr \<Rightarrow> pystr \<Rightarrow> bool" where
  "ic_prefix [] xs = True"
| "ic_prefix (p # ps) [] = False"
| "ic_prefix (p # ps) (x # xs) = (re_ic_match p x \<and> ic_prefix ps xs)"

text \<open>
  The lookahead \<open>(?=;|$|\n\n|\Z)\<close> on the rest of the text: a semicolon next,
  the end of the text, a single final newline (\<open>$\<close> without \<open>re.MULTILINE\<close>),
  or two newlines.
\<close>

fun lookahead_stop :: "pystr \<Rightarrow> bool" where
  "lookahead_stop [] = True"
| "lookahead_stop [c] = (c = 59 \<or> c = 10)"
| "lookahead_stop (c # d # cs) = (c = 59 \<or> (c = 10 \<and> d = 10))"

section \<open>The scanner\<close>

text \<open>\<open>.*?\<close> under \<open>re.DOTALL\<close>: the shortest prefix after which the lookahead holds.\<close>

fun lazy_body :: "pystr \<Rightarrow> pystr" where
  "lazy_body [] = []"
| "lazy_body (c # cs) = (if lookahead_stop (c # cs) then [] else c # lazy_body cs)"

text \<open>The first alternative of the group that matches at the start of the text, by length.\<close>

definition kw_prefix :: "pystr \<Rightarrow> nat option" where
  "kw_prefix xs = map_option length (find (\<lambda>k. ic_prefix k xs) sql_keywords)"

definition match_here :: "pystr \<Rightarrow> pystr option" where
  "match_here xs =
     (case kw_prefix xs of
        None \<Rightarrow> None
      | Some k \<Rightarrow>
          (let r = drop k xs; ws = takeWhile py_isspace r in
           if ws = [] then None
           else Some (take k xs @ ws @ lazy_body (dropWhile py_isspace r))))"

text \<open>\<open>re.search\<close>: the match at the leftmost position where there is one.\<close>

fun re_search :: "pystr \<Rightarrow> pystr option" where
  "re_search [] = match_here []"
| "re_search (c # cs) = (case match_here (c # cs) of Some m \<Rightarrow> Some m | None \<Rightarrow> re_search cs)"

section \<open>The backtracking reference\<close>

text \<open>
  After an alternative of length \<open>k\<close>: the greedy \<open>\s+\<close> tries \<open>n\<close> whitespace
  characters from the longest run down to one, and for each the lazy \<open>.*?\<close> tries
  \<open>j\<close> characters from zero up to the end of the text. A candidate is the matched
  text and the rest, which the lookahead must accept.
\<close>

definition bt_candidates :: "pystr \<Rightarrow> nat \<Rightarrow> (pystr \<times> pystr) list" where
  "bt_candidates xs k =
     concat (map (\<lambda>n. map (\<lambda>j. (take (k + n + j) xs, drop (k + n + j) xs))
                         [0..<Suc (length xs - (k + n))])
                 (rev [1..<Suc (length (takeWhile py_isspace (drop k xs)))]))"

definition bt_match_here :: "pystr \<Rightarrow> pystr option" where
  "bt_match_here xs =
     first_some (\<lambda>kw. if ic_prefix kw xs
                      then map_option fst (find (\<lambda>(m, r). lookahead_stop r) (bt_candidates xs (length kw)))
                      else None)
       sql_keywords"

definition bt_search :: "pystr \<Rightarrow> pystr option" where
  "bt_search xs = first_some (\<lambda>p. bt_match_here (drop p xs)) [0..<Suc (length xs)]"

section \<open>The extractor\<close>

definition extract_sql_query :: "pystr \<Rightarrow> pystr option" where
  "extract_sql_query response =
     (case re_search response of
        None \<Rightarrow> None
      | Some m \<Rightarrow>
          (let sql_query = py_strip m in
           Some (if py_endswith sql_query (U '';'') then sql_query else sql_query @ U '';'')))"

section \<open>Lemmas\<close>

subsection \<open>The lazy body and the keywords\<close>

lemma lazy_body_spec:
  "lazy_body ys = take (length (lazy_body ys)) ys \<and> lookahead_stop (drop (length (lazy_body ys)) ys) \<and>
   (\<forall>i < length (lazy_body ys). \<not> lookahead_stop (drop i ys))"
proof (induction ys)
  case Nil
  then show ?case by simp
next
  case (Cons c cs)
  then show ?case by (auto simp: less_Suc_eq_0_disj)
qed

lemma lazy_body_length: "length (lazy_body ys) \<le> length ys"
  by (induction ys) auto

lemma ic_prefix_length: "ic_prefix k xs \<Longrightarrow> length k \<le> length xs"
  by (induction k xs rule: ic_prefix.induct) auto

lemma re_ic_match_letter:
  "65 \<le> p \<Longrightarrow> p \<le> 90 \<Longrightarrow> re_ic_match p x \<Longrightarrow> \<not> py_isspace x \<and> x \<noteq> 59"
  unfolding re_ic_match_def ascii_lower_def py_isspace_def by (auto split: if_splits)

lemma re_ic_match_letters_eq:
  "65 \<le> p \<Longrightarrow> p \<le> 90 \<Longrightarrow> 65 \<le> q \<Longrightarrow> q \<le> 90 \<Longrightarrow> re_ic_match p x \<Longrightarrow> re_ic_match q x \<Longrightarrow> p = q"
  unfolding re_ic_match_def ascii_lower_def by (auto split: if_splits)

lemma sql_keywords_prefix_free:
  "k1 \<in> set sql_keywords \<Longrightarrow> k2 \<in> set sql_keywords \<Longrightarrow> prefix k1 k2 \<Longrightarrow> k1 = k2"
  unfolding sql_keywords_def by auto


lemma ic_prefix_comparable:
  "upper_word k1 \<Longrightarrow> upper_word k2 \<Longrightarrow> ic_prefix k1 xs \<Longrightarrow> ic_prefix k2 xs \<Longrightarrow>
   prefix k1 k2 \<or> prefix k2 k1"
proof (induction xs arbitrary: k1 k2)
  case Nil
  then show ?case by (cases k1; cases k2) auto
next
  case (Cons x xs)
  show ?case
  proof (cases k1)
    case Nil
    then show ?thesis by simp
  next
    case k1: (Cons p ps)
    show ?thesis
    proof (cases k2)
      case Nil
      then show ?thesis by simp
    next
      case k2: (Cons q qs)
      have "p = q"
        using Cons.prems k1 k2 re_ic_match_letters_eq [of p q x] by (simp add: upper_word_def)
      moreover have "prefix ps qs \<or> prefix qs ps"
        using Cons.IH [of ps qs] Cons.prems k1 k2 by (simp add: upper_word_def)
      ultimately show ?thesis using k1 k2 by auto
    qed
  qed
qed

lemma sql_keywords_upper: "k \<in> set sql_keywords \<Longrightarrow> upper_word k"
  unfolding sql_keywords_def upper_word_def by auto

lemma sql_keyword_unique:
  "k1 \<in> set sql_keywords \<Longrightarrow> k2 \<in> set sql_keywords \<Longrightarrow> ic_prefix k1 xs \<Longrightarrow> ic_prefix k2 xs \<Longrightarrow> k1 = k2"
  by (metis ic_prefix_comparable sql_keywords_upper sql_keywords_prefix_free)

lemma kw_prefix_Some:
  assumes "kw \<in> set sql_keywords" "ic_prefix kw xs"
  shows "kw_prefix xs = Some (length kw)"
proof -
  have u: "\<forall>y\<in>set sql_keywords. ic_prefix y xs \<longrightarrow> y = kw"
    using assms sql_keyword_unique by blast
  have "find (\<lambda>k. ic_prefix k xs) sql_keywords = Some kw"
    by (rule find_unique) (use assms u in blast)+
  then show ?thesis by (simp add: kw_prefix_def)
qed

lemma kw_prefix_None:
  "kw_prefix xs = None \<longleftrightarrow> (\<forall>kw\<in>set sql_keywords. \<not> ic_prefix kw xs)"
  by (auto simp: kw_prefix_def find_None_iff)

subsection \<open>The shape of a match\<close>

lemma lazy_body_no_semicolon: "59 \<notin> set (lazy_body ys)"
proof (induction ys)
  case (Cons c cs)
  then show ?case by (cases cs) auto
qed simp

lemma lazy_body_is_prefix: "prefix (lazy_body ys) ys"
  by (induction ys) auto

lemma lazy_body_prefix_semicolon:
  "prefix b (lazy_body ys) \<Longrightarrow> lazy_body (b @ [59]) = b"
proof (induction ys arbitrary: b)
  case Nil
  then show ?case by simp
next
  case (Cons c cs)
  show ?case
  proof (cases b)
    case Nil
    then show ?thesis by simp
  next
    case bC: (Cons d b')
    have ne: "lazy_body (c # cs) \<noteq> []" using Cons.prems bC by auto
    then have ns: "\<not> lookahead_stop (c # cs)" by (metis lazy_body.simps(2))
    then have "prefix (d # b') (c # lazy_body cs)" using Cons.prems bC by simp
    then have d: "d = c" and p: "prefix b' (lazy_body cs)" by simp_all
    have "\<not> lookahead_stop (c # b' @ [59])"
    proof (cases b')
      case Nil
      with ns show ?thesis by (cases cs) auto
    next
      case (Cons e b'')
      have "prefix b' cs" using p lazy_body_is_prefix [of cs] by (rule prefix_order.order_trans)
      with Cons obtain cs' where "cs = e # cs'" by (cases cs) auto
      with ns Cons show ?thesis by simp
    qed
    then show ?thesis using Cons.IH [OF p] bC d by simp
  qed
qed
lemma ic_prefix_take_append:
  "ic_prefix k xs \<Longrightarrow> ic_prefix k (take (length k) xs @ ys)"
  by (induction k xs rule: ic_prefix.induct) auto

lemma ic_prefix_chars:
  "ic_prefix k xs \<Longrightarrow> upper_word k \<Longrightarrow> \<forall>x\<in>set (take (length k) xs). \<not> py_isspace x \<and> x \<noteq> 59"
  by (induction k xs rule: ic_prefix.induct) (auto simp: upper_word_def dest: re_ic_match_letter)

lemma sql_keywords_nonempty: "k \<in> set sql_keywords \<Longrightarrow> k \<noteq> []"
  by (auto simp: sql_keywords_def)

text \<open>A match is a keyword, a run of whitespace and the lazy body of what follows.\<close>

lemma match_here_SomeE:
  assumes "match_here xs = Some m"
  obtains kw ws rest where "kw \<in> set sql_keywords" "ic_prefix kw xs"
    "xs = take (length kw) xs @ ws @ rest" "ws \<noteq> []" "\<forall>x\<in>set ws. py_isspace x"
    "rest = [] \<or> \<not> py_isspace (hd rest)" "m = take (length kw) xs @ ws @ lazy_body rest"
proof -
  obtain k where k: "kw_prefix xs = Some k" using assms by (cases "kw_prefix xs") (auto simp: match_here_def)
  then obtain kw where kw: "kw \<in> set sql_keywords" "ic_prefix kw xs" "k = length kw"
    by (auto simp: kw_prefix_def dest!: find_Some_iff [THEN iffD1]) (metis nth_mem)
  let ?ws = "takeWhile py_isspace (drop k xs)" and ?rest = "dropWhile py_isspace (drop k xs)"
  have "?ws \<noteq> []" "m = take k xs @ ?ws @ lazy_body ?rest"
    using assms k by (auto simp: match_here_def Let_def split: if_splits)
  moreover have "xs = take k xs @ ?ws @ ?rest" by simp
  moreover have "?rest = [] \<or> \<not> py_isspace (hd ?rest)" by (metis hd_dropWhile)
  moreover have "\<forall>x\<in>set ?ws. py_isspace x" by (metis set_takeWhileD)
  ultimately show ?thesis using that kw by metis
qed

lemma re_search_Some: "re_search r = Some m \<Longrightarrow> \<exists>xs. suffix xs r \<and> match_here xs = Some m"
proof (induction r)
  case Nil
  then show ?case by auto
next
  case (Cons c cs)
  then show ?case by (auto split: option.splits intro: suffix_ConsI)
qed

lemma match_here_core:
  assumes "match_here xs = Some m"
  obtains kw ws b where "kw \<in> set sql_keywords" "ic_prefix kw xs"
    "m = take (length kw) xs @ ws @ b" "prefix m xs" "59 \<notin> set m"
    "py_strip m = (if py_strip b = [] then take (length kw) xs else take (length kw) xs @ ws @ py_strip b)"
    "\<forall>x\<in>set ws. py_isspace x" "prefix (py_strip b) b" "b = lazy_body (drop (length kw + length ws) xs)"
    "ws \<noteq> []"
proof -
  obtain kw ws rest where kw: "kw \<in> set sql_keywords" "ic_prefix kw xs"
    and xs0: "xs = take (length kw) xs @ ws @ rest" and ws: "ws \<noteq> []" "\<forall>x\<in>set ws. py_isspace x"
    and rest: "rest = [] \<or> \<not> py_isspace (hd rest)"
    and m0: "m = take (length kw) xs @ ws @ lazy_body rest"
    by (rule match_here_SomeE [OF assms])
  define t where "t = take (length kw) xs"
  define b where "b = lazy_body rest"
  have xs: "xs = t @ ws @ rest" and m: "m = t @ ws @ b" using xs0 m0 by (simp_all add: t_def b_def)
  have lk: "length t = length kw" using ic_prefix_length [OF kw(2)] by (simp add: t_def)
  have tch: "\<forall>x\<in>set t. \<not> py_isspace x \<and> x \<noteq> 59"
    using ic_prefix_chars [OF kw(2) sql_keywords_upper [OF kw(1)]] by (simp add: t_def)
  have tne: "t \<noteq> []" using lk sql_keywords_nonempty [OF kw(1)] by auto
  have th: "\<not> py_isspace (hd t)" "\<not> py_isspace (last t)"
    using tch hd_in_set [OF tne] last_in_set [OF tne] by blast+
  have pb: "prefix b rest" by (simp add: b_def lazy_body_is_prefix)
  have bh: "b = [] \<or> \<not> py_isspace (hd b)"
    using pb rest by (cases b) (auto simp: prefix_def)
  have st: "py_strip m = (if py_strip b = [] then t else t @ ws @ py_strip b)"
    unfolding m using tne th ws(2) bh by (rule py_strip_core)
  have pm: "prefix m xs" using pb by (simp add: m xs)
  have sc: "59 \<notin> set m"
    unfolding m b_def using tch ws(2) lazy_body_no_semicolon [of rest] py_isspace_ascii(5) by auto
  have dr: "drop (length kw + length ws) xs = rest" using lk by (simp add: xs)
  show ?thesis
    by (rule that [OF kw m [unfolded t_def] pm sc st [unfolded t_def] ws(2) py_strip_prefix [OF bh]])
       (simp_all add: dr b_def ws(1))
qed

lemma semicolon_U [simp]: "U '';'' = [59]"
  by simp

lemma extract_sql_query_Some:
  assumes "extract_sql_query r = Some s"
  obtains m where "re_search r = Some m" "59 \<notin> set (py_strip m)" "s = py_strip m @ [59]"
proof -
  obtain m where m: "re_search r = Some m" and s0: "s = (if py_endswith (py_strip m) [59] then py_strip m else py_strip m @ [59])"
    using assms by (auto simp: extract_sql_query_def Let_def split: option.splits)
  obtain xs where "match_here xs = Some m" using re_search_Some [OF m] by blast
  then have "59 \<notin> set m" by (rule match_here_core) 
  then have nsc: "59 \<notin> set (py_strip m)" using py_strip_subset by blast
  then have "\<not> py_endswith (py_strip m) [59]" by (metis py_endswith_single last_in_set)
  with s0 have "s = py_strip m @ [59]" by simp
  with m nsc that show ?thesis by blast
qed

lemma match_here_rebuild:
  assumes kw: "kw \<in> set sql_keywords" "ic_prefix kw (t @ ws @ sb @ [59])" "length t = length kw"
    and ws: "ws \<noteq> []" "\<forall>x\<in>set ws. py_isspace x"
    and sb: "sb \<noteq> []" "\<not> py_isspace (hd sb)" "prefix sb (lazy_body ys)"
  shows "match_here (t @ ws @ sb @ [59]) = Some (t @ ws @ sb)"
proof -
  have k: "kw_prefix (t @ ws @ sb @ [59]) = Some (length kw)" by (rule kw_prefix_Some [OF kw(1,2)])
  have tw: "takeWhile py_isspace (ws @ sb @ [59]) = ws"
    using ws(2) sb(1,2) by (cases sb) simp_all
  have dw: "dropWhile py_isspace (ws @ sb @ [59]) = sb @ [59]"
    using ws(2) sb(1,2) by (cases sb) simp_all
  have lb: "lazy_body (sb @ [59]) = sb" by (rule lazy_body_prefix_semicolon [OF sb(3)])
  show ?thesis using k tw dw lb ws(1) kw(3) by (simp add: match_here_def Let_def)
qed

subsection \<open>The scanner is the backtracking search\<close>

lemma bt_candidates_result:
  assumes "k \<le> length xs"
  shows "map_option fst (find (\<lambda>(m, r). lookahead_stop r) (bt_candidates xs k)) =
    (let r = drop k xs; ws = takeWhile py_isspace r in
     if ws = [] then None else Some (take k xs @ ws @ lazy_body (dropWhile py_isspace r)))"
proof -
  define r where "r = drop k xs"
  define ws where "ws = takeWhile py_isspace r"
  define rest where "rest = dropWhile py_isspace r"
  define n where "n = length ws"
  show ?thesis
  proof (cases "ws = []")
    case True
    then have "bt_candidates xs k = []" by (simp add: bt_candidates_def ws_def r_def)
    with True show ?thesis by (simp add: ws_def r_def Let_def)
  next
    case False
    then have n: "0 < n" by (simp add: n_def)
    have r: "r = ws @ rest" by (simp add: ws_def rest_def)
    have rest: "drop (k + n) xs = rest"
      by (metis r r_def n_def drop_drop add.commute append_eq_conv_conj)
    define b where "b = lazy_body rest"
    have lenr: "length rest = length xs - (k + n)" using rest by (metis length_drop)
    have blen: "length b < Suc (length xs - (k + n))"
      using lazy_body_length [of rest] lenr by (simp add: b_def)
    have spec: "b = take (length b) rest" "lookahead_stop (drop (length b) rest)"
      "\<forall>i<length b. \<not> lookahead_stop (drop i rest)"
      using lazy_body_spec [of rest] by (simp_all add: b_def)
    have dr: "\<And>i. drop (k + n + i) xs = drop i rest"
      using rest by (metis drop_drop add.commute)
    let ?f = "\<lambda>j. (take (k + n + j) xs, drop (k + n + j) xs)"
    have blk: "find (\<lambda>(m, r). lookahead_stop r) (map ?f [0..<Suc (length xs - (k + n))]) = Some (?f (length b))"
      by (rule find_map_upt_first) (use blen spec in \<open>simp_all add: dr\<close>)
    have ups: "rev [1..<Suc n] = n # rev [1..<n]" using n by (simp add: upt_Suc_append)
    have "\<exists>tl. bt_candidates xs k = map ?f [0..<Suc (length xs - (k + n))] @ tl"
      using ups by (simp add: bt_candidates_def n_def ws_def r_def)
    then obtain tl where "bt_candidates xs k = map ?f [0..<Suc (length xs - (k + n))] @ tl" ..
    then have "find (\<lambda>(m, r). lookahead_stop r) (bt_candidates xs k) = Some (?f (length b))"
      by (simp only: find_append blk option.case)
    moreover have "take (k + n + length b) xs = take k xs @ ws @ b"
    proof -
      have "take (k + n + length b) xs = take k xs @ take (n + length b) r"
        by (simp add: r_def take_add add.assoc)
      also have "take (n + length b) r = ws @ take (length b) rest"
        by (simp add: r take_add n_def)
      finally show ?thesis using spec(1) by simp
    qed
    ultimately show ?thesis using False by (simp add: Let_def r_def ws_def rest_def b_def)
  qed
qed
lemma bt_match_here_eq: "bt_match_here xs = match_here xs"
proof (cases "\<exists>kw\<in>set sql_keywords. ic_prefix kw xs")
  case False
  then have "bt_match_here xs = None" by (simp add: bt_match_here_def)
  moreover have "kw_prefix xs = None" using False kw_prefix_None by blast
  ultimately show ?thesis by (simp add: match_here_def)
next
  case True
  then obtain kw where kw: "kw \<in> set sql_keywords" "ic_prefix kw xs" by blast
  have others: "\<forall>y\<in>set sql_keywords. y \<noteq> kw \<longrightarrow> \<not> ic_prefix y xs"
    using kw sql_keyword_unique by blast
  have "bt_match_here xs =
      map_option fst (find (\<lambda>(m, r). lookahead_stop r) (bt_candidates xs (length kw)))"
    unfolding bt_match_here_def using kw others by (subst first_some_unique [OF kw(1)]) auto
  then show ?thesis
    using kw_prefix_Some [OF kw] bt_candidates_result [OF ic_prefix_length [OF kw(2)]]
    by (simp add: match_here_def)
qed

section \<open>Properties of the extractor\<close>

lemmas extract_eval = extract_sql_query_def match_here_def kw_prefix_def sql_keywords_def
  re_ic_match_def ascii_lower_def py_strip_def py_lstrip_def py_rstrip_def py_isspace_def
  py_endswith_def


text \<open>
  C8. Whatever the model says, an extracted query is a single statement taken from
  its text: the stripped text of a contiguous piece of the response, beginning with one
  of the eight keywords, containing no semicolon, followed by exactly one semicolon.
\<close>

theorem extract_sql_query_statement:
  assumes "extract_sql_query r = Some s"
  shows "\<exists>m kw. sublist m r \<and> kw \<in> set sql_keywords \<and> ic_prefix kw s \<and>
           59 \<notin> set (py_strip m) \<and> s = py_strip m @ U '';''"
proof -
  obtain m where m: "re_search r = Some m" and nsc: "59 \<notin> set (py_strip m)" and s: "s = py_strip m @ [59]"
    using extract_sql_query_Some [OF assms] by blast
  obtain xs where suf: "suffix xs r" and mh: "match_here xs = Some m" using re_search_Some [OF m] by blast
  obtain kw where kw: "kw \<in> set sql_keywords" "ic_prefix kw xs" and pm: "prefix m xs"
    and st: "\<exists>u. py_strip m = take (length kw) xs @ u"
    using match_here_core [OF mh] by (metis append.right_neutral)
  have "sublist m r" using pm suf
    by (meson prefix_imp_sublist suffix_imp_sublist sublist_order.order_trans)
  moreover have "ic_prefix kw s" using st kw(2) s by (auto intro: ic_prefix_take_append)
  ultimately show ?thesis using kw nsc s by auto
qed

lemma extract_sql_query_statement_witness:
  "\<exists>m kw. sublist m (U ''Sure! SELECT Name FROM artists;'') \<and> kw \<in> set sql_keywords \<and>
     ic_prefix kw (U ''SELECT Name FROM artists;'') \<and> 59 \<notin> set (py_strip m) \<and>
     U ''SELECT Name FROM artists;'' = py_strip m @ U '';''"
proof -
  have "extract_sql_query (U ''Sure! SELECT Name FROM artists;'') = Some (U ''SELECT Name FROM artists;'')"
    by (simp add: extract_eval)
  then show ?thesis by (rule extract_sql_query_statement)
qed

text \<open>
  C10. Re-extraction. Running the extractor on a query it returned gives the same query
  back, except when the query is a bare keyword and its semicolon (the response had a
  keyword followed by whitespace only).
\<close>

theorem extract_sql_query_reextract:
  assumes "extract_sql_query r = Some s"
  shows "extract_sql_query s = Some s \<or>
         (\<exists>kw\<in>set sql_keywords. ic_prefix kw s \<and> length s = Suc (length kw))"
proof -
  obtain m where m: "re_search r = Some m" and nsc: "59 \<notin> set (py_strip m)" and s: "s = py_strip m @ [59]"
    using extract_sql_query_Some [OF assms] by blast
  obtain xs where mh: "match_here xs = Some m" using re_search_Some [OF m] by blast
  obtain kw ws b where kw: "kw \<in> set sql_keywords" "ic_prefix kw xs"
    and st: "py_strip m = (if py_strip b = [] then take (length kw) xs else take (length kw) xs @ ws @ py_strip b)"
    and ws: "\<forall>x\<in>set ws. py_isspace x" "ws \<noteq> []" and pb: "prefix (py_strip b) b"
    and b: "b = lazy_body (drop (length kw + length ws) xs)"
    using match_here_core [OF mh] by metis
  define t where "t = take (length kw) xs"
  have lt: "length t = length kw" using ic_prefix_length [OF kw(2)] by (simp add: t_def)
  show ?thesis
  proof (cases "py_strip b = []")
    case True
    then have "s = t @ [59]" using s st by (simp add: t_def)
    moreover have "ic_prefix kw (t @ [59])" using kw(2) by (simp add: t_def ic_prefix_take_append)
    ultimately show ?thesis using kw(1) lt by auto
  next
    case False
    define sb where "sb = py_strip b"
    have s2: "s = t @ ws @ sb @ [59]" and sm: "py_strip m = t @ ws @ sb"
      using s st False by (simp_all add: t_def sb_def)
    have ic: "ic_prefix kw s" using kw(2) s2 by (simp add: t_def ic_prefix_take_append)
    have mh2: "match_here s = Some (py_strip m)"
      unfolding s2 sm
      by (rule match_here_rebuild [OF kw(1) ic [unfolded s2] lt ws(2,1)])
         (use False py_strip_ends [OF False] pb b in \<open>simp_all add: sb_def\<close>)
    have "s \<noteq> []" using s2 by simp
    then obtain c cs where sc: "s = c # cs" by (meson neq_Nil_conv)
    have "re_search s = Some (py_strip m)" using mh2 sc by simp
    moreover have "\<not> py_endswith (py_strip m) [59]"
      using nsc by (metis py_endswith_single last_in_set)
    ultimately have "extract_sql_query s = Some (py_strip m @ [59])"
      by (simp add: extract_sql_query_def)
    with s show ?thesis by simp
  qed
qed

lemma extract_sql_query_reextract_witness:
  "extract_sql_query (U ''SELECT Name FROM artists;'') = Some (U ''SELECT Name FROM artists;'') \<or>
   (\<exists>kw\<in>set sql_keywords. ic_prefix kw (U ''SELECT Name FROM artists;'') \<and>
      length (U ''SELECT Name FROM artists;'') = Suc (length kw))"
proof -
  have "extract_sql_query (U ''Sure! SELECT Name FROM artists;'') = Some (U ''SELECT Name FROM artists;'')"
    by (simp add: extract_eval)
  then show ?thesis by (rule extract_sql_query_reextract)
qed



end
