(* ===== verification/Executor.thy ===== *)
theory Executor
  imports PyPrelude
begin

text \<open>
  The query executor, \<open>execute_query\<close> of \<open>src/ver1-1.py\<close> (lines 57--66): it opens a
  connection to the database file, runs one statement, fetches all rows, closes the
  connection and returns \<open>(rows, True, "success")\<close>, or \<open>(None, False, str(e))\<close> for
  any exception.

  The database engine is an interface, not a model of SQLite: \<open>run_statement\<close> gives
  the rows and the database after the statement inside the connection, or the
  driver's error message. The one rule of Python's \<open>sqlite3\<close> module the executor
  depends on is explicit: before a statement it classifies as data-modifying the
  module opens a transaction, and \<open>close()\<close> without \<open>commit()\<close> rolls it back.
  \<open>cpython_is_dml\<close> is that classification (\<open>Modules/_sqlite/statement.c\<close>:
  after leading blanks, the words insert, update, delete or replace in any case).
\<close>

section \<open>Values, rows and the driver\<close>

text \<open>The SQLite storage classes the program reads back (REAL and BLOB are not modelled).\<close>

datatype sqlval = SqlNull | SqlInt int | SqlText pystr

type_synonym row = "sqlval list"

text \<open>\<open>str(v)\<close> of a value, which is how the f-strings of the program render it.\<close>

fun py_str_sqlval :: "sqlval \<Rightarrow> pystr" where
  "py_str_sqlval SqlNull = U ''None''"
| "py_str_sqlval (SqlInt i) = py_str_int i"
| "py_str_sqlval (SqlText s) = s"

text \<open>The triple \<open>(result, success, error)\<close> that \<open>execute_query\<close> returns.\<close>

type_synonym exec_result = "row list option \<times> bool \<times> pystr"

record 'db sqlite_driver =
  run_statement :: "pystr \<Rightarrow> 'db \<Rightarrow> pystr + row list \<times> 'db"
  implicit_begin :: "pystr \<Rightarrow> bool"

definition ascii_ci_prefix :: "pystr \<Rightarrow> pystr \<Rightarrow> bool" where
  "ascii_ci_prefix p s \<longleftrightarrow> length p \<le> length s \<and> map ascii_lower (take (length p) s) = p"

definition cpython_is_dml :: "pystr \<Rightarrow> bool" where
  "cpython_is_dml sql =
     (let s = dropWhile (\<lambda>c. c = 32 \<or> c = 9 \<or> c = 13 \<or> c = 10) sql in
      ascii_ci_prefix (U ''insert'') s \<or> ascii_ci_prefix (U ''update'') s \<or>
      ascii_ci_prefix (U ''delete'') s \<or> ascii_ci_prefix (U ''replace'') s)"

definition cpython_driver :: "(pystr \<Rightarrow> 'db \<Rightarrow> pystr + row list \<times> 'db) \<Rightarrow> 'db sqlite_driver" where
  "cpython_driver run = \<lparr>run_statement = run, implicit_begin = cpython_is_dml\<rparr>"

section \<open>The executor\<close>

definition msg_success :: pystr where
  \<comment> \<open>line 64: success\<close>
  "msg_success = [3626, 3635, 3648, 3619, 3655, 3592]"

text \<open>
  The result and the database file after the connection is closed: a failed statement
  changes nothing; a successful one keeps its changes only when no implicit
  transaction was opened for it.
\<close>

definition execute_query :: "'db sqlite_driver \<Rightarrow> pystr \<Rightarrow> 'db \<Rightarrow> exec_result \<times> 'db" where
  "execute_query drv query db =
     (case run_statement drv query db of
        Inl e \<Rightarrow> ((None, False, e), db)
      | Inr (result, db') \<Rightarrow>
          ((Some result, True, msg_success), if implicit_begin drv query then db else db'))"

text \<open>The outcomes \<open>execute_query\<close> can return.\<close>

definition exec_outcome :: "exec_result \<Rightarrow> bool" where
  "exec_outcome out \<longleftrightarrow>
     (\<exists>rows. out = (Some rows, True, msg_success)) \<or> (\<exists>e. out = (None, False, e))"

section \<open>Lemmas\<close>

lemma execute_query_outcome: "exec_outcome (fst (execute_query drv q db))"
  by (auto simp: execute_query_def exec_outcome_def split: sum.split prod.split)

lemma execute_query_success_iff:
  "fst (snd (fst (execute_query drv q db))) \<longleftrightarrow> (\<exists>r. run_statement drv q db = Inr r)"
  by (auto simp: execute_query_def split: sum.split prod.split)

section \<open>Properties of the executor\<close>

text \<open>
  C14. Spec, section 4.4: \<open>execute_query\<close> never raises. A statement the driver
  rejects gives no rows, the failure flag and exactly the driver's message, and leaves
  the database as it was; an accepted one gives its rows, the success flag and the
  success text.
\<close>

theorem execute_query_contract:
  "case execute_query drv q db of ((rows, ok, err), db') \<Rightarrow>
     (ok \<longleftrightarrow> (\<exists>r. run_statement drv q db = Inr r)) \<and>
     (ok \<longrightarrow> (\<exists>r db''. run_statement drv q db = Inr (r, db'') \<and> rows = Some r \<and> err = msg_success)) \<and>
     (\<not> ok \<longrightarrow> rows = None \<and> db' = db \<and> run_statement drv q db = Inl err)"
  by (auto simp: execute_query_def split: sum.split prod.split)

lemma execute_query_contract_witness:
  "execute_query (cpython_driver (\<lambda>q n. Inl (U ''no such table: artist''))) (U ''SELECT Name FROM artist;'') (0::nat) =
     ((None, False, U ''no such table: artist''), 0)"
  using execute_query_contract [where drv = "cpython_driver (\<lambda>q n. Inl (U ''no such table: artist''))"
      and q = "U ''SELECT Name FROM artist;''" and db = "0::nat"]
  by (simp add: cpython_driver_def split: prod.splits)

text \<open>
  C15. Python's \<open>sqlite3\<close> opens a transaction before an INSERT, UPDATE, DELETE or
  REPLACE, and \<open>execute_query\<close> closes the connection without \<open>commit()\<close>: such a
  statement is reported as a success, with its rows, but the database file keeps
  nothing of it.
\<close>

theorem execute_query_dml_discarded:
  assumes "cpython_is_dml q" and "run q db = Inr (rows, db')"
  shows "execute_query (cpython_driver run) q db = ((Some rows, True, msg_success), db)"
  using assms by (simp add: execute_query_def cpython_driver_def)

lemma execute_query_dml_discarded_witness:
  "execute_query (cpython_driver (\<lambda>q n. Inr ([], Suc n))) (U ''INSERT INTO artists VALUES (1);'') (0::nat) =
     ((Some [], True, msg_success), 0)"
  using execute_query_dml_discarded [where q = "U ''INSERT INTO artists VALUES (1);''" and db = "0::nat"
      and run = "\<lambda>q n. Inr ([], Suc n)" and rows = "[]" and db' = 1]
  by (simp add: cpython_is_dml_def ascii_ci_prefix_def ascii_lower_def)

end
