(* ===== verification/Prompt.thy ===== *)
theory Prompt
  imports PyPrelude
begin

text \<open>
  The prompt builder of \<open>src/ver1-1.py\<close>: the prompt \<open>nl2sql\<close> sends first (lines
  81--89), the correction prompt it sends after a failed execution (lines 100--101),
  the failure messages \<open>nl2sql\<close> returns (lines 96, 106) and the static few-shot
  examples (lines 143--152). The Thai text of the source is written as its code points;
  each constant carries an English gloss.
\<close>

section \<open>Static configuration\<close>

text \<open>A few-shot example, the dictionary \<open>{"question": ..., "sql": ...}\<close> of the source.\<close>

record few_shot =
  ex_question :: pystr
  ex_sql :: pystr

definition examples :: "few_shot list" where
  "examples =
  [\<comment> \<open>the questions alternate English and Thai\<close>
   \<lparr>ex_question = U ''List all artists.'',
     ex_sql = U ''SELECT Name FROM artists;''\<rparr>,
   \<lparr>ex_question = [3649, 3626, 3604, 3591, 3619, 3634, 3618, 3594, 3639, 3656, 3629, 3624, 3636, 3621,
       3611, 3636, 3609, 3607, 3633, 3657, 3591, 3627, 3617, 3604],
     ex_sql = U ''SELECT Name FROM artists;''\<rparr>,
   \<lparr>ex_question = [3609, 3633, 3610, 3592, 3635, 3609, 3623, 3609, 3648, 3614, 3621, 3591, 3651, 3609,
       3649, 3605, 3656, 3621, 3632, 3629, 3633, 3621, 3610, 3633, 3657, 3617],
     ex_sql = U ''SELECT AlbumId, COUNT(*) FROM tracks GROUP BY AlbumId;''\<rparr>,
   \<lparr>ex_question = U ''Count the number of tracks in each album.'',
     ex_sql = U ''SELECT AlbumId, COUNT(*) FROM tracks GROUP BY AlbumId;''\<rparr>,
   \<lparr>ex_question = [3627, 3634, 3648, 3614, 3621, 3591, 3607, 3633, 3657, 3591, 3627, 3617, 3604, 3592,
       3634, 3585, 3629, 3633, 3621, 3610, 3633, 3657, 3617, 3607, 3637, 3656, 3617,
       3637] @ U '' AlbumId '' @ [3648, 3611, 3655, 3609] @ U '' 1'',
     ex_sql = U ''SELECT Name FROM tracks WHERE AlbumId = 1;''\<rparr>,
   \<lparr>ex_question = U ''Find all tracks from the album with AlbumId 1.'',
     ex_sql = U ''SELECT Name FROM tracks WHERE AlbumId = 1;''\<rparr>,
   \<lparr>ex_question = [3627, 3634, 3624, 3636, 3621, 3611, 3636, 3609, 3607, 3637, 3656, 3617, 3637, 3648,
       3614, 3621, 3591, 3618, 3634, 3623, 3607, 3637, 3656, 3626, 3640, 3604],
     ex_sql = U ''SELECT A.Name, T.Name, T.Milliseconds FROM artists A JOIN albums AL ON A.ArtistId = AL.ArtistId JOIN tracks T ON AL.AlbumId = T.AlbumId ORDER BY T.Milliseconds DESC LIMIT 1;''\<rparr>,
   \<lparr>ex_question = U ''Find the artist with the longest track.'',
     ex_sql = U ''SELECT A.Name, T.Name, T.Milliseconds FROM artists A JOIN albums AL ON A.ArtistId = AL.ArtistId JOIN tracks T ON AL.AlbumId = T.AlbumId ORDER BY T.Milliseconds DESC LIMIT 1;''\<rparr>]"

section \<open>Text of the prompts\<close>

definition txt_schema_header :: pystr where
  \<comment> \<open>line 81: database structure:\n\<close>
  "txt_schema_header = [3650, 3588, 3619, 3591, 3626, 3619, 3657, 3634, 3591, 3600, 3634, 3609, 3586, 3657,
     3629, 3617, 3641, 3621] @ U '':'' @ [10]"

definition txt_bilingual :: pystr where
  \<comment> \<open>line 82: you may answer in Thai and in English, the system's main languages\n\<close>
  "txt_bilingual = [3588, 3640, 3603, 3626, 3634, 3617, 3634, 3619, 3606, 3605, 3629, 3610, 3588, 3635,
     3606, 3634, 3617, 3652, 3604, 3657, 3607, 3633, 3657, 3591, 3616, 3634, 3625,
     3634, 3652, 3607, 3618, 3649, 3621, 3632, 3616, 3634, 3625, 3634, 3629, 3633,
     3591, 3585, 3620, 3625] @ U '' '' @ [3595, 3638, 3656, 3591, 3648, 3611, 3655,
     3609, 3616, 3634, 3625, 3634, 3627, 3621, 3633, 3585, 3586, 3629, 3591, 3619,
     3632, 3610, 3610, 10]"

definition txt_translate :: pystr where
  \<comment> \<open>line 83: translate the following natural-language question into an SQL query:\n\<close>
  "txt_translate = [3649, 3611, 3621, 3591, 3588, 3635, 3606, 3634, 3617, 3616, 3634, 3625, 3634, 3608,
     3619, 3619, 3617, 3594, 3634, 3605, 3636, 3605, 3656, 3629, 3652, 3611, 3609,
     3637, 3657, 3648, 3611, 3655, 3609] @ U '' SQL query:'' @ [10]"

definition txt_sql_only :: pystr where
  \<comment> \<open>line 84: answer with the SQL query only, no explanation\n\<close>
  "txt_sql_only = [3651, 3627, 3657, 3605, 3629, 3610, 3648, 3593, 3614, 3634, 3632] @
     U '' SQL query '' @ [3648, 3607, 3656, 3634, 3609, 3633, 3657, 3609] @ U '' '' @
     [3652, 3617, 3656, 3605, 3657, 3629, 3591, 3629, 3608, 3636, 3610, 3634, 3618,
     3648, 3614, 3636, 3656, 3617, 3648, 3605, 3636, 3617, 3627, 3619, 3639, 3629,
     3648, 3614, 3636, 3656, 3617, 3588, 3635, 3629, 3608, 3636, 3610, 3634, 3618,
     3651, 3604, 3654, 10]"

definition txt_question :: pystr where
  \<comment> \<open>line 85: question: "\<close>
  "txt_question = [3588, 3635, 3606, 3634, 3617] @ U '': '' @ [34]"

definition txt_examples :: pystr where
  \<comment> \<open>line 87: examples:\n\<close>
  "txt_examples = [3605, 3633, 3623, 3629, 3618, 3656, 3634, 3591] @ U '':'' @ [10]"

definition txt_example :: pystr where
  \<comment> \<open>line 89: example \<close>
  "txt_example = [3605, 3633, 3623, 3629, 3618, 3656, 3634, 3591] @ U '' ''"

definition txt_sql_error :: pystr where
  \<comment> \<open>line 100: the following SQL query has an error: \<close>
  "txt_sql_error = U ''SQL query '' @ [3605, 3656, 3629, 3652, 3611, 3609, 3637, 3657, 3617, 3637, 3586,
     3657, 3629, 3612, 3636, 3604, 3614, 3621, 3634, 3604] @ U '': ''"

definition txt_error :: pystr where
  \<comment> \<open>line 100: \nerror: \<close>
  "txt_error = [10, 3586, 3657, 3629, 3612, 3636, 3604, 3614, 3621, 3634, 3604] @ U '': ''"

definition txt_fix :: pystr where
  \<comment> \<open>line 101: please fix the query and answer with the SQL query only, no explanation\<close>
  "txt_fix = [3585, 3619, 3640, 3603, 3634, 3649, 3585, 3657, 3652, 3586] @ U '' query '' @ [3649,
     3621, 3632, 3651, 3627, 3657, 3605, 3629, 3610, 3648, 3593, 3614, 3634, 3632] @
     U '' SQL query '' @ [3648, 3607, 3656, 3634, 3609, 3633, 3657, 3609] @ U '' '' @
     [3652, 3617, 3656, 3605, 3657, 3629, 3591, 3629, 3608, 3636, 3610, 3634, 3618,
     3648, 3614, 3636, 3656, 3617, 3648, 3605, 3636, 3617]"

definition msg_no_sql :: pystr where
  \<comment> \<open>line 96: could not get an SQL query from the LLM's answer\<close>
  "msg_no_sql = [3652, 3617, 3656, 3626, 3634, 3617, 3634, 3619, 3606, 3604, 3638, 3591] @
     U '' SQL query '' @ [3592, 3634, 3585, 3588, 3635, 3605, 3629, 3610, 3586, 3629,
     3591] @ U '' LLM '' @ [3652, 3604, 3657]"

definition msg_no_sql_corrected :: pystr where
  \<comment> \<open>line 106: could not get an SQL query from the LLM's corrected answer\<close>
  "msg_no_sql_corrected = [3652, 3617, 3656, 3626, 3634, 3617, 3634, 3619, 3606, 3604, 3638, 3591] @
     U '' SQL query '' @ [3592, 3634, 3585, 3588, 3635, 3605, 3629, 3610, 3649, 3585,
     3657, 3652, 3586, 3586, 3629, 3591] @ U '' LLM '' @ [3652, 3604, 3657]"

section \<open>The prompts\<close>

text \<open>Line 89, once per example, numbered from \<open>i\<close> (\<open>enumerate(examples, 1)\<close>).\<close>

fun examples_text :: "nat \<Rightarrow> few_shot list \<Rightarrow> pystr" where
  "examples_text i [] = []"
| "examples_text i (ex # exs) =
     txt_example @ py_str_nat i @ U '':'' @ [10] @ txt_question @ ex_question ex @ [34, 10] @
     U ''SQL: '' @ ex_sql ex @ [10, 10] @ examples_text (Suc i) exs"

text \<open>Lines 81--89 of \<open>nl2sql\<close>.\<close>

definition nl2sql_prompt :: "pystr \<Rightarrow> pystr \<Rightarrow> few_shot list \<Rightarrow> pystr" where
  "nl2sql_prompt question schema_text exs =
     txt_schema_header @ schema_text @ [10] @ txt_bilingual @ txt_translate @ txt_sql_only @
     txt_question @ question @ [34, 10, 10] @ txt_examples @ examples_text 1 exs"

text \<open>Lines 100--101 of \<open>nl2sql\<close>.\<close>

definition correction_prompt :: "pystr \<Rightarrow> pystr \<Rightarrow> pystr" where
  "correction_prompt sql_query error =
     txt_sql_error @ sql_query @ txt_error @ error @ [10] @ txt_fix"

section \<open>Lemmas\<close>

lemma examples_text_contains:
  "ex \<in> set exs \<Longrightarrow> py_in (ex_question ex) (examples_text i exs) \<and> py_in (ex_sql ex) (examples_text i exs)"
proof (induction exs arbitrary: i)
  case Nil
  then show ?case by simp
next
  case (Cons e exs)
  let ?hd = "txt_example @ py_str_nat i @ U '':'' @ [10] @ txt_question"
  let ?tl = "[10, 10] @ examples_text (Suc i) exs"
  have q: "examples_text i (e # exs) = ?hd @ ex_question e @ ([34, 10] @ U ''SQL: '' @ ex_sql e @ ?tl)"
    and s: "examples_text i (e # exs) = (?hd @ ex_question e @ [34, 10] @ U ''SQL: '') @ ex_sql e @ ?tl"
    and r: "examples_text i (e # exs) =
      (?hd @ ex_question e @ [34, 10] @ U ''SQL: '' @ ex_sql e @ [10, 10]) @ examples_text (Suc i) exs @ []"
    by (simp only: examples_text.simps append_assoc append_Nil2)+
  show ?case
  proof (cases "ex = e")
    case True
    have "py_in (ex_question e) (examples_text i (e # exs))" by (subst q) (rule py_in_middle)
    moreover have "py_in (ex_sql e) (examples_text i (e # exs))" by (subst s) (rule py_in_middle)
    ultimately show ?thesis using True by simp
  next
    case False
    with Cons.prems have "ex \<in> set exs" by simp
    then have "py_in (ex_question ex) (examples_text (Suc i) exs) \<and> py_in (ex_sql ex) (examples_text (Suc i) exs)"
      by (rule Cons.IH)
    then show ?thesis unfolding r by (simp only: py_in_mono)
  qed
qed

section \<open>Properties of the prompt\<close>

text \<open>
  C17. The first prompt holds the question verbatim and, after it, every few-shot
  example's question and query verbatim. The spec (section 4.2) puts the examples
  before the target question; the code puts them after it.
\<close>

theorem nl2sql_prompt_examples_after_question:
  "\<exists>pre post. nl2sql_prompt question schema_text exs = pre @ question @ post \<and>
     (\<forall>ex\<in>set exs. py_in (ex_question ex) post \<and> py_in (ex_sql ex) post)"
proof -
  let ?pre = "txt_schema_header @ schema_text @ [10] @ txt_bilingual @ txt_translate @ txt_sql_only @ txt_question"
  let ?post = "[34, 10, 10] @ txt_examples @ examples_text 1 exs"
  have "nl2sql_prompt question schema_text exs = ?pre @ question @ ?post"
    by (simp add: nl2sql_prompt_def)
  moreover have "\<forall>ex\<in>set exs. py_in (ex_question ex) ?post \<and> py_in (ex_sql ex) ?post"
    using examples_text_contains [of _ exs 1]
    by (metis py_in_mono append.right_neutral append_assoc)
  ultimately show ?thesis by blast
qed

lemma nl2sql_prompt_examples_after_question_witness:
  "\<exists>pre post. nl2sql_prompt (U ''List all artists.'') [] examples = pre @ U ''List all artists.'' @ post \<and>
     py_in (U ''SELECT Name FROM artists;'') post"
  using nl2sql_prompt_examples_after_question [where question = "U ''List all artists.''" and schema_text = "[]" and exs = examples]
  by (auto simp: examples_def)

end
