(* ===== verification/Correction.thy ===== *)
theory Correction
  imports Extractor Executor Prompt
begin

text \<open>
  The correction loop, \<open>nl2sql\<close> of \<open>src/ver1-1.py\<close> (lines 80--109): build the prompt,
  call the model, extract a query, run it; if it fails, send the correction prompt,
  extract again and run the corrected query once.

  The two services are part of the environment. The model service
  (\<open>ollama.generate(model=..., prompt=...)["response"]\<close>) is a function of everything
  that happened before the call, so the model may answer differently each time, and
  may raise. The database is the state the executor reads and changes. Every call to
  either service is recorded in the world's trace, which is how the number of calls
  and their order are stated. Below the code's model, \<open>loop_step\<close> is the state
  machine of the spec (section 4.5) as a step relation labelled with the events, and
  \<open>loop_reach\<close> its runs from \<open>Start\<close>.
\<close>

section \<open>Environment, world and events\<close>

text \<open>A call of the model (name, prompt, response or exception) or of the database.\<close>

datatype event =
    ModelCall pystr pystr "pyexc + pystr"
  | DbExec pystr exec_result

record 'db env =
  llm :: "event list \<Rightarrow> pystr \<Rightarrow> pystr \<Rightarrow> pyexc + pystr"
  driver :: "'db sqlite_driver"

record 'db world =
  w_db :: 'db
  w_trace :: "event list"

text \<open>The tuple \<open>(sql_query, result, success, error)\<close> that \<open>nl2sql\<close> returns.\<close>

type_synonym nl2sql_result = "pystr option \<times> row list option \<times> bool \<times> pystr"

definition model_name :: pystr where
  "model_name = U ''gemma3:12b''"

definition ollama_generate :: "'db env \<Rightarrow> pystr \<Rightarrow> pystr \<Rightarrow> 'db world \<Rightarrow> (pyexc + pystr) \<times> 'db world" where
  "ollama_generate env model prompt w =
     (let r = llm env (w_trace w) model prompt in
      (r, w\<lparr>w_trace := w_trace w @ [ModelCall model prompt r]\<rparr>))"

definition run_query :: "'db env \<Rightarrow> pystr \<Rightarrow> 'db world \<Rightarrow> exec_result \<times> 'db world" where
  "run_query env sql w =
     (case execute_query (driver env) sql (w_db w) of
        (out, db') \<Rightarrow> (out, w\<lparr>w_db := db', w_trace := w_trace w @ [DbExec sql out]\<rparr>))"

section \<open>The loop\<close>

text \<open>
  The second half of \<open>nl2sql\<close> (lines 100--107), entered after a failed execution of
  \<open>sql_query\<close> with message \<open>error\<close>.
\<close>

definition nl2sql_retry :: "'db env \<Rightarrow> pystr \<Rightarrow> pystr \<Rightarrow> 'db world \<Rightarrow> (pyexc + nl2sql_result) \<times> 'db world" where
  "nl2sql_retry env sql_query error w =
     (case ollama_generate env model_name (correction_prompt sql_query error) w of
        (Inl e, w') \<Rightarrow> (Inl e, w')
      | (Inr response, w') \<Rightarrow>
          (case extract_sql_query (py_strip response) of
             None \<Rightarrow> (Inr (None, None, False, msg_no_sql_corrected), w')
           | Some sql_query' \<Rightarrow>
               (case run_query env sql_query' w' of
                  ((result, success, error'), w'') \<Rightarrow>
                    (Inr (Some sql_query', result, success, error'), w''))))"

definition nl2sql :: "'db env \<Rightarrow> pystr \<Rightarrow> pystr \<Rightarrow> few_shot list \<Rightarrow> 'db world \<Rightarrow>
    (pyexc + nl2sql_result) \<times> 'db world" where
  "nl2sql env question schema_text exs w =
     (case ollama_generate env model_name (nl2sql_prompt question schema_text exs) w of
        (Inl e, w1) \<Rightarrow> (Inl e, w1)
      | (Inr response, w1) \<Rightarrow>
          (case extract_sql_query (py_strip response) of
             None \<Rightarrow> (Inr (None, None, False, msg_no_sql), w1)
           | Some sql_query \<Rightarrow>
               (case run_query env sql_query w1 of
                  ((result, success, error), w2) \<Rightarrow>
                    if success then (Inr (Some sql_query, result, success, error), w2)
                    else nl2sql_retry env sql_query error w2)))"

section \<open>The specified state machine\<close>

text \<open>
  The states of section 4.5 of the spec, each with the data the next step needs, and
  \<open>Raised\<close> for an exception of the model service, which the code lets escape.
\<close>

datatype phase =
    Start
  | Generated pystr
  | Extracted pystr
  | Executed pystr exec_result
  | Corrected pystr
  | ReExecuted pystr exec_result
  | Done nl2sql_result
  | Raised pyexc

text \<open>
  One step, labelled with the calls it makes; \<open>p\<close> is the first prompt. The model's
  answers and the database's outcomes are any the services can give.
\<close>

inductive loop_step :: "pystr \<Rightarrow> phase \<Rightarrow> event list \<Rightarrow> phase \<Rightarrow> bool" where
  generate: "loop_step p Start [ModelCall model_name p (Inr resp)] (Generated (py_strip resp))"
| generate_raise: "loop_step p Start [ModelCall model_name p (Inl e)] (Raised e)"
| no_sql: "extract_sql_query r = None \<Longrightarrow>
    loop_step p (Generated r) [] (Done (None, None, False, msg_no_sql))"
| extracted: "extract_sql_query r = Some s \<Longrightarrow> loop_step p (Generated r) [] (Extracted s)"
| execute: "exec_outcome out \<Longrightarrow> loop_step p (Extracted s) [DbExec s out] (Executed s out)"
| succeeded: "loop_step p (Executed s (rows, True, err)) [] (Done (Some s, rows, True, err))"
| correct: "loop_step p (Executed s (rows, False, err))
    [ModelCall model_name (correction_prompt s err) (Inr resp)] (Corrected (py_strip resp))"
| correct_raise: "loop_step p (Executed s (rows, False, err))
    [ModelCall model_name (correction_prompt s err) (Inl e)] (Raised e)"
| no_sql_corrected: "extract_sql_query r = None \<Longrightarrow>
    loop_step p (Corrected r) [] (Done (None, None, False, msg_no_sql_corrected))"
| reexecute: "extract_sql_query r = Some s \<Longrightarrow> exec_outcome out \<Longrightarrow>
    loop_step p (Corrected r) [DbExec s out] (ReExecuted s out)"
| finished: "loop_step p (ReExecuted s (rows, ok, err)) [] (Done (Some s, rows, ok, err))"

text \<open>The runs from \<open>Start\<close>: the calls made so far and the state reached.\<close>

inductive loop_reach :: "pystr \<Rightarrow> event list \<Rightarrow> phase \<Rightarrow> bool" where
  start: "loop_reach p [] Start"
| step: "loop_reach p t q \<Longrightarrow> loop_step p q l q' \<Longrightarrow> loop_reach p (t @ l) q'"

fun is_model_call :: "event \<Rightarrow> bool" where
  "is_model_call (ModelCall m pr r) = True"
| "is_model_call (DbExec s out) = False"

definition model_calls :: "event list \<Rightarrow> nat" where
  "model_calls t = length (filter is_model_call t)"

definition db_execs :: "event list \<Rightarrow> nat" where
  "db_execs t = length (filter (Not \<circ> is_model_call) t)"

text \<open>
  What the runs keep: at most so many calls of each service in each state; every
  execution runs what was extracted from the model answer just before it; the data
  each state carries agrees with the calls that led to it; and a returned tuple has
  the shape section 3 of the spec gives the query result.
\<close>

fun calls_bound :: "phase \<Rightarrow> nat" where
  "calls_bound Start = 0"
| "calls_bound (Generated r) = 1"
| "calls_bound (Extracted s) = 1"
| "calls_bound (Executed s out) = 1"
| "calls_bound (Corrected r) = 2"
| "calls_bound (ReExecuted s out) = 2"
| "calls_bound (Done res) = 2"
| "calls_bound (Raised e) = 2"

fun execs_bound :: "phase \<Rightarrow> nat" where
  "execs_bound Start = 0"
| "execs_bound (Generated r) = 0"
| "execs_bound (Extracted s) = 0"
| "execs_bound (Executed s out) = 1"
| "execs_bound (Corrected r) = 1"
| "execs_bound (ReExecuted s out) = 2"
| "execs_bound (Done res) = 2"
| "execs_bound (Raised e) = 2"

definition execs_follow_extraction :: "event list \<Rightarrow> bool" where
  "execs_follow_extraction t \<longleftrightarrow>
     (\<forall>t1 s out t2. t = t1 @ DbExec s out # t2 \<longrightarrow>
        (\<exists>t0 m pr resp. t1 = t0 @ [ModelCall m pr (Inr resp)] \<and>
                        extract_sql_query (py_strip resp) = Some s))"

definition result_ok :: "nl2sql_result \<Rightarrow> bool" where
  "result_ok res \<longleftrightarrow>
     (case res of (sql, rows, ok, err) \<Rightarrow>
        (ok \<longrightarrow> sql \<noteq> None \<and> rows \<noteq> None) \<and> (\<not> ok \<longrightarrow> rows = None) \<and>
        (sql = None \<longrightarrow> \<not> ok \<and> (err = msg_no_sql \<or> err = msg_no_sql_corrected)))"

fun phase_data :: "phase \<Rightarrow> event list \<Rightarrow> bool" where
  "phase_data (Generated r) t =
     (\<exists>t0 m pr resp. t = t0 @ [ModelCall m pr (Inr resp)] \<and> r = py_strip resp)"
| "phase_data (Extracted s) t =
     (\<exists>t0 m pr resp. t = t0 @ [ModelCall m pr (Inr resp)] \<and> extract_sql_query (py_strip resp) = Some s)"
| "phase_data (Corrected r) t =
     (\<exists>t0 m pr resp. t = t0 @ [ModelCall m pr (Inr resp)] \<and> r = py_strip resp)"
| "phase_data (Executed s out) t = exec_outcome out"
| "phase_data (ReExecuted s out) t = exec_outcome out"
| "phase_data (Done res) t = result_ok res"
| "phase_data Start t = (t = [])"
| "phase_data (Raised e) t = True"

section \<open>Demonstration environments\<close>

text \<open>A database of one table and model services used to instantiate the theorems.\<close>

definition demo_driver :: "nat sqlite_driver" where
  "demo_driver =
     \<lparr>run_statement = (\<lambda>s db. if s = U ''SELECT Name FROM artists;'' then Inr ([[SqlText (U ''AC/DC'')]], db)
                              else Inl (U ''no such table: '' @ s)),
      implicit_begin = cpython_is_dml\<rparr>"

definition demo_env :: "(event list \<Rightarrow> pyexc + pystr) \<Rightarrow> nat env" where
  "demo_env answer = \<lparr>llm = (\<lambda>h m p. answer h), driver = demo_driver\<rparr>"

definition demo_world :: "nat world" where
  "demo_world = \<lparr>w_db = 0, w_trace = []\<rparr>"

section \<open>Lemmas\<close>

subsection \<open>The branches of the code\<close>

lemma ollama_generate_eq:
  "ollama_generate env m p w =
     (llm env (w_trace w) m p, w\<lparr>w_trace := w_trace w @ [ModelCall m p (llm env (w_trace w) m p)]\<rparr>)"
  by (simp add: ollama_generate_def Let_def)

lemma run_query_Inl:
  "run_statement (driver env) s (w_db w) = Inl e \<Longrightarrow>
   run_query env s w = ((None, False, e), w\<lparr>w_trace := w_trace w @ [DbExec s (None, False, e)]\<rparr>)"
  by (simp add: run_query_def execute_query_def)

lemma run_query_Inr:
  "run_statement (driver env) s (w_db w) = Inr (rows, db') \<Longrightarrow>
   run_query env s w = ((Some rows, True, msg_success),
     w\<lparr>w_db := (if implicit_begin (driver env) s then w_db w else db'),
       w_trace := w_trace w @ [DbExec s (Some rows, True, msg_success)]\<rparr>)"
  by (simp add: run_query_def execute_query_def)

lemmas loop_simps = ollama_generate_eq run_query_Inl run_query_Inr

lemma nl2sql_raise:
  "llm env (w_trace w) model_name (nl2sql_prompt q st exs) = Inl e \<Longrightarrow>
   nl2sql env q st exs w =
     (Inl e, w\<lparr>w_trace := w_trace w @ [ModelCall model_name (nl2sql_prompt q st exs) (Inl e)]\<rparr>)"
  by (simp add: nl2sql_def ollama_generate_eq)

lemma nl2sql_no_sql:
  "llm env (w_trace w) model_name (nl2sql_prompt q st exs) = Inr resp \<Longrightarrow>
   extract_sql_query (py_strip resp) = None \<Longrightarrow>
   nl2sql env q st exs w =
     (Inr (None, None, False, msg_no_sql),
      w\<lparr>w_trace := w_trace w @ [ModelCall model_name (nl2sql_prompt q st exs) (Inr resp)]\<rparr>)"
  by (simp add: nl2sql_def ollama_generate_eq)

lemma nl2sql_success:
  "llm env (w_trace w) model_name (nl2sql_prompt q st exs) = Inr resp \<Longrightarrow>
   extract_sql_query (py_strip resp) = Some s \<Longrightarrow>
   run_statement (driver env) s (w_db w) = Inr (rows, db') \<Longrightarrow>
   nl2sql env q st exs w =
     (Inr (Some s, Some rows, True, msg_success),
      w\<lparr>w_db := (if implicit_begin (driver env) s then w_db w else db'),
        w_trace := w_trace w @ [ModelCall model_name (nl2sql_prompt q st exs) (Inr resp),
                                DbExec s (Some rows, True, msg_success)]\<rparr>)"
  by (simp add: nl2sql_def ollama_generate_eq run_query_def execute_query_def)

lemma nl2sql_failure:
  "llm env (w_trace w) model_name (nl2sql_prompt q st exs) = Inr resp \<Longrightarrow>
   extract_sql_query (py_strip resp) = Some s \<Longrightarrow>
   run_statement (driver env) s (w_db w) = Inl e \<Longrightarrow>
   nl2sql env q st exs w =
     nl2sql_retry env s e
      (w\<lparr>w_trace := w_trace w @ [ModelCall model_name (nl2sql_prompt q st exs) (Inr resp),
                                DbExec s (None, False, e)]\<rparr>)"
  by (simp add: nl2sql_def ollama_generate_eq run_query_def execute_query_def)

lemma nl2sql_retry_raise:
  "llm env (w_trace w) model_name (correction_prompt s e) = Inl e' \<Longrightarrow>
   nl2sql_retry env s e w =
     (Inl e', w\<lparr>w_trace := w_trace w @ [ModelCall model_name (correction_prompt s e) (Inl e')]\<rparr>)"
  by (simp add: nl2sql_retry_def ollama_generate_eq)

lemma nl2sql_retry_no_sql:
  "llm env (w_trace w) model_name (correction_prompt s e) = Inr resp \<Longrightarrow>
   extract_sql_query (py_strip resp) = None \<Longrightarrow>
   nl2sql_retry env s e w =
     (Inr (None, None, False, msg_no_sql_corrected),
      w\<lparr>w_trace := w_trace w @ [ModelCall model_name (correction_prompt s e) (Inr resp)]\<rparr>)"
  by (simp add: nl2sql_retry_def ollama_generate_eq)

lemma nl2sql_retry_run:
  "llm env (w_trace w) model_name (correction_prompt s e) = Inr resp \<Longrightarrow>
   extract_sql_query (py_strip resp) = Some s' \<Longrightarrow>
   nl2sql_retry env s e w =
     (case run_query env s' (w\<lparr>w_trace := w_trace w @ [ModelCall model_name (correction_prompt s e) (Inr resp)]\<rparr>) of
        ((result, success, error'), w'') \<Rightarrow> (Inr (Some s', result, success, error'), w''))"
  by (simp add: nl2sql_retry_def ollama_generate_eq)

subsection \<open>Invariants of the machine\<close>

lemma model_calls_append [simp]: "model_calls (t @ u) = model_calls t + model_calls u"
  by (simp add: model_calls_def)

lemma db_execs_append [simp]: "db_execs (t @ u) = db_execs t + db_execs u"
  by (simp add: db_execs_def)

lemma model_calls_simps [simp]:
  "model_calls [] = 0" "model_calls (ModelCall m pr r # t) = Suc (model_calls t)"
  "model_calls (DbExec s out # t) = model_calls t"
  by (simp_all add: model_calls_def)

lemma db_execs_simps [simp]:
  "db_execs [] = 0" "db_execs (ModelCall m pr r # t) = db_execs t"
  "db_execs (DbExec s out # t) = Suc (db_execs t)"
  by (simp_all add: db_execs_def)

lemma loop_reach_counts:
  "loop_reach p t q \<Longrightarrow> model_calls t \<le> calls_bound q \<and> db_execs t \<le> execs_bound q"
proof (induction rule: loop_reach.induct)
  case (start p)
  then show ?case by simp
next
  case (step p t q l q')
  from step.hyps(2) step.IH show ?case
    by (cases rule: loop_step.cases) auto
qed

lemma snoc_eq_append_Cons:
  assumes "t @ [x] = t1 @ y # t2" and "t2 \<noteq> []"
  shows "t = t1 @ y # butlast t2"
proof -
  have "butlast (t @ [x]) = butlast (t1 @ y # t2)" using assms(1) by simp
  then show ?thesis using assms(2) by (simp add: butlast_append)
qed

lemma snoc_eq_append_Cons_Nil:
  "t @ [x] = t1 @ y # [] \<Longrightarrow> t = t1 \<and> x = y"
  by simp

lemma execs_follow_extraction_Nil [simp]: "execs_follow_extraction []"
  by (simp add: execs_follow_extraction_def)

lemma execs_follow_extraction_snoc_call:
  "execs_follow_extraction t \<Longrightarrow> execs_follow_extraction (t @ [ModelCall m pr r])"
  unfolding execs_follow_extraction_def
proof (intro allI impI)
  fix t1 s out t2
  assume all: "\<forall>t1 s out t2. t = t1 @ DbExec s out # t2 \<longrightarrow>
      (\<exists>t0 m pr resp. t1 = t0 @ [ModelCall m pr (Inr resp)] \<and> extract_sql_query (py_strip resp) = Some s)"
    and eq: "t @ [ModelCall m pr r] = t1 @ DbExec s out # t2"
  then have "t2 \<noteq> []" by (cases t2) auto
  with eq have "t = t1 @ DbExec s out # butlast t2" by (rule snoc_eq_append_Cons)
  with all show "\<exists>t0 m pr resp. t1 = t0 @ [ModelCall m pr (Inr resp)] \<and> extract_sql_query (py_strip resp) = Some s"
    by blast
qed

lemma execs_follow_extraction_snoc_exec:
  assumes "execs_follow_extraction t" and "t = t0 @ [ModelCall m pr (Inr resp)]"
    and "extract_sql_query (py_strip resp) = Some s"
  shows "execs_follow_extraction (t @ [DbExec s out])"
  unfolding execs_follow_extraction_def
proof (intro allI impI)
  fix t1 s' out' t2
  assume eq: "t @ [DbExec s out] = t1 @ DbExec s' out' # t2"
  show "\<exists>t0 m pr resp. t1 = t0 @ [ModelCall m pr (Inr resp)] \<and> extract_sql_query (py_strip resp) = Some s'"
  proof (cases "t2 = []")
    case True
    with eq assms(2,3) show ?thesis by auto
  next
    case False
    with eq have "t = t1 @ DbExec s' out' # butlast t2" by (rule snoc_eq_append_Cons)
    with assms(1) show ?thesis unfolding execs_follow_extraction_def by blast
  qed
qed

lemma execs_follow_extraction_single_call [simp]:
  "execs_follow_extraction [ModelCall m pr r]"
  using execs_follow_extraction_snoc_call [of "[]"] by simp

lemma result_ok_exec:
  "exec_outcome (rows, ok, err) \<Longrightarrow> result_ok (Some s, rows, ok, err)"
  by (auto simp: result_ok_def exec_outcome_def)

lemma loop_reach_safe:
  "loop_reach p t q \<Longrightarrow> execs_follow_extraction t \<and> phase_data q t"
proof (induction rule: loop_reach.induct)
  case (start p)
  then show ?case by simp
next
  case (step p t q l q')
  from step.hyps(2) show ?case
  proof (cases rule: loop_step.cases)
    case (generate resp)
    then show ?thesis using step.IH by auto
  next
    case (generate_raise e)
    then show ?thesis using step.IH by auto
  next
    case (no_sql r)
    then show ?thesis using step.IH by (simp add: result_ok_def)
  next
    case (extracted r s)
    then show ?thesis using step.IH by auto
  next
    case (execute out s)
    then show ?thesis using step.IH by (auto intro: execs_follow_extraction_snoc_exec)
  next
    case (succeeded s rows err)
    then show ?thesis using step.IH result_ok_exec by simp
  next
    case (correct s rows err resp)
    then show ?thesis using step.IH by (auto intro: execs_follow_extraction_snoc_call)
  next
    case (correct_raise s rows err e)
    then show ?thesis using step.IH by (simp add: execs_follow_extraction_snoc_call)
  next
    case (no_sql_corrected r)
    then show ?thesis using step.IH by (simp add: result_ok_def)
  next
    case (reexecute r s out)
    then show ?thesis using step.IH by (auto intro: execs_follow_extraction_snoc_exec)
  next
    case (finished s rows ok err)
    then show ?thesis using step.IH result_ok_exec by simp
  qed
qed

subsection \<open>The code runs the machine\<close>

lemma loop_reach_snoc:
  "loop_reach p t q \<Longrightarrow> loop_step p q l q' \<Longrightarrow> t' = t @ l \<Longrightarrow> loop_reach p t' q'"
  by (simp add: loop_reach.step)

lemma run_query_eq:
  assumes "execute_query (driver env) s (w_db w) = (out, db')"
  shows "run_query env s w = (out, w\<lparr>w_db := db', w_trace := w_trace w @ [DbExec s out]\<rparr>)"
  using assms by (simp add: run_query_def)

lemma exec_outcome_of:
  "execute_query drv s db = (out, db') \<Longrightarrow> exec_outcome out"
  using execute_query_outcome [of drv s db] by simp

lemma nl2sql_retry_loop:
  assumes reach: "loop_reach p t (Executed s (rows, False, e))"
  shows "case nl2sql_retry env s e w of (r, w') \<Rightarrow>
           \<exists>u. w_trace w' = w_trace w @ u \<and>
               loop_reach p (t @ u) (case r of Inl x \<Rightarrow> Raised x | Inr res \<Rightarrow> Done res)"
proof (cases "llm env (w_trace w) model_name (correction_prompt s e)")
  case (Inl x)
  have "loop_reach p (t @ [ModelCall model_name (correction_prompt s e) (Inl x)]) (Raised x)"
    using reach loop_step.correct_raise by (rule loop_reach.step)
  then show ?thesis using nl2sql_retry_raise [OF Inl] by simp
next
  case (Inr resp)
  let ?c = "ModelCall model_name (correction_prompt s e) (Inr resp)"
  have corr: "loop_reach p (t @ [?c]) (Corrected (py_strip resp))"
    using reach loop_step.correct by (rule loop_reach.step)
  show ?thesis
  proof (cases "extract_sql_query (py_strip resp)")
    case None
    have "loop_reach p (t @ [?c]) (Done (None, None, False, msg_no_sql_corrected))"
      by (rule loop_reach_snoc [OF corr loop_step.no_sql_corrected [OF None]]) simp
    then show ?thesis using nl2sql_retry_no_sql [OF Inr None] by simp
  next
    case (Some s')
    let ?w1 = "w\<lparr>w_trace := w_trace w @ [?c]\<rparr>"
    obtain out db' where ex: "execute_query (driver env) s' (w_db ?w1) = (out, db')"
      by (cases "execute_query (driver env) s' (w_db ?w1)")
    obtain rows' ok err where out: "out = (rows', ok, err)" by (cases out)
    have "loop_reach p (t @ [?c] @ [DbExec s' out]) (ReExecuted s' out)"
      by (rule loop_reach_snoc [OF corr loop_step.reexecute [OF Some exec_outcome_of [OF ex]]]) simp
    then have re: "loop_reach p (t @ [?c, DbExec s' out]) (ReExecuted s' (rows', ok, err))"
      using out by simp
    have "loop_reach p (t @ [?c, DbExec s' out]) (Done (Some s', rows', ok, err))"
      by (rule loop_reach_snoc [OF re loop_step.finished]) simp
    then show ?thesis
      using nl2sql_retry_run [OF Inr Some] run_query_eq [OF ex] out by simp
  qed
qed

lemma nl2sql_loop:
  "case nl2sql env q st exs w of (r, w') \<Rightarrow>
     \<exists>t. w_trace w' = w_trace w @ t \<and>
         loop_reach (nl2sql_prompt q st exs) t (case r of Inl x \<Rightarrow> Raised x | Inr res \<Rightarrow> Done res)"
proof -
  let ?p = "nl2sql_prompt q st exs"
  show ?thesis
  proof (cases "llm env (w_trace w) model_name ?p")
    case (Inl x)
    have "loop_reach ?p ([] @ [ModelCall model_name ?p (Inl x)]) (Raised x)"
      using loop_reach.start loop_step.generate_raise by (rule loop_reach.step)
    then show ?thesis using nl2sql_raise [OF Inl] by simp
  next
    case (Inr resp)
    let ?c = "ModelCall model_name ?p (Inr resp)"
    have gen: "loop_reach ?p [?c] (Generated (py_strip resp))"
      using loop_reach.step [OF loop_reach.start loop_step.generate] by simp
    show ?thesis
    proof (cases "extract_sql_query (py_strip resp)")
      case None
      have "loop_reach ?p [?c] (Done (None, None, False, msg_no_sql))"
        by (rule loop_reach_snoc [OF gen loop_step.no_sql [OF None]]) simp
      then show ?thesis using nl2sql_no_sql [OF Inr None] by simp
    next
      case (Some s)
      have ext: "loop_reach ?p [?c] (Extracted s)"
        by (rule loop_reach_snoc [OF gen loop_step.extracted [OF Some]]) simp
      show ?thesis
      proof (cases "run_statement (driver env) s (w_db w)")
        case (Inl e)
        have out: "exec_outcome (None, False, e)" by (simp add: exec_outcome_def)
        have ex: "loop_reach ?p [?c, DbExec s (None, False, e)] (Executed s (None, False, e))"
          by (rule loop_reach_snoc [OF ext loop_step.execute [OF out]]) simp
        let ?w2 = "w\<lparr>w_trace := w_trace w @ [?c, DbExec s (None, False, e)]\<rparr>"
        have "case nl2sql_retry env s e ?w2 of (r, w') \<Rightarrow>
           \<exists>u. w_trace w' = w_trace ?w2 @ u \<and>
               loop_reach ?p ([?c, DbExec s (None, False, e)] @ u) (case r of Inl x \<Rightarrow> Raised x | Inr res \<Rightarrow> Done res)"
          by (rule nl2sql_retry_loop [OF ex])
        then show ?thesis using nl2sql_failure [OF Inr Some Inl]
          by (auto split: prod.splits)
      next
        case (Inr r)
        obtain rows db' where r: "r = (rows, db')" by (cases r)
        have out: "exec_outcome (Some rows, True, msg_success)" by (simp add: exec_outcome_def)
        have "loop_reach ?p [?c, DbExec s (Some rows, True, msg_success)] (Executed s (Some rows, True, msg_success))"
          by (rule loop_reach_snoc [OF ext loop_step.execute [OF out]]) simp
        then have "loop_reach ?p [?c, DbExec s (Some rows, True, msg_success)] (Done (Some s, Some rows, True, msg_success))"
          by (rule loop_reach_snoc [OF _ loop_step.succeeded]) simp
        then show ?thesis using nl2sql_success [OF \<open>llm env (w_trace w) model_name ?p = Inr resp\<close> Some Inr [unfolded r]]
          by simp
      qed
    qed
  qed
qed

section \<open>Properties of the loop\<close>

lemmas demo_simps = demo_driver_def demo_env_def demo_world_def extract_eval

lemmas nl2sql_eval = nl2sql_def nl2sql_retry_def ollama_generate_def run_query_def execute_query_def Let_def

text \<open>
  C3. Spec, section 8: when the first answer yields a query the database accepts, the
  loop returns that query and its rows as a success after exactly one model call and
  one execution.
\<close>

theorem nl2sql_first_attempt_succeeds:
  assumes "llm env (w_trace w) model_name (nl2sql_prompt q st exs) = Inr resp"
    and "extract_sql_query (py_strip resp) = Some s"
    and "run_statement (driver env) s (w_db w) = Inr (rows, db')"
  shows "fst (nl2sql env q st exs w) = Inr (Some s, Some rows, True, msg_success) \<and>
         w_trace (snd (nl2sql env q st exs w)) =
           w_trace w @ [ModelCall model_name (nl2sql_prompt q st exs) (Inr resp),
                        DbExec s (Some rows, True, msg_success)]"
  using nl2sql_success [OF assms] by simp

lemma nl2sql_first_attempt_succeeds_witness:
  "fst (nl2sql (demo_env (\<lambda>h. Inr (U ''Sure! SELECT Name FROM artists;''))) (U ''List all artists.'') [] [] demo_world) =
     Inr (Some (U ''SELECT Name FROM artists;''), Some [[SqlText (U ''AC/DC'')]], True, msg_success)"
  using nl2sql_first_attempt_succeeds
    [where env = "demo_env (\<lambda>h. Inr (U ''Sure! SELECT Name FROM artists;''))" and w = demo_world
       and q = "U ''List all artists.''" and st = "[]" and exs = "[]"
       and resp = "U ''Sure! SELECT Name FROM artists;''" and s = "U ''SELECT Name FROM artists;''"
       and rows = "[[SqlText (U ''AC/DC'')]]" and db' = 0]
  by (simp add: demo_simps)

text \<open>
  C4. Spec, section 8: when the first query fails and the corrected one succeeds,
  the loop makes two model calls, the second with the correction prompt built from the
  failed query and the driver's message, runs both queries and returns the second
  outcome.
\<close>

theorem nl2sql_correction_succeeds:
  assumes "llm env (w_trace w) model_name (nl2sql_prompt q st exs) = Inr resp"
    and "extract_sql_query (py_strip resp) = Some s"
    and "run_statement (driver env) s (w_db w) = Inl e"
    and "llm env (w_trace w @ [ModelCall model_name (nl2sql_prompt q st exs) (Inr resp),
           DbExec s (None, False, e)]) model_name (correction_prompt s e) = Inr resp'"
    and "extract_sql_query (py_strip resp') = Some s'"
    and "run_statement (driver env) s' (w_db w) = Inr (rows, db')"
  shows "fst (nl2sql env q st exs w) = Inr (Some s', Some rows, True, msg_success) \<and>
         w_trace (snd (nl2sql env q st exs w)) =
           w_trace w @ [ModelCall model_name (nl2sql_prompt q st exs) (Inr resp),
                        DbExec s (None, False, e),
                        ModelCall model_name (correction_prompt s e) (Inr resp'),
                        DbExec s' (Some rows, True, msg_success)]"
proof -
  let ?w2 = "w\<lparr>w_trace := w_trace w @ [ModelCall model_name (nl2sql_prompt q st exs) (Inr resp),
                                       DbExec s (None, False, e)]\<rparr>"
  have "llm env (w_trace ?w2) model_name (correction_prompt s e) = Inr resp'" using assms(4) by simp
  from nl2sql_retry_run [OF this assms(5)] nl2sql_failure [OF assms(1-3)] assms(6)
  show ?thesis by (simp add: run_query_Inr)
qed

lemma nl2sql_correction_succeeds_witness:
  "fst (nl2sql (demo_env (\<lambda>h. if h = [] then Inr (U ''SELECT Name FROM artist;'') else Inr (U ''SELECT Name FROM artists;'')))
          (U ''List all artists.'') [] [] demo_world) =
     Inr (Some (U ''SELECT Name FROM artists;''), Some [[SqlText (U ''AC/DC'')]], True, msg_success)"
  using nl2sql_correction_succeeds
    [where env = "demo_env (\<lambda>h. if h = [] then Inr (U ''SELECT Name FROM artist;'') else Inr (U ''SELECT Name FROM artists;''))"
       and w = demo_world and q = "U ''List all artists.''" and st = "[]" and exs = "[]"
       and resp = "U ''SELECT Name FROM artist;''" and s = "U ''SELECT Name FROM artist;''"
       and e = "U ''no such table: SELECT Name FROM artist;''"
       and resp' = "U ''SELECT Name FROM artists;''" and s' = "U ''SELECT Name FROM artists;''"
       and rows = "[[SqlText (U ''AC/DC'')]]" and db' = 0]
  by (simp add: demo_simps)

text \<open>
  C5. Spec, section 8: when both queries fail, the loop reports failure with the
  second query and the second error message, not the first.
\<close>

theorem nl2sql_both_fail:
  assumes "llm env (w_trace w) model_name (nl2sql_prompt q st exs) = Inr resp"
    and "extract_sql_query (py_strip resp) = Some s"
    and "run_statement (driver env) s (w_db w) = Inl e"
    and "llm env (w_trace w @ [ModelCall model_name (nl2sql_prompt q st exs) (Inr resp),
           DbExec s (None, False, e)]) model_name (correction_prompt s e) = Inr resp'"
    and "extract_sql_query (py_strip resp') = Some s'"
    and "run_statement (driver env) s' (w_db w) = Inl e'"
  shows "fst (nl2sql env q st exs w) = Inr (Some s', None, False, e')"
proof -
  let ?w2 = "w\<lparr>w_trace := w_trace w @ [ModelCall model_name (nl2sql_prompt q st exs) (Inr resp),
                                       DbExec s (None, False, e)]\<rparr>"
  have "llm env (w_trace ?w2) model_name (correction_prompt s e) = Inr resp'" using assms(4) by simp
  from nl2sql_retry_run [OF this assms(5)] nl2sql_failure [OF assms(1-3)] assms(6)
  show ?thesis by (simp add: run_query_Inl)
qed

lemma nl2sql_both_fail_witness:
  "fst (nl2sql (demo_env (\<lambda>h. if h = [] then Inr (U ''SELECT Name FROM artist;'') else Inr (U ''SELECT Name FROM artistz;'')))
          (U ''List all artists.'') [] [] demo_world) =
     Inr (Some (U ''SELECT Name FROM artistz;''), None, False, U ''no such table: SELECT Name FROM artistz;'')"
  using nl2sql_both_fail
    [where env = "demo_env (\<lambda>h. if h = [] then Inr (U ''SELECT Name FROM artist;'') else Inr (U ''SELECT Name FROM artistz;''))"
       and w = demo_world and q = "U ''List all artists.''" and st = "[]" and exs = "[]"
       and resp = "U ''SELECT Name FROM artist;''" and s = "U ''SELECT Name FROM artist;''"
       and e = "U ''no such table: SELECT Name FROM artist;''"
       and resp' = "U ''SELECT Name FROM artistz;''" and s' = "U ''SELECT Name FROM artistz;''"
       and e' = "U ''no such table: SELECT Name FROM artistz;''"]
  by (simp add: demo_simps)

text \<open>
  C6. Spec, section 4.5, step 2: when no query can be extracted from the first
  answer, the loop stops with its message after one model call and runs nothing.
\<close>

theorem nl2sql_no_sql_no_execution:
  assumes "llm env (w_trace w) model_name (nl2sql_prompt q st exs) = Inr resp"
    and "extract_sql_query (py_strip resp) = None"
  shows "fst (nl2sql env q st exs w) = Inr (None, None, False, msg_no_sql) \<and>
         snd (nl2sql env q st exs w) =
           w\<lparr>w_trace := w_trace w @ [ModelCall model_name (nl2sql_prompt q st exs) (Inr resp)]\<rparr>"
  using nl2sql_no_sql [OF assms] by simp

lemma nl2sql_no_sql_no_execution_witness:
  "fst (nl2sql (demo_env (\<lambda>h. Inr (U ''Sorry.''))) (U ''List all artists.'') [] [] demo_world) =
     Inr (None, None, False, msg_no_sql)"
  using nl2sql_no_sql_no_execution
    [where env = "demo_env (\<lambda>h. Inr (U ''Sorry.''))" and w = demo_world
       and q = "U ''List all artists.''" and st = "[]" and exs = "[]" and resp = "U ''Sorry.''"]
  by (simp add: demo_simps)

text \<open>
  C7. An exception of the model service is not turned into a failed result, as
  section 7 of the spec asks: it escapes from \<open>nl2sql\<close>.
\<close>

theorem nl2sql_model_error_escapes:
  assumes "llm env (w_trace w) model_name (nl2sql_prompt q st exs) = Inl e"
  shows "fst (nl2sql env q st exs w) = Inl e"
  using nl2sql_raise [OF assms] by simp

lemma nl2sql_model_error_escapes_witness:
  "fst (nl2sql (demo_env (\<lambda>h. Inl (ModelServiceError (U ''connection refused''))))
          (U ''List all artists.'') [] [] demo_world) = Inl (ModelServiceError (U ''connection refused''))"
  using nl2sql_model_error_escapes
    [where env = "demo_env (\<lambda>h. Inl (ModelServiceError (U ''connection refused'')))" and w = demo_world
       and q = "U ''List all artists.''" and st = "[]" and exs = "[]"
       and e = "ModelServiceError (U ''connection refused'')"]
  by (simp add: demo_simps)

text \<open>
  C1. Refinement and the bound of section 4.5: every run of \<open>nl2sql\<close> is a run of the
  specified machine that ends in \<open>Done\<close> with the returned tuple (or in \<open>Raised\<close>
  with the escaping exception), and it calls the model at most twice and the database
  at most twice.
\<close>

theorem nl2sql_refines_spec:
  "case nl2sql env q st exs w of (r, w') \<Rightarrow>
     \<exists>t. w_trace w' = w_trace w @ t \<and>
         loop_reach (nl2sql_prompt q st exs) t (case r of Inl x \<Rightarrow> Raised x | Inr res \<Rightarrow> Done res) \<and>
         model_calls t \<le> 2 \<and> db_execs t \<le> 2"
proof -
  obtain r w' where eq: "nl2sql env q st exs w = (r, w')" by (cases "nl2sql env q st exs w")
  have "case nl2sql env q st exs w of (r, w') \<Rightarrow>
     \<exists>t. w_trace w' = w_trace w @ t \<and>
         loop_reach (nl2sql_prompt q st exs) t (case r of Inl x \<Rightarrow> Raised x | Inr res \<Rightarrow> Done res)"
    by (rule nl2sql_loop)
  then obtain t where t: "w_trace w' = w_trace w @ t"
    and reach: "loop_reach (nl2sql_prompt q st exs) t (case r of Inl x \<Rightarrow> Raised x | Inr res \<Rightarrow> Done res)"
    using eq by auto
  have "calls_bound (case r of Inl x \<Rightarrow> Raised x | Inr res \<Rightarrow> Done res) = 2"
    "execs_bound (case r of Inl x \<Rightarrow> Raised x | Inr res \<Rightarrow> Done res) = 2"
    by (cases r; simp)+
  with loop_reach_counts [OF reach] t reach eq show ?thesis by auto
qed

lemma nl2sql_refines_spec_witness:
  "\<exists>t. w_trace (snd (nl2sql (demo_env (\<lambda>h. Inr (U ''SELECT Name FROM artists;''))) (U ''List all artists.'') [] [] demo_world)) = t \<and>
       loop_reach (nl2sql_prompt (U ''List all artists.'') [] []) t
         (Done (Some (U ''SELECT Name FROM artists;''), Some [[SqlText (U ''AC/DC'')]], True, msg_success)) \<and>
       model_calls t \<le> 2 \<and> db_execs t \<le> 2"
  using nl2sql_refines_spec
    [where env = "demo_env (\<lambda>h. Inr (U ''SELECT Name FROM artists;''))" and w = demo_world
       and q = "U ''List all artists.''" and st = "[]" and exs = "[]"]
  by (simp add: demo_simps nl2sql_eval)

text \<open>
  C2. Safety: every statement \<open>nl2sql\<close> sends to the database is the one extracted
  from the model answer received just before, and a returned tuple has the shape of
  the spec's query result (success with a query and rows; failure without rows; no
  query only with one of the two extraction messages).
\<close>

theorem nl2sql_executes_only_extracted:
  "case nl2sql env q st exs w of (r, w') \<Rightarrow>
     \<exists>t. w_trace w' = w_trace w @ t \<and> execs_follow_extraction t \<and>
         (case r of Inl x \<Rightarrow> True | Inr res \<Rightarrow> result_ok res)"
proof -
  obtain r w' where eq: "nl2sql env q st exs w = (r, w')" by (cases "nl2sql env q st exs w")
  have "case nl2sql env q st exs w of (r, w') \<Rightarrow>
     \<exists>t. w_trace w' = w_trace w @ t \<and>
         loop_reach (nl2sql_prompt q st exs) t (case r of Inl x \<Rightarrow> Raised x | Inr res \<Rightarrow> Done res)"
    by (rule nl2sql_loop)
  then obtain t where t: "w_trace w' = w_trace w @ t"
    and reach: "loop_reach (nl2sql_prompt q st exs) t (case r of Inl x \<Rightarrow> Raised x | Inr res \<Rightarrow> Done res)"
    using eq by auto
  have "execs_follow_extraction t" and "phase_data (case r of Inl x \<Rightarrow> Raised x | Inr res \<Rightarrow> Done res) t"
    using loop_reach_safe [OF reach] by auto
  then show ?thesis using t eq by (cases r) auto
qed

lemma nl2sql_executes_only_extracted_witness:
  "execs_follow_extraction (w_trace (snd (nl2sql (demo_env (\<lambda>h. if h = [] then Inr (U ''SELECT Name FROM artist;'') else Inr (U ''SELECT Name FROM artists;'')))
          (U ''List all artists.'') [] [] demo_world))) \<and>
   result_ok (Some (U ''SELECT Name FROM artists;''), Some [[SqlText (U ''AC/DC'')]], True, msg_success)"
  using nl2sql_executes_only_extracted
    [where env = "demo_env (\<lambda>h. if h = [] then Inr (U ''SELECT Name FROM artist;'') else Inr (U ''SELECT Name FROM artists;''))"
       and w = demo_world and q = "U ''List all artists.''" and st = "[]" and exs = "[]"]
  by (simp add: demo_simps nl2sql_eval)

end
