(* ===== verification/Schema.thy ===== *)
theory Schema
  imports Executor
begin

text \<open>
  Schema introspection and its rendering: \<open>extract_schema\<close> (\<open>src/ver1-1.py\<close>, lines
  7--36) reads the table names from \<open>sqlite_master\<close> and, for each table, the rows of
  \<open>PRAGMA table_info\<close> and \<open>PRAGMA foreign_key_list\<close>, and builds a dict from table
  name to its columns, declared types, primary keys and foreign keys; any exception
  turns the result into an error string. \<open>format_schema_for_prompt\<close> (lines 39--54)
  renders the dict as the text the prompt embeds, and raises \<open>AttributeError\<close> when
  it is given the error string instead.

  The statements go through the driver interface of the executor. To state what the
  introspection computes, \<open>catalogue_driver\<close> gives SQLite's answers to these three
  queries for a database described by its tables (\<open>table_decl\<close>), and \<open>describe\<close> is
  the schema description of section 4.1 of the spec for that database.
\<close>

section \<open>The schema description of the code\<close>

text \<open>The inner dicts of lines 23--31, and the outer dict in insertion order.\<close>

record fk_info =
  from_column :: sqlval
  to_table :: sqlval
  to_column :: sqlval

record table_details =
  columns :: "sqlval list"
  data_types :: "sqlval list"
  primary_keys :: "sqlval list"
  foreign_keys :: "fk_info list"

type_synonym schema = "(sqlval \<times> table_details) list"

text \<open>\<open>d[k] = v\<close>: a new key goes last, an existing key keeps its place.\<close>

definition dict_set :: "('k \<times> 'v) list \<Rightarrow> 'k \<Rightarrow> 'v \<Rightarrow> ('k \<times> 'v) list" where
  "dict_set d k v =
     (if k \<in> set (map fst d) then map (\<lambda>(k', v'). if k' = k then (k', v) else (k', v')) d
      else d @ [(k, v)])"

section \<open>\<open>extract_schema\<close>\<close>

definition q_tables :: pystr where
  \<comment> \<open>line 11\<close>
  "q_tables = U ''SELECT name FROM sqlite_master WHERE type='' @ [39] @ U ''table'' @ [39] @ U '';''"

definition pragma_table_info :: "sqlval \<Rightarrow> pystr" where
  \<comment> \<open>line 17\<close>
  "pragma_table_info table_name = U ''PRAGMA table_info('' @ py_str_sqlval table_name @ U '');''"

definition pragma_foreign_key_list :: "sqlval \<Rightarrow> pystr" where
  \<comment> \<open>line 19\<close>
  "pragma_foreign_key_list table_name = U ''PRAGMA foreign_key_list('' @ py_str_sqlval table_name @ U '');''"

text \<open>Line 21: \<open>[col[1] for col in columns if col[5] == 1]\<close>.\<close>

fun primary_key_list :: "row list \<Rightarrow> pystr + sqlval list" where
  "primary_key_list [] = Inr []"
| "primary_key_list (col # cols) =
     sbind (py_index col 5) (\<lambda>pk.
       sbind (if pk = SqlInt 1 then sbind (py_index col 1) (\<lambda>name. Inr [name]) else Inr [])
         (\<lambda>hd. sbind (primary_key_list cols) (\<lambda>tl. Inr (hd @ tl))))"

text \<open>Line 28: one foreign key row.\<close>

definition fk_entry :: "row \<Rightarrow> pystr + fk_info" where
  "fk_entry fk =
     sbind (py_index fk 3) (\<lambda>f. sbind (py_index fk 2) (\<lambda>t. sbind (py_index fk 4) (\<lambda>c.
       Inr \<lparr>from_column = f, to_table = t, to_column = c\<rparr>)))"

text \<open>Lines 21--31: the entry of one table, from its two result sets.\<close>

definition table_entry :: "row list \<Rightarrow> row list \<Rightarrow> pystr + table_details" where
  "table_entry cols fkeys =
     sbind (primary_key_list cols) (\<lambda>pks.
     sbind (smap (\<lambda>col. py_index col 1) cols) (\<lambda>cs.
     sbind (smap (\<lambda>col. py_index col 2) cols) (\<lambda>dts.
     sbind (smap fk_entry fkeys) (\<lambda>fs.
     Inr \<lparr>columns = cs, data_types = dts, primary_keys = pks, foreign_keys = fs\<rparr>))))"

text \<open>Lines 15--31: the loop over the tables, the connection's state threaded through.\<close>

fun schema_loop :: "'db sqlite_driver \<Rightarrow> row list \<Rightarrow> schema \<Rightarrow> 'db \<Rightarrow> (pystr + schema) \<times> 'db" where
  "schema_loop drv [] schema db = (Inr schema, db)"
| "schema_loop drv (table # tables) schema db =
     (case py_index table 0 of
        Inl e \<Rightarrow> (Inl e, db)
      | Inr table_name \<Rightarrow>
          (case run_statement drv (pragma_table_info table_name) db of
             Inl e \<Rightarrow> (Inl e, db)
           | Inr (cols, db1) \<Rightarrow>
               (case run_statement drv (pragma_foreign_key_list table_name) db1 of
                  Inl e \<Rightarrow> (Inl e, db1)
                | Inr (fkeys, db2) \<Rightarrow>
                    (case table_entry cols fkeys of
                       Inl e \<Rightarrow> (Inl e, db2)
                     | Inr details \<Rightarrow> schema_loop drv tables (dict_set schema table_name details) db2))))"

definition msg_schema_error :: pystr where
  \<comment> \<open>line 36: an error occurred while reading the structure\<close>
  "msg_schema_error =
     [3648, 3585, 3636, 3604, 3586, 3657, 3629, 3612, 3636, 3604, 3614, 3621, 3634, 3604,
      3651, 3609, 3585, 3634, 3619, 3604, 3638, 3591, 3650, 3588, 3619, 3591, 3626,
      3619, 3657, 3634, 3591] @ U '': ''"

text \<open>The result is the schema dict or, as the code returns it, the error string.\<close>

definition extract_schema :: "'db sqlite_driver \<Rightarrow> 'db \<Rightarrow> (pystr + schema) \<times> 'db" where
  "extract_schema drv db =
     (case run_statement drv q_tables db of
        Inl e \<Rightarrow> (Inl (msg_schema_error @ e), db)
      | Inr (tables, db1) \<Rightarrow>
          (case schema_loop drv tables [] db1 of
             (Inl e, db2) \<Rightarrow> (Inl (msg_schema_error @ e), db2)
           | (Inr schema, db2) \<Rightarrow> (Inr schema, db2)))"

section \<open>\<open>format_schema_for_prompt\<close>\<close>

definition bullet :: pystr where
  "bullet = U ''    '' @ [8226] @ U '' ''"

definition fk_line :: "fk_info \<Rightarrow> pystr" where
  \<comment> \<open>line 52\<close>
  "fk_line fk =
     bullet @ py_str_sqlval (from_column fk) @ U '' -> '' @ py_str_sqlval (to_table fk) @
     U ''('' @ py_str_sqlval (to_column fk) @ U '')'' @ [10]"

definition table_text :: "sqlval \<Rightarrow> table_details \<Rightarrow> pystr" where
  \<comment> \<open>lines 42--53, one iteration of the outer loop\<close>
  "table_text table_name details =
     U ''- Table: '' @ py_str_sqlval table_name @ [10] @
     U ''  Columns:'' @ [10] @
     concat (map (\<lambda>(col, data_type). bullet @ py_str_sqlval col @ U '' ('' @ py_str_sqlval data_type @ U '')'' @ [10])
                 (zip (columns details) (data_types details))) @
     U ''  Primary Keys:'' @ [10] @
     concat (map (\<lambda>pk. bullet @ py_str_sqlval pk @ [10]) (primary_keys details)) @
     (if foreign_keys details \<noteq> [] then U ''  Foreign Keys:'' @ [10] @ concat (map fk_line (foreign_keys details))
      else []) @
     [10]"

definition msg_no_items :: pystr where
  "msg_no_items = [39] @ U ''str'' @ [39] @ U '' object has no attribute '' @ [39] @ U ''items'' @ [39]"

definition format_schema_for_prompt :: "pystr + schema \<Rightarrow> pyexc + pystr" where
  "format_schema_for_prompt schema =
     (case schema of
        Inl s \<Rightarrow> Inl (AttributeError msg_no_items)
      | Inr d \<Rightarrow> Inr (concat (map (\<lambda>(table_name, details). table_text table_name details) d)))"

section \<open>What SQLite answers to the catalogue queries\<close>

text \<open>
  A database described by its tables: each column with its name, declared type,
  NOT NULL flag, default and position in the primary key (0 for none, else from 1, as
  \<open>PRAGMA table_info\<close> reports it), and the rows of \<open>PRAGMA foreign_key_list\<close>
  (\<open>fk_to = None\<close> when the key refers to the parent's primary key; SQLite reports
  NULL then).
\<close>

record col_decl =
  cname :: pystr
  ctype :: pystr
  cnotnull :: bool
  cdefault :: sqlval
  cpk :: nat

record fk_decl =
  fk_id :: nat
  fk_seq :: nat
  fk_table :: pystr
  fk_from :: pystr
  fk_to :: "pystr option"

record table_decl =
  tname :: pystr
  tcols :: "col_decl list"
  tfks :: "fk_decl list"

definition table_info_row :: "nat \<Rightarrow> col_decl \<Rightarrow> row" where
  "table_info_row cid c =
     [SqlInt (int cid), SqlText (cname c), SqlText (ctype c), SqlInt (if cnotnull c then 1 else 0),
      cdefault c, SqlInt (int (cpk c))]"

definition fk_row :: "fk_decl \<Rightarrow> row" where
  "fk_row f =
     [SqlInt (int (fk_id f)), SqlInt (int (fk_seq f)), SqlText (fk_table f), SqlText (fk_from f),
      (case fk_to f of None \<Rightarrow> SqlNull | Some c \<Rightarrow> SqlText c),
      SqlText (U ''NO ACTION''), SqlText (U ''NO ACTION''), SqlText (U ''NONE'')]"

text \<open>
  The table name is spliced into the PRAGMA unquoted, so the statement parses only
  when the name is an identifier SQLite accepts there: \<open>parses\<close> is that test, a
  parameter (SQLite accepts identifiers that are not reserved words; a name with a
  space, a quote or a hyphen never parses). \<open>ascii_ident\<close> is a sufficient test
  used in the examples: ASCII letters, digits and underscores, not starting with a
  digit.
\<close>

definition ident_char :: "nat \<Rightarrow> bool" where
  "ident_char c \<longleftrightarrow> (65 \<le> c \<and> c \<le> 90) \<or> (97 \<le> c \<and> c \<le> 122) \<or> (48 \<le> c \<and> c \<le> 57) \<or> c = 95"

definition ascii_ident :: "pystr \<Rightarrow> bool" where
  "ascii_ident s \<longleftrightarrow> s \<noteq> [] \<and> list_all ident_char s \<and> \<not> (48 \<le> hd s \<and> hd s \<le> 57)"

definition catalogue_driver :: "(pystr \<Rightarrow> bool) \<Rightarrow> table_decl list \<Rightarrow> 'db sqlite_driver" where
  "catalogue_driver parses cat =
     \<lparr>run_statement = (\<lambda>s db.
        if s = q_tables then Inr (map (\<lambda>t. [SqlText (tname t)]) cat, db)
        else (case find (\<lambda>t. s = pragma_table_info (SqlText (tname t))) cat of
          Some t \<Rightarrow>
            if parses (tname t)
            then Inr (map (\<lambda>(cid, c). table_info_row cid c) (enumerate 0 (tcols t)), db)
            else Inl (U ''syntax error'')
        | None \<Rightarrow> (case find (\<lambda>t. s = pragma_foreign_key_list (SqlText (tname t))) cat of
            Some t \<Rightarrow> if parses (tname t) then Inr (map fk_row (tfks t), db) else Inl (U ''syntax error'')
          | None \<Rightarrow> Inl (U ''syntax error'')))),
      implicit_begin = cpython_is_dml\<rparr>"

text \<open>
  Section 4.1 of the spec: for each base table, in catalogue order, its column names
  and declared types, the columns that are members of the primary key, and its
  foreign-key references.
\<close>

definition fk_description :: "fk_decl \<Rightarrow> fk_info" where
  "fk_description f =
     \<lparr>from_column = SqlText (fk_from f), to_table = SqlText (fk_table f),
      to_column = (case fk_to f of None \<Rightarrow> SqlNull | Some c \<Rightarrow> SqlText c)\<rparr>"

definition table_description :: "table_decl \<Rightarrow> table_details" where
  "table_description t =
     \<lparr>columns = map (SqlText \<circ> cname) (tcols t), data_types = map (SqlText \<circ> ctype) (tcols t),
      primary_keys = map (SqlText \<circ> cname) (filter (\<lambda>c. cpk c \<noteq> 0) (tcols t)),
      foreign_keys = map fk_description (tfks t)\<rparr>"

definition describe :: "table_decl list \<Rightarrow> schema" where
  "describe cat = map (\<lambda>t. (SqlText (tname t), table_description t)) cat"

definition wf_catalogue :: "(pystr \<Rightarrow> bool) \<Rightarrow> table_decl list \<Rightarrow> bool" where
  "wf_catalogue parses cat \<longleftrightarrow> distinct (map tname cat) \<and> (\<forall>t\<in>set cat. parses (tname t))"

text \<open>
  Tables of the Chinook sample database the program is written for (\<open>artists\<close> as
  section 8 of the spec gives it; \<open>playlist_track\<close> with its two-column primary key
  and its foreign keys as SQLite lists them), and a Northwind-style table whose name
  has a space.
\<close>

definition artists_table :: table_decl where
  "artists_table =
     \<lparr>tname = U ''artists'',
      tcols = [\<lparr>cname = U ''ArtistId'', ctype = U ''INTEGER'', cnotnull = False, cdefault = SqlNull, cpk = 1\<rparr>,
               \<lparr>cname = U ''Name'', ctype = U ''TEXT'', cnotnull = False, cdefault = SqlNull, cpk = 0\<rparr>],
      tfks = []\<rparr>"

definition playlist_track_table :: table_decl where
  "playlist_track_table =
     \<lparr>tname = U ''playlist_track'',
      tcols = [\<lparr>cname = U ''PlaylistId'', ctype = U ''INTEGER'', cnotnull = True, cdefault = SqlNull, cpk = 1\<rparr>,
               \<lparr>cname = U ''TrackId'', ctype = U ''INTEGER'', cnotnull = True, cdefault = SqlNull, cpk = 2\<rparr>],
      tfks = [\<lparr>fk_id = 0, fk_seq = 0, fk_table = U ''tracks'', fk_from = U ''TrackId'', fk_to = Some (U ''TrackId'')\<rparr>,
              \<lparr>fk_id = 1, fk_seq = 0, fk_table = U ''playlists'', fk_from = U ''PlaylistId'', fk_to = Some (U ''PlaylistId'')\<rparr>]\<rparr>"

definition order_details_table :: table_decl where
  "order_details_table =
     \<lparr>tname = U ''Order Details'',
      tcols = [\<lparr>cname = U ''OrderID'', ctype = U ''INTEGER'', cnotnull = True, cdefault = SqlNull, cpk = 1\<rparr>],
      tfks = []\<rparr>"

lemmas catalogue_eval = extract_schema_def catalogue_driver_def q_tables_def pragma_table_info_def
  pragma_foreign_key_list_def table_entry_def fk_entry_def table_info_row_def fk_row_def dict_set_def
  ascii_ident_def ident_char_def

section \<open>Lemmas\<close>

lemma dict_set_new: "k \<notin> set (map fst d) \<Longrightarrow> dict_set d k v = d @ [(k, v)]"
  by (simp add: dict_set_def)

lemma dict_set_keys [simp]: "map fst (dict_set d k v) = (if k \<in> set (map fst d) then map fst d else map fst d @ [k])"
  by (induction d) (auto simp: dict_set_def)

lemma dict_set_distinct: "distinct (map fst d) \<Longrightarrow> distinct (map fst (dict_set d k v))"
  by simp

lemma dict_set_values: "(k', v') \<in> set (dict_set d k v) \<Longrightarrow> (k', v') \<in> set d \<or> v' = v"
  by (auto simp: dict_set_def split: if_splits)

lemma pragma_table_info_inj [simp]: "pragma_table_info a = pragma_table_info b \<longleftrightarrow> py_str_sqlval a = py_str_sqlval b"
  by (simp add: pragma_table_info_def)

lemma pragma_foreign_key_list_inj [simp]:
  "pragma_foreign_key_list a = pragma_foreign_key_list b \<longleftrightarrow> py_str_sqlval a = py_str_sqlval b"
  by (simp add: pragma_foreign_key_list_def)

lemma catalogue_queries_differ [simp]:
  "pragma_table_info a \<noteq> q_tables" "pragma_foreign_key_list a \<noteq> q_tables"
  "pragma_foreign_key_list a \<noteq> pragma_table_info b"
  by (simp_all add: pragma_table_info_def pragma_foreign_key_list_def q_tables_def)

lemma table_info_rows:
  "primary_key_list (map (\<lambda>(cid, c). table_info_row cid c) (enumerate n cs)) =
     Inr (map (SqlText \<circ> cname) (filter (\<lambda>c. cpk c = 1) cs))"
  "smap (\<lambda>col. py_index col 1) (map (\<lambda>(cid, c). table_info_row cid c) (enumerate n cs)) =
     Inr (map (SqlText \<circ> cname) cs)"
  "smap (\<lambda>col. py_index col 2) (map (\<lambda>(cid, c). table_info_row cid c) (enumerate n cs)) =
     Inr (map (SqlText \<circ> ctype) cs)"
  by (induction cs arbitrary: n) (simp_all add: table_info_row_def)

lemma fk_rows: "smap fk_entry (map fk_row fs) = Inr (map fk_description fs)"
  by (induction fs) (simp_all add: fk_entry_def fk_row_def fk_description_def)

text \<open>The entry the code builds for a table of the catalogue.\<close>

lemma table_entry_catalogue:
  "table_entry (map (\<lambda>(cid, c). table_info_row cid c) (enumerate 0 (tcols t))) (map fk_row (tfks t)) =
     Inr ((table_description t)\<lparr>primary_keys := map (SqlText \<circ> cname) (filter (\<lambda>c. cpk c = 1) (tcols t))\<rparr>)"
  unfolding table_entry_def table_info_rows fk_rows by (simp add: table_description_def)

lemma find_table:
  assumes "distinct (map tname cat)" "t \<in> set cat" "\<And>t'. P t' \<longleftrightarrow> tname t' = tname t"
  shows "find P cat = Some t"
  using assms by (intro find_unique) (auto dest: inj_onD [OF distinct_map [THEN iffD1, THEN conjunct2]])

lemma catalogue_answers:
  assumes "distinct (map tname cat)" "t \<in> set cat"
  shows "run_statement (catalogue_driver parses cat) (pragma_table_info (SqlText (tname t))) db =
           (if parses (tname t) then Inr (map (\<lambda>(cid, c). table_info_row cid c) (enumerate 0 (tcols t)), db)
            else Inl (U ''syntax error''))"
    and "run_statement (catalogue_driver parses cat) (pragma_foreign_key_list (SqlText (tname t))) db =
           (if parses (tname t) then Inr (map fk_row (tfks t), db) else Inl (U ''syntax error''))"
proof -
  have "find (\<lambda>t'. pragma_table_info (SqlText (tname t)) = pragma_table_info (SqlText (tname t'))) cat = Some t"
    by (rule find_table [OF assms]) auto
  then show "run_statement (catalogue_driver parses cat) (pragma_table_info (SqlText (tname t))) db =
           (if parses (tname t) then Inr (map (\<lambda>(cid, c). table_info_row cid c) (enumerate 0 (tcols t)), db)
            else Inl (U ''syntax error''))"
    by (simp add: catalogue_driver_def)
  have "find (\<lambda>t'. pragma_foreign_key_list (SqlText (tname t)) = pragma_table_info (SqlText (tname t'))) cat = None"
    by (simp add: find_None_iff)
  moreover have "find (\<lambda>t'. pragma_foreign_key_list (SqlText (tname t)) = pragma_foreign_key_list (SqlText (tname t'))) cat = Some t"
    by (rule find_table [OF assms]) auto
  ultimately show "run_statement (catalogue_driver parses cat) (pragma_foreign_key_list (SqlText (tname t))) db =
           (if parses (tname t) then Inr (map fk_row (tfks t), db) else Inl (U ''syntax error''))"
    by (simp add: catalogue_driver_def)
qed

text \<open>The code's entry for a table: the description, but primary keys only where \<open>pk = 1\<close>.\<close>

lemma schema_loop_catalogue:
  assumes "wf_catalogue parses cat" "set ts \<subseteq> set cat" "distinct (map tname ts)"
    and "\<forall>t\<in>set ts. SqlText (tname t) \<notin> set (map fst acc)"
  shows "schema_loop (catalogue_driver parses cat) (map (\<lambda>t. [SqlText (tname t)]) ts) acc db =
     (Inr (acc @ map (\<lambda>t. (SqlText (tname t),
        (table_description t)\<lparr>primary_keys := map (SqlText \<circ> cname) (filter (\<lambda>c. cpk c = 1) (tcols t))\<rparr>)) ts), db)"
  using assms(2-4)
proof (induction ts arbitrary: acc)
  case Nil
  then show ?case by simp
next
  case (Cons t ts)
  have t: "t \<in> set cat" using Cons.prems by simp
  then have "parses (tname t)" using assms(1) by (auto simp: wf_catalogue_def)
  with catalogue_answers [of cat t parses db] t assms(1)
  have ans: "run_statement (catalogue_driver parses cat) (pragma_table_info (SqlText (tname t))) db =
           Inr (map (\<lambda>(cid, c). table_info_row cid c) (enumerate 0 (tcols t)), db)"
    "run_statement (catalogue_driver parses cat) (pragma_foreign_key_list (SqlText (tname t))) db =
           Inr (map fk_row (tfks t), db)"
    by (simp_all add: wf_catalogue_def)
  have "\<forall>t'\<in>set ts. SqlText (tname t') \<notin> set (map fst (dict_set acc (SqlText (tname t))
      ((table_description t)\<lparr>primary_keys := map (SqlText \<circ> cname) (filter (\<lambda>c. cpk c = 1) (tcols t))\<rparr>)))"
    using Cons.prems by (auto simp: dict_set_def) (metis imageI)
  with Cons.prems Cons.IH show ?case
    by (simp add: ans table_entry_catalogue dict_set_new)
qed

lemma schema_loop_syntax_error:
  assumes "distinct (map tname cat)" "set ts \<subseteq> set cat" "\<exists>t\<in>set ts. \<not> parses (tname t)"
  shows "fst (schema_loop (catalogue_driver parses cat) (map (\<lambda>t. [SqlText (tname t)]) ts) acc db) =
           Inl (U ''syntax error'')"
  using assms(2-3)
proof (induction ts arbitrary: acc)
  case Nil
  then show ?case by simp
next
  case (Cons t ts)
  have t: "t \<in> set cat" using Cons.prems by simp
  note ans = catalogue_answers [OF assms(1) t, of parses db]
  show ?case
  proof (cases "parses (tname t)")
    case True
    with Cons.prems have "\<exists>t\<in>set ts. \<not> parses (tname t)" by auto
    with Cons.prems Cons.IH True show ?thesis by (simp add: ans table_entry_catalogue)
  next
    case False
    then show ?thesis by (simp add: ans)
  qed
qed

lemma extract_schema_tables:
  "run_statement (catalogue_driver parses cat) q_tables db = Inr (map (\<lambda>t. [SqlText (tname t)]) cat, db)"
  by (simp add: catalogue_driver_def)

lemma extract_schema_catalogue:
  assumes "wf_catalogue parses cat"
  shows "extract_schema (catalogue_driver parses cat) db =
     (Inr (map (\<lambda>t. (SqlText (tname t),
        (table_description t)\<lparr>primary_keys := map (SqlText \<circ> cname) (filter (\<lambda>c. cpk c = 1) (tcols t))\<rparr>)) cat), db)"
  using schema_loop_catalogue [OF assms, of cat "[]" db] assms
  by (simp add: extract_schema_def extract_schema_tables wf_catalogue_def)

lemma table_entry_lengths:
  "table_entry cols fkeys = Inr d \<Longrightarrow> length (columns d) = length (data_types d)"
  by (auto simp: table_entry_def sbind_Inr_iff dest!: smap_length)

lemma schema_loop_wf:
  "schema_loop drv tables acc db = (Inr s, db') \<Longrightarrow> distinct (map fst acc) \<Longrightarrow>
   \<forall>(n, d)\<in>set acc. length (columns d) = length (data_types d) \<Longrightarrow>
   distinct (map fst s) \<and> (\<forall>(n, d)\<in>set s. length (columns d) = length (data_types d))"
proof (induction drv tables acc db rule: schema_loop.induct)
  case (1 drv schema db)
  then show ?case by simp
next
  case (2 drv table tables schema db)
  from "2.prems"(1) obtain table_name cols db1 fkeys db2 details where
    steps: "py_index table 0 = Inr table_name"
      "run_statement drv (pragma_table_info table_name) db = Inr (cols, db1)"
      "run_statement drv (pragma_foreign_key_list table_name) db1 = Inr (fkeys, db2)"
      "table_entry cols fkeys = Inr details"
    and rec: "schema_loop drv tables (dict_set schema table_name details) db2 = (Inr s, db')"
    by (auto split: sum.splits prod.splits)
  have "distinct (map fst (dict_set schema table_name details))"
    using "2.prems"(2) by (rule dict_set_distinct)
  moreover have "\<forall>(n, d)\<in>set (dict_set schema table_name details). length (columns d) = length (data_types d)"
    using "2.prems"(3) table_entry_lengths [OF steps(4)] by (auto dest: dict_set_values)
  ultimately show ?case using "2.IH" [OF steps(1) steps(2) refl steps(3) refl steps(4) rec] by simp
qed

section \<open>Properties of the schema introspection and rendering\<close>

text \<open>
  C18. Refinement of section 4.1 of the spec: on a database whose table names parse in
  the PRAGMAs and are distinct, and which has no primary key of more than one column,
  \<open>extract_schema\<close> returns exactly the schema description, in catalogue order, and
  leaves the database as it was.
\<close>

theorem extract_schema_refines:
  assumes "wf_catalogue parses cat" and "\<forall>t\<in>set cat. \<forall>c\<in>set (tcols t). cpk c \<le> 1"
  shows "extract_schema (catalogue_driver parses cat) db = (Inr (describe cat), db)"
proof -
  have "filter (\<lambda>c. cpk c = 1) (tcols t) = filter (\<lambda>c. cpk c \<noteq> 0) (tcols t)" if "t \<in> set cat" for t
  proof (rule filter_cong [OF refl])
    fix c assume "c \<in> set (tcols t)"
    with assms(2) that have "cpk c \<le> 1" by blast
    then show "(cpk c = 1) = (cpk c \<noteq> 0)" by auto
  qed
  then show ?thesis
    by (simp add: extract_schema_catalogue [OF assms(1)] describe_def table_description_def)
qed

lemma extract_schema_refines_witness:
  "extract_schema (catalogue_driver ascii_ident [artists_table]) () = (Inr (describe [artists_table]), ())"
  using extract_schema_refines [where parses = ascii_ident and cat = "[artists_table]" and db = "()"]
  by (simp add: wf_catalogue_def artists_table_def ascii_ident_def ident_char_def)


text \<open>
  C20. Whatever the driver answers, a schema that \<open>extract_schema\<close> returns has one
  entry per table name, and every entry has as many declared types as columns, so the
  rendering pairs each column with its own type and drops none.
\<close>

theorem extract_schema_wf:
  assumes "fst (extract_schema drv db) = Inr s"
  shows "distinct (map fst s) \<and> (\<forall>(n, d)\<in>set s. length (columns d) = length (data_types d))"
proof -
  obtain tables db1 db2 where "run_statement drv q_tables db = Inr (tables, db1)"
    and "schema_loop drv tables [] db1 = (Inr s, db2)"
    using assms by (auto simp: extract_schema_def split: sum.splits prod.splits)
  then show ?thesis using schema_loop_wf by fastforce
qed

lemma extract_schema_wf_witness:
  "distinct (map fst [(SqlText (U ''artists''), table_description artists_table)]) \<and>
   length (columns (table_description artists_table)) = length (data_types (table_description artists_table))"
  using extract_schema_wf [where drv = "catalogue_driver ascii_ident [artists_table]" and db = "()"
      and s = "[(SqlText (U ''artists''), table_description artists_table)]"]
  by (simp add: catalogue_eval artists_table_def table_description_def)


text \<open>
  C22. A table name that does not parse when spliced unquoted into the PRAGMA (such as
  \<open>Order Details\<close>) makes \<open>extract_schema\<close> return its error string, and the
  caller's \<open>format_schema_for_prompt\<close> then raises \<open>AttributeError\<close>: the program
  stops at startup with a traceback instead of the spec's reported introspection error.
\<close>

theorem unparsable_table_name_crash:
  assumes "distinct (map tname cat)" and "t \<in> set cat" and "\<not> parses (tname t)"
  shows "fst (extract_schema (catalogue_driver parses cat) db) = Inl (msg_schema_error @ U ''syntax error'') \<and>
         format_schema_for_prompt (fst (extract_schema (catalogue_driver parses cat) db)) =
           Inl (AttributeError msg_no_items)"
proof -
  have "fst (schema_loop (catalogue_driver parses cat) (map (\<lambda>t. [SqlText (tname t)]) cat) [] db) =
          Inl (U ''syntax error'')"
    using assms by (intro schema_loop_syntax_error) auto
  then show ?thesis
    by (auto simp: extract_schema_def extract_schema_tables format_schema_for_prompt_def split: prod.splits)
qed

lemma unparsable_table_name_crash_witness:
  "format_schema_for_prompt (fst (extract_schema (catalogue_driver ascii_ident [artists_table, order_details_table]) ())) =
     Inl (AttributeError msg_no_items)"
  using unparsable_table_name_crash [where parses = ascii_ident and cat = "[artists_table, order_details_table]"
      and t = order_details_table and db = "()"]
  by (simp add: artists_table_def order_details_table_def ascii_ident_def ident_char_def format_schema_for_prompt_def)

text \<open>
  C23. A foreign key that refers to the parent's primary key implicitly has no target
  column in SQLite's answer, and the code renders it as \<open>None\<close>:
  \<open>from -> table(None)\<close>, where the spec asks for the target column.
\<close>

theorem fk_line_implicit_target:
  assumes "fk_to f = None"
  shows "fk_line (fk_description f) = bullet @ fk_from f @ U '' -> '' @ fk_table f @ U ''(None)'' @ [10]"
  using assms by (simp add: fk_line_def fk_description_def)

lemma fk_line_implicit_target_witness:
  "fk_line (fk_description \<lparr>fk_id = 0, fk_seq = 0, fk_table = U ''artists'', fk_from = U ''ArtistId'', fk_to = None\<rparr>) =
     bullet @ U ''ArtistId -> artists(None)'' @ [10]"
  using fk_line_implicit_target [where f = "\<lparr>fk_id = 0, fk_seq = 0, fk_table = U ''artists'', fk_from = U ''ArtistId'', fk_to = None\<rparr>"]
  by simp

end
