(* ===== verification/PyRepr.thy ===== *)
theory PyRepr
  imports PyPrelude
begin

text \<open>
  Python's \<open>repr\<close> of a \<open>str\<close>, which the program prints whenever it prints a
  container (a row tuple in \<open>explain_result\<close> of \<open>src/ver1-1.py\<close>, the input dict
  in \<open>main\<close> of \<open>src/ver1.py\<close>), \<open>str.join\<close>, and the inverse of \<open>repr\<close> as
  \<open>ast.literal_eval\<close> reads a string literal, with the round trip between them.
\<close>

section \<open>\<open>repr\<close> of a string\<close>

text \<open>
  \<open>repr\<close> of a \<open>str\<close> (CPython's \<open>unicode_repr\<close>): single quotes, unless the text has a
  single quote and no double quote; the chosen quote and the backslash are escaped;
  tab, newline and carriage return by their letters; other ASCII controls and DEL as
  \<open>\xhh\<close>; a non-printable non-ASCII code point as \<open>\xhh\<close>, \<open>\uhhhh\<close> or
  \<open>\Uhhhhhhhh\<close> by its size, in lower-case hex. Printability is exact on ASCII,
  Latin-1 and the Thai block (the script of the program's data); elsewhere the
  separators, format characters, surrogates, private-use and non-character ranges
  listed below are non-printable and other code points are taken as printable.
\<close>

definition hex_digit :: "nat \<Rightarrow> nat" where
  "hex_digit d = (if d < 10 then 48 + d else 87 + d)"

text \<open>The last \<open>w\<close> hex digits of \<open>n\<close>, most significant first.\<close>

primrec hex_pad :: "nat \<Rightarrow> nat \<Rightarrow> pystr" where
  "hex_pad 0 n = []"
| "hex_pad (Suc w) n = hex_pad w (n div 16) @ [hex_digit (n mod 16)]"

definition nonprintable_ranges :: "(nat \<times> nat) list" where
  "nonprintable_ranges =
     [(128, 160), (173, 173), (1536, 1541), (1564, 1564), (1757, 1757), (1807, 1807),
      (3584, 3584), (3643, 3646), (3676, 3711), (5760, 5760), (6158, 6158),
      (8192, 8207), (8232, 8239), (8287, 8303), (12288, 12288), (55296, 63743),
      (65279, 65279), (65520, 65531), (65534, 65535), (917504, 917631), (983040, 1114111)]"

definition py_isprintable_cp :: "nat \<Rightarrow> bool" where
  "py_isprintable_cp c \<longleftrightarrow> \<not> list_ex (\<lambda>(lo, hi). lo \<le> c \<and> c \<le> hi) nonprintable_ranges"

definition repr_char :: "nat \<Rightarrow> nat \<Rightarrow> pystr" where
  "repr_char q c =
     (if c = q \<or> c = 92 then [92, c]
      else if c = 9 then [92, 116] else if c = 10 then [92, 110] else if c = 13 then [92, 114]
      else if c < 32 \<or> c = 127 then [92, 120] @ hex_pad 2 c
      else if c < 127 then [c]
      else if py_isprintable_cp c then [c]
      else if c \<le> 255 then [92, 120] @ hex_pad 2 c
      else if c \<le> 65535 then [92, 117] @ hex_pad 4 c
      else [92, 85] @ hex_pad 8 c)"

definition repr_quote :: "pystr \<Rightarrow> nat" where
  "repr_quote s = (if 39 \<in> set s \<and> 34 \<notin> set s then 34 else 39)"

definition py_repr_str :: "pystr \<Rightarrow> pystr" where
  "py_repr_str s = repr_quote s # concat (map (repr_char (repr_quote s)) s) @ [repr_quote s]"

fun py_join :: "pystr \<Rightarrow> pystr list \<Rightarrow> pystr" where
  "py_join sep [] = []"
| "py_join sep [x] = x"
| "py_join sep (x # xs) = x @ sep @ py_join sep xs"

section \<open>Reading a \<open>repr\<close> back\<close>

text \<open>
  The inverse of \<open>py_repr_str\<close>, as \<open>ast.literal_eval\<close> reads a quoted literal: it
  undoes each escape and succeeds only on text ending with the closing quote.
\<close>

definition hex_val :: "nat \<Rightarrow> nat" where
  "hex_val d = (if d < 58 then d - 48 else d - 87)"

definition hex_num :: "pystr \<Rightarrow> nat" where
  "hex_num ds = foldl (\<lambda>a d. 16 * a + hex_val d) 0 ds"

fun unrepr_body :: "nat \<Rightarrow> pystr \<Rightarrow> pystr option" where
  "unrepr_body q [] = None"
| "unrepr_body q [c] = (if c = q then Some [] else None)"
| "unrepr_body q (c # d # ds) =
     (if c = q then None
      else if c \<noteq> 92 then map_option (Cons c) (unrepr_body q (d # ds))
      else if d = 120 \<and> 2 \<le> length ds then map_option (Cons (hex_num (take 2 ds))) (unrepr_body q (drop 2 ds))
      else if d = 117 \<and> 4 \<le> length ds then map_option (Cons (hex_num (take 4 ds))) (unrepr_body q (drop 4 ds))
      else if d = 85 \<and> 8 \<le> length ds then map_option (Cons (hex_num (take 8 ds))) (unrepr_body q (drop 8 ds))
      else if d = 116 then map_option (Cons 9) (unrepr_body q ds)
      else if d = 110 then map_option (Cons 10) (unrepr_body q ds)
      else if d = 114 then map_option (Cons 13) (unrepr_body q ds)
      else map_option (Cons d) (unrepr_body q ds))"

definition py_unrepr :: "pystr \<Rightarrow> pystr option" where
  "py_unrepr r = (case r of [] \<Rightarrow> None | q # body \<Rightarrow> if q = 34 \<or> q = 39 then unrepr_body q body else None)"

section \<open>Lemmas\<close>

lemma hex_val_digit [simp]: "d < 16 \<Longrightarrow> hex_val (hex_digit d) = d"
  by (simp add: hex_val_def hex_digit_def)

lemma length_hex_pad [simp]: "length (hex_pad w n) = w"
  by (induction w arbitrary: n) simp_all

lemma hex_num_pad: "hex_num (hex_pad w n) = n mod 16 ^ w"
proof (induction w arbitrary: n)
  case 0
  then show ?case by (simp add: hex_num_def)
next
  case (Suc w)
  have "hex_num (hex_pad (Suc w) n) = 16 * (n div 16 mod 16 ^ w) + n mod 16"
    using Suc by (simp add: hex_num_def)
  also have "\<dots> = n mod 16 ^ Suc w" by (simp add: mod_mult2_eq)
  finally show ?case .
qed

lemma hex_num_small: "n < 16 ^ w \<Longrightarrow> hex_num (hex_pad w n) = n"
  by (simp add: hex_num_pad)

text \<open>Each escape is read back to its code point, whatever follows it.\<close>

lemma unrepr_char:
  assumes q: "q = 34 \<or> q = 39" and c: "c < 1114112"
  shows "unrepr_body q (repr_char q c @ rest) = map_option (Cons c) (unrepr_body q rest)"
proof -
  have h2: "c < 256 \<Longrightarrow> hex_num (hex_pad 2 c) = c" and h4: "c \<le> 65535 \<Longrightarrow> hex_num (hex_pad 4 c) = c"
    and h8: "hex_num (hex_pad 8 c) = c"
    using c by (simp_all add: hex_num_small)
  show ?thesis
    using q c h2 h4 h8 by (cases rest) (auto simp: repr_char_def)
qed

lemma unrepr_body_repr:
  "q = 34 \<or> q = 39 \<Longrightarrow> \<forall>c\<in>set s. c < 1114112 \<Longrightarrow>
   unrepr_body q (concat (map (repr_char q) s) @ [q]) = Some s"
  by (induction s) (simp_all add: unrepr_char)

section \<open>Properties\<close>



end
