(* ===== verification/Explainer.thy ===== *)
theory Explainer
  imports Executor PyRepr
begin

text \<open>
  The result explainer, \<open>explain_result\<close> of \<open>src/ver1-1.py\<close> (lines 112--140): it
  picks one of four templates by keywords of the question, a Thai or an English
  phrasing by whether the question has a character of the Thai block, and renders each
  row. Rows are indexed without a length check in three of the branches, so a row that
  is too short raises \<open>IndexError\<close>, which nothing in the program catches. The last
  branch prints each row as Python prints a tuple, with \<open>repr\<close> of its values.
\<close>

section \<open>Python's \<open>str\<close> of a row\<close>

fun py_repr_sqlval :: "sqlval \<Rightarrow> pystr" where
  "py_repr_sqlval SqlNull = U ''None''"
| "py_repr_sqlval (SqlInt i) = py_str_int i"
| "py_repr_sqlval (SqlText s) = py_repr_str s"

text \<open>\<open>str\<close> of a tuple: a one-element tuple keeps its trailing comma.\<close>

definition py_str_row :: "row \<Rightarrow> pystr" where
  "py_str_row r =
     U ''('' @ py_join (U '', '') (map py_repr_sqlval r) @ (if length r = 1 then U '','' else []) @ U '')''"

section \<open>Texts\<close>

definition txt_result :: pystr where
  \<comment> \<open>line 113: Result:\<close>
  "txt_result = [3612, 3621, 3621, 3633, 3614, 3608, 3660] @ U '':'' @ [10]"

definition kw_artist_th :: pystr where
  \<comment> \<open>line 117: artist\<close>
  "kw_artist_th = [3624, 3636, 3621, 3611, 3636, 3609]"

definition hdr_artist_th :: pystr where
  \<comment> \<open>line 118: here is the artist information matching your question\<close>
  "hdr_artist_th =
     [3609, 3637, 3656, 3588, 3639, 3629, 3586, 3657, 3629, 3617, 3641, 3621, 3624, 3636,
      3621, 3611, 3636, 3609, 3607, 3637, 3656, 3605, 3619, 3591, 3585, 3633, 3610,
      3588, 3635, 3606, 3634, 3617, 3586, 3629, 3591, 3588, 3640, 3603] @ U '':'' @ [10]"

definition txt_unspecified :: pystr where
  \<comment> \<open>lines 122--123: unspecified\<close>
  "txt_unspecified = [3652, 3617, 3656, 3619, 3632, 3610, 3640]"

definition kw_find_employees_th :: pystr where
  \<comment> \<open>line 128: find employees\<close>
  "kw_find_employees_th = [3627, 3634, 3614, 3609, 3633, 3585, 3591, 3634, 3609]"

definition hdr_employees_th :: pystr where
  \<comment> \<open>line 129: here are the employees matching your question\<close>
  "hdr_employees_th =
     [3609, 3637, 3656, 3588, 3639, 3629, 3619, 3634, 3618, 3594, 3639, 3656, 3629, 3614,
      3609, 3633, 3585, 3591, 3634, 3609, 3607, 3637, 3656, 3605, 3619, 3591, 3585,
      3633, 3610, 3588, 3635, 3606, 3634, 3617, 3586, 3629, 3591, 3588, 3640, 3603] @
     U '':'' @ [10]"

definition kw_salary_th :: pystr where
  \<comment> \<open>line 131: salary greater than\<close>
  "kw_salary_th =
     [3648, 3591, 3636, 3609, 3648, 3604, 3639, 3629, 3609, 3617, 3634, 3585, 3585, 3623, 3656, 3634]"

definition txt_salary_th :: pystr where
  \<comment> \<open>line 131: (salary:\<close>
  "txt_salary_th = U '' ('' @ [3648, 3591, 3636, 3609, 3648, 3604, 3639, 3629, 3609] @ U '': ''"

definition kw_count_th :: pystr where
  \<comment> \<open>line 132: count\<close>
  "kw_count_th = [3609, 3633, 3610, 3592, 3635, 3609, 3623, 3609]"

definition hdr_count_th :: pystr where
  \<comment> \<open>line 133: here is the computed count\<close>
  "hdr_count_th =
     [3609, 3637, 3656, 3588, 3639, 3629, 3592, 3635, 3609, 3623, 3609, 3607, 3637, 3656,
      3588, 3635, 3609, 3623, 3603, 3652, 3604, 3657] @ U '':'' @ [10]"

definition hdr_other_th :: pystr where
  \<comment> \<open>line 137: here is the result of running the SQL\<close>
  "hdr_other_th =
     [3609, 3637, 3656, 3588, 3639, 3629, 3612, 3621, 3621, 3633, 3614, 3608, 3660, 3592,
      3634, 3585, 3585, 3634, 3619, 3619, 3633, 3609] @ U '' SQL:'' @ [10]"

section \<open>The explainer\<close>

text \<open>Line 115: \<open>any(0x0E00 <= ord(c) <= 0x0E7F for c in question)\<close>.\<close>

definition is_thai :: "pystr \<Rightarrow> bool" where
  "is_thai question \<longleftrightarrow> list_ex (\<lambda>c. 3584 \<le> c \<and> c \<le> 3711) question"

text \<open>\<open>row[i]\<close> inside the explainer, where the \<open>IndexError\<close> escapes.\<close>

definition py_getitem :: "row \<Rightarrow> nat \<Rightarrow> pyexc + sqlval" where
  "py_getitem r i = map_sum IndexError id (py_index r i)"

text \<open>Lines 120--127: one row of the artist template.\<close>

definition artist_line :: "bool \<Rightarrow> row \<Rightarrow> pyexc + pystr" where
  "artist_line th row =
     sbind (py_getitem row 0) (\<lambda>artist_name.
       let track_name = (if length row > 1 then py_str_sqlval (row ! 1) else txt_unspecified);
           duration = (if length row > 2 then py_str_sqlval (row ! 2) else txt_unspecified)
       in Inr (if th then
                 U ''- '' @ kw_artist_th @ U '': '' @ py_str_sqlval artist_name @
                 U '', '' @ [3648, 3614, 3621, 3591] @ U '': '' @ track_name @
                 U '', '' @ [3588, 3623, 3634, 3617, 3618, 3634, 3623] @ U '': '' @ duration @
                 U '' '' @ [3617, 3636, 3621, 3621, 3636, 3623, 3636, 3609, 3634, 3607, 3637, 10]
               else
                 U ''- Artist: '' @ py_str_sqlval artist_name @ U '', Track: '' @ track_name @
                 U '', Duration: '' @ duration @ U '' milliseconds'' @ [10]))"

text \<open>Line 131: one row of the employee template; the salary form has no newline.\<close>

definition employee_line :: "pystr \<Rightarrow> row \<Rightarrow> pyexc + pystr" where
  "employee_line question row =
     (if py_in kw_salary_th question \<or> py_in (U ''salary greater than'') question then
        sbind (py_getitem row 0) (\<lambda>a. sbind (py_getitem row 1) (\<lambda>b.
          Inr (U ''- '' @ py_str_sqlval a @ txt_salary_th @ py_str_sqlval b @ U '')'')))
      else sbind (py_getitem row 0) (\<lambda>a. Inr (U ''- '' @ py_str_sqlval a @ [10])))"

text \<open>Line 135: one row of the count template.\<close>

definition count_line :: "bool \<Rightarrow> row \<Rightarrow> pyexc + pystr" where
  "count_line th row =
     (if th then
        sbind (py_getitem row 0) (\<lambda>a. sbind (py_getitem row 1) (\<lambda>b.
          Inr ([3649, 3612, 3609, 3585] @ U '' '' @ py_str_sqlval a @ U '': '' @ py_str_sqlval b @
               U '' '' @ [3588, 3609, 10])))
      else
        sbind (py_getitem row 0) (\<lambda>a. sbind (py_getitem row 1) (\<lambda>b.
          Inr (U ''Department '' @ py_str_sqlval a @ U '': '' @ py_str_sqlval b @ U '' employees'' @ [10]))))"

text \<open>
  The template the question selects, in the order of the code's tests (lines 117, 128,
  132, 136).
\<close>

datatype template = ArtistT | EmployeeT | CountT | OtherT

definition select_template :: "pystr \<Rightarrow> template" where
  "select_template question =
     (if py_in kw_artist_th question \<or> py_in (U ''artist'') (py_lower question) then ArtistT
      else if py_in kw_find_employees_th question \<or> py_in (U ''Find all employees'') question then EmployeeT
      else if py_in kw_count_th question \<or> py_in (U ''Count'') question then CountT
      else OtherT)"

text \<open>
  Lines 112--140. Each \<open>for row in result: explanation += ...\<close> is \<open>smap\<close> over the
  rows: the first row that raises ends the call with its exception.
\<close>

definition explain_result :: "pystr \<Rightarrow> row list \<Rightarrow> pystr \<Rightarrow> pyexc + pystr" where
  "explain_result question result sql_query =
     (let th = is_thai question in
      case select_template question of
        ArtistT \<Rightarrow>
          sbind (smap (artist_line th) result) (\<lambda>ls.
            Inr (txt_result @ (if th then hdr_artist_th else U ''Here is the artist information matching your question:'' @ [10]) @
                 concat ls))
      | EmployeeT \<Rightarrow>
          sbind (smap (employee_line question) result) (\<lambda>ls.
            Inr (txt_result @ (if th then hdr_employees_th else U ''Here are the employees matching your question:'' @ [10]) @
                 concat ls))
      | CountT \<Rightarrow>
          sbind (smap (count_line th) result) (\<lambda>ls.
            Inr (txt_result @ (if th then hdr_count_th else U ''Here is the count result:'' @ [10]) @ concat ls))
      | OtherT \<Rightarrow>
          Inr (txt_result @ (if th then hdr_other_th else U ''Here is the result from running the SQL:'' @ [10]) @
               concat (map (\<lambda>row. py_str_row row @ [10]) result)))"

text \<open>
  How many values a row needs for the template of the question: the code reads
  \<open>row[0]\<close> for artists and employees, and \<open>row[1]\<close> too for counts and for the
  salary form.
\<close>

definition row_width :: "pystr \<Rightarrow> nat" where
  "row_width question =
     (case select_template question of
        ArtistT \<Rightarrow> 1
      | EmployeeT \<Rightarrow> (if py_in kw_salary_th question \<or> py_in (U ''salary greater than'') question then 2 else 1)
      | CountT \<Rightarrow> 2
      | OtherT \<Rightarrow> 0)"

section \<open>Lemmas\<close>

subsection \<open>Rows that are too short\<close>

lemma py_getitem_Inl: "py_getitem r i = Inl e \<longleftrightarrow> length r \<le> i \<and> e = IndexError (U ''tuple index out of range'')"
  by (auto simp: py_getitem_def py_index_def)

lemma py_getitem_Inr: "i < length r \<Longrightarrow> py_getitem r i = Inr (r ! i)"
  by (simp add: py_getitem_def)

lemma line_raises:
  "artist_line th r = Inl e \<longleftrightarrow> length r < 1 \<and> e = IndexError (U ''tuple index out of range'')"
  "employee_line q r = Inl e \<longleftrightarrow>
     length r < (if py_in kw_salary_th q \<or> py_in (U ''salary greater than'') q then 2 else 1) \<and>
     e = IndexError (U ''tuple index out of range'')"
  "count_line th r = Inl e \<longleftrightarrow> length r < 2 \<and> e = IndexError (U ''tuple index out of range'')"
  by (cases r rule: remdups_adj.cases;
      auto simp: artist_line_def employee_line_def count_line_def py_getitem_def py_index_def Let_def)+

text \<open>A rendering loop raises exactly when a row is shorter than the line needs.\<close>

lemma smap_lines:
  assumes "\<And>r e. f r = Inl e \<longleftrightarrow> length r < w \<and> e = E"
  shows "case sbind (smap f rs) (\<lambda>ls. Inr (h ls)) of
           Inl e \<Rightarrow> e = E \<and> (\<exists>r\<in>set rs. length r < w)
         | Inr t \<Rightarrow> (\<forall>r\<in>set rs. w \<le> length r)"
proof (cases "smap f rs")
  case (Inl e)
  then have "\<exists>r\<in>set rs. \<exists>e. f r = Inl e" using smap_Inl_ex [of f rs] by blast
  moreover have "e = E" using smap_Inl_same [of f E rs e] Inl assms by blast
  ultimately show ?thesis using Inl assms by auto
next
  case (Inr ls)
  then have "\<not> (\<exists>r\<in>set rs. \<exists>e. f r = Inl e)" using smap_Inl_ex [of f rs] by auto
  then show ?thesis using Inr assms by (auto simp: not_less)
qed

lemma explain_count_short_row:
  assumes "select_template question = CountT" and "r \<in> set result" and "length r < 2"
  shows "explain_result question result sql_query = Inl (IndexError (U ''tuple index out of range''))"
proof -
  have "case explain_result question result sql_query of
          Inl e \<Rightarrow> e = IndexError (U ''tuple index out of range'') \<and> (\<exists>r\<in>set result. length r < 2)
        | Inr t \<Rightarrow> (\<forall>r\<in>set result. 2 \<le> length r)"
    using smap_lines [of "count_line (is_thai question)" 2 "IndexError (U ''tuple index out of range'')" result,
                      OF line_raises(3)] assms(1)
    by (simp add: explain_result_def Let_def split del: if_split)
  then show ?thesis using assms(2,3) by (auto split: sum.splits)
qed

section \<open>Properties of the explainer\<close>

text \<open>
  C24. \<open>explain_result\<close> raises exactly when some row is shorter than the template
  of the question reads (one value for artists and employees, two for counts and for
  the salary form), and then always with \<open>IndexError\<close>; otherwise it returns a text.
  A count question answered by \<open>SELECT COUNT(*)\<close> therefore crashes the program.
\<close>

theorem explain_result_raises:
  "case explain_result question result sql_query of
     Inl e \<Rightarrow> e = IndexError (U ''tuple index out of range'') \<and> (\<exists>r\<in>set result. length r < row_width question)
   | Inr t \<Rightarrow> (\<forall>r\<in>set result. row_width question \<le> length r)"
proof (cases "select_template question")
  case ArtistT
  then have w: "row_width question = 1" by (simp add: row_width_def)
  show ?thesis
    using smap_lines [of "artist_line (is_thai question)" 1 "IndexError (U ''tuple index out of range'')" result,
                      OF line_raises(1)] ArtistT
    unfolding w by (simp add: explain_result_def Let_def split del: if_split)
next
  case EmployeeT
  then have w: "row_width question =
      (if py_in kw_salary_th question \<or> py_in (U ''salary greater than'') question then 2 else 1)"
    by (simp add: row_width_def)
  show ?thesis
    using smap_lines [of "employee_line question"
        "if py_in kw_salary_th question \<or> py_in (U ''salary greater than'') question then 2 else 1"
        "IndexError (U ''tuple index out of range'')" result, OF line_raises(2)] EmployeeT
    unfolding w by (simp add: explain_result_def Let_def split del: if_split)
next
  case CountT
  then have w: "row_width question = 2" by (simp add: row_width_def)
  show ?thesis
    using smap_lines [of "count_line (is_thai question)" 2 "IndexError (U ''tuple index out of range'')" result,
                      OF line_raises(3)] CountT
    unfolding w by (simp add: explain_result_def Let_def split del: if_split)
next
  case OtherT
  then show ?thesis by (simp add: explain_result_def row_width_def Let_def)
qed

lemma explain_result_raises_witness:
  "explain_result (U ''Count all tracks.'') [[SqlInt 3503]] (U ''SELECT COUNT(*) FROM tracks;'') =
     Inl (IndexError (U ''tuple index out of range''))"
proof -
  have "select_template (U ''Count all tracks.'') = CountT"
    by (simp add: select_template_def kw_artist_th_def kw_find_employees_th_def kw_count_th_def py_lower_def ascii_lower_def)
  then show ?thesis
    using explain_result_raises [where question = "U ''Count all tracks.''" and result = "[[SqlInt 3503]]"
        and sql_query = "U ''SELECT COUNT(*) FROM tracks;''"]
    by (simp add: row_width_def split: sum.splits)
qed


end
