(* ===== verification/Cli.thy ===== *)
theory Cli
  imports Correction Schema Explainer
begin

text \<open>
  The command-line program, \<open>main\<close> of \<open>src/ver1-1.py\<close> (lines 154--198): it greets,
  reads the database path, checks that it exists, introspects and prints the schema,
  then reads questions until the Thai word for quit (\<open>txt_quit\<close>), answering each with
  \<open>nl2sql\<close>, the generated SQL and \<open>explain_result\<close>. Nothing in \<open>main\<close> catches an
  exception: one raised by a component ends the program.

  The console is explicit: the lines the user will type (\<open>input()\<close> returns the next one
  without its newline, or raises \<open>EOFError\<close> when there is none), and the text printed
  so far. The world of the correction loop carries the database and the calls.
  \<open>os.path.exists\<close> is a parameter; the world holds the database that the path names.
\<close>

section \<open>Console\<close>

record 'db console =
  stdout :: pystr
  world :: "'db world"

text \<open>\<open>print(s)\<close>, and the prompt \<open>input(s)\<close> writes before it reads.\<close>

definition py_print :: "pystr \<Rightarrow> 'db console \<Rightarrow> 'db console" where
  "py_print s c = c\<lparr>stdout := stdout c @ s @ [10]\<rparr>"

definition py_write :: "pystr \<Rightarrow> 'db console \<Rightarrow> 'db console" where
  "py_write s c = c\<lparr>stdout := stdout c @ s\<rparr>"

text \<open>\<open>str\<close> of the query \<open>nl2sql\<close> returns, a \<open>str\<close> or \<open>None\<close>.\<close>

definition py_str_opt :: "pystr option \<Rightarrow> pystr" where
  "py_str_opt s = (case s of None \<Rightarrow> U ''None'' | Some t \<Rightarrow> t)"

datatype cli_outcome = Exited | Crashed pyexc

section \<open>Texts\<close>

definition txt_welcome :: "pystr list" where
  \<comment> \<open>lines 155--158: welcome; the tool makes SQL from natural-language questions; Thai and
      English are supported; no SQL or schema knowledge is needed\<close>
  "txt_welcome =
     [[3618, 3636, 3609, 3604, 3637, 3605, 3657, 3629, 3609, 3619, 3633, 3610, 3626, 3641,
       3656] @ U '' NL2SQL Helper!'',
      [3648, 3588, 3619, 3639, 3656, 3629, 3591, 3617, 3639, 3629, 3609, 3637, 3657, 3594,
       3656, 3623, 3618, 3588, 3640, 3603, 3626, 3619, 3657, 3634, 3591] @
       U '' SQL '' @ [3592, 3634, 3585, 3588, 3635, 3606, 3634, 3617, 3616, 3634, 3625,
       3634, 3608, 3619, 3619, 3617, 3594, 3634, 3605, 3636],
      [3619, 3629, 3591, 3619, 3633, 3610, 3588, 3635, 3606, 3634, 3617, 3607, 3633, 3657,
       3591, 3616, 3634, 3625, 3634, 3652, 3607, 3618, 3649, 3621, 3632, 3616, 3634,
       3625, 3634, 3629, 3633, 3591, 3585, 3620, 3625, 3648, 3611, 3655, 3609, 3616,
       3634, 3625, 3634, 3627, 3621, 3633, 3585],
      [3588, 3640, 3603, 3652, 3617, 3656, 3605, 3657, 3629, 3591, 3619, 3641, 3657, 3648,
       3619, 3639, 3656, 3629, 3591] @ U '' SQL '' @ [3627, 3619, 3639, 3629, 3650,
       3588, 3619, 3591, 3626, 3619, 3657, 3634, 3591, 3600, 3634, 3609, 3586, 3657,
       3629, 3617, 3641, 3621] @ U '' '' @ [3619, 3632, 3610, 3610, 3592, 3633, 3604,
       3585, 3634, 3619, 3651, 3627, 3657, 3629, 3633, 3605, 3650, 3609, 3617, 3633,
       3605, 3636],
      [10, 3585, 3619, 3640, 3603, 3634, 3619, 3632, 3610, 3640, 3652, 3615, 3621, 3660,
       3600, 3634, 3609, 3586, 3657, 3629, 3617, 3641, 3621] @ U '' ('' @ [3648, 3594,
       3656, 3609] @ U '' chinook.db):'',
      [3606, 3657, 3634, 3652, 3617, 3656, 3617, 3637, 3652, 3615, 3621, 3660] @ U '' '' @
       [3651, 3627, 3657, 3626, 3619, 3657, 3634, 3591, 3652, 3615, 3621, 3660, 3585,
       3656, 3629, 3609]]"

definition txt_db_prompt :: pystr where
  \<comment> \<open>line 162: type the database file name\<close>
  "txt_db_prompt =
     [3614, 3636, 3617, 3614, 3660, 3594, 3639, 3656, 3629, 3652, 3615, 3621, 3660, 3600,
      3634, 3609, 3586, 3657, 3629, 3617, 3641, 3621] @ U '': ''"

definition txt_not_found :: "pystr \<Rightarrow> pystr" where
  \<comment> \<open>line 165: file not found, please create the database file first\<close>
  "txt_not_found db_path =
     [3652, 3617, 3656, 3614, 3610, 3652, 3615, 3621, 3660] @ U '' '' @ db_path @
     U '' '' @ [3585, 3619, 3640, 3603, 3634, 3626, 3619, 3657, 3634, 3591, 3652, 3615,
      3621, 3660, 3600, 3634, 3609, 3586, 3657, 3629, 3617, 3641, 3621, 3585, 3656,
      3629, 3609]"

definition txt_schema_title :: pystr where
  \<comment> \<open>line 171: this is the structure of the chosen database\<close>
  "txt_schema_title =
     [10, 3609, 3637, 3656, 3588, 3639, 3629, 3650, 3588, 3619, 3591, 3626, 3619, 3657,
      3634, 3591, 3586, 3629, 3591, 3600, 3634, 3609, 3586, 3657, 3629, 3617, 3641,
      3621, 3607, 3637, 3656, 3648, 3621, 3639, 3629, 3585] @ U '':''"

definition txt_ask_question :: "pystr list" where
  \<comment> \<open>lines 175--176: type your question (for example ...); type quit to leave\<close>
  "txt_ask_question =
     [[10, 3614, 3636, 3617, 3614, 3660, 3588, 3635, 3606, 3634, 3617, 3586, 3629, 3591,
       3588, 3640, 3603] @ U '' ('' @ [3648, 3594, 3656, 3609] @ U '' '' @ [3627, 3634,
       3624, 3636, 3621, 3611, 3636, 3609, 3607, 3637, 3656, 3617, 3637, 3648, 3614,
       3621, 3591, 3618, 3634, 3623, 3607, 3637, 3656, 3626, 3640, 3604] @ U '' '' @
       [3627, 3619, 3639, 3629] @ U '' Find the artist with the longest track)'',
      [3614, 3636, 3617, 3614, 3660] @ U '' '' @ [39, 3629, 3629, 3585, 39] @ U '' '' @
       [3648, 3614, 3639, 3656, 3629, 3629, 3629, 3585, 3592, 3634, 3585, 3650, 3611,
       3619, 3649, 3585, 3619, 3617]]"

definition txt_question_prompt :: pystr where
  \<comment> \<open>line 177: question:\<close>
  "txt_question_prompt = [3588, 3635, 3606, 3634, 3617] @ U '': ''"

definition txt_quit :: pystr where
  \<comment> \<open>line 179: quit\<close>
  "txt_quit = [3629, 3629, 3585]"

definition txt_bye :: pystr where
  \<comment> \<open>line 180: leaving the program\<close>
  "txt_bye = [3629, 3629, 3585, 3592, 3634, 3585, 3650, 3611, 3619, 3649, 3585, 3619, 3617]"

definition txt_enter_question :: pystr where
  \<comment> \<open>line 184: please enter a question\<close>
  "txt_enter_question = [3585, 3619, 3640, 3603, 3634, 3651, 3626, 3656, 3588, 3635, 3606, 3634, 3617]"

definition txt_generating :: pystr where
  \<comment> \<open>line 187: generating SQL...\<close>
  "txt_generating = [10, 3585, 3635, 3621, 3633, 3591, 3626, 3619, 3657, 3634, 3591] @ U '' SQL...''"

definition txt_error_title :: pystr where
  \<comment> \<open>line 191: error:\<close>
  "txt_error_title = [10, 3586, 3657, 3629, 3612, 3636, 3604, 3614, 3621, 3634, 3604] @ U '':''"

definition txt_sql_title :: pystr where
  \<comment> \<open>line 195: the SQL made for you:\<close>
  "txt_sql_title =
     [10] @ U ''SQL '' @ [3607, 3637, 3656, 3626, 3619, 3657, 3634, 3591, 3651, 3627, 3657,
      3588, 3640, 3603] @ U '':''"

definition msg_none_not_iterable :: pystr where
  "msg_none_not_iterable = [39] @ U ''NoneType'' @ [39] @ U '' object is not iterable''"

section \<open>The program\<close>

text \<open>Lines 175--177: the two hint lines and the prompt of \<open>input\<close>.\<close>

definition ask_question :: "'db console \<Rightarrow> 'db console" where
  "ask_question c = py_write txt_question_prompt (fold py_print txt_ask_question c)"

text \<open>
  Lines 179--198: one round after a line was read, which either ends the program or
  goes on to the next round.
\<close>

datatype 'db round = Stop cli_outcome "'db console" | Next "'db console"

text \<open>The console after a round.\<close>

fun round_console :: "'db round \<Rightarrow> 'db console" where
  "round_console (Stop r c) = c"
| "round_console (Next c) = c"

definition question_round :: "'db env \<Rightarrow> pystr \<Rightarrow> pystr \<Rightarrow> 'db console \<Rightarrow> 'db round" where
  "question_round env schema_text line c =
     (let question = py_strip line in
      if py_lower question = txt_quit then Stop Exited (py_print txt_bye c)
      else if question = [] then Next (py_print txt_enter_question c)
      else
        let c1 = py_print txt_generating c in
        (case nl2sql env question schema_text examples (world c1) of
           (Inl e, w') \<Rightarrow> Stop (Crashed e) (c1\<lparr>world := w'\<rparr>)
         | (Inr (sql_query, result, success, error), w') \<Rightarrow>
             let c2 = c1\<lparr>world := w'\<rparr> in
             if \<not> success then Next (py_print error (py_print txt_error_title c2))
             else
               let c3 = py_print (py_str_opt sql_query) (py_print txt_sql_title c2) in
               (case result of
                  None \<Rightarrow> Stop (Crashed (TypeError msg_none_not_iterable)) c3
                | Some rows \<Rightarrow>
                    (case explain_result question rows (py_str_opt sql_query) of
                       Inl e \<Rightarrow> Stop (Crashed e) c3
                     | Inr text \<Rightarrow> Next (py_print ([10] @ text) c3)))))"

text \<open>Lines 174--198: the loop, one round per line of input.\<close>

fun question_loop :: "'db env \<Rightarrow> pystr \<Rightarrow> pystr list \<Rightarrow> 'db console \<Rightarrow> cli_outcome \<times> 'db console" where
  "question_loop env schema_text [] c = (Crashed EOFError, ask_question c)"
| "question_loop env schema_text (line # lines) c =
     (case question_round env schema_text line (ask_question c) of
        Stop r c' \<Rightarrow> (r, c')
      | Next c' \<Rightarrow> question_loop env schema_text lines c')"

text \<open>Lines 154--172: start-up, then the loop.\<close>

definition main :: "'db env \<Rightarrow> (pystr \<Rightarrow> bool) \<Rightarrow> pystr list \<Rightarrow> 'db console \<Rightarrow> cli_outcome \<times> 'db console" where
  "main env path_exists stdin c =
     (let c1 = py_write txt_db_prompt (fold py_print txt_welcome c) in
      case stdin of
        [] \<Rightarrow> (Crashed EOFError, c1)
      | line # lines \<Rightarrow>
          let db_path = py_strip line in
          if \<not> path_exists db_path then (Exited, py_print (txt_not_found db_path) c1)
          else
            (case extract_schema (driver env) (w_db (world c1)) of
               (schema, db1) \<Rightarrow>
                 let c2 = c1\<lparr>world := (world c1)\<lparr>w_db := db1\<rparr>\<rparr> in
                 (case format_schema_for_prompt schema of
                    Inl e \<Rightarrow> (Crashed e, c2)
                  | Inr schema_text \<Rightarrow>
                      question_loop env schema_text lines (py_print schema_text (py_print txt_schema_title c2)))))"

section \<open>Lemmas\<close>

lemma console_world [simp]:
  "world (py_print s c) = world c" "world (py_write s c) = world c"
  by (simp_all add: py_print_def py_write_def)

lemma fold_print_world [simp]: "world (fold py_print ss c) = world c"
  by (induction ss arbitrary: c) simp_all

lemma ask_question_world [simp]: "world (ask_question c) = world c"
  by (simp add: ask_question_def)

lemma nl2sql_trace_bound:
  "\<exists>t. w_trace (snd (nl2sql env q st exs w)) = w_trace w @ t \<and> model_calls t \<le> 2 \<and> db_execs t \<le> 2"
proof -
  obtain r w' where eq: "nl2sql env q st exs w = (r, w')" by (cases "nl2sql env q st exs w")
  have "case nl2sql env q st exs w of (r, w') \<Rightarrow>
     \<exists>t. w_trace w' = w_trace w @ t \<and>
         loop_reach (nl2sql_prompt q st exs) t (case r of Inl x \<Rightarrow> Raised x | Inr res \<Rightarrow> Done res)"
    by (rule nl2sql_loop)
  then obtain t where t: "w_trace w' = w_trace w @ t"
    and reach: "loop_reach (nl2sql_prompt q st exs) t (case r of Inl x \<Rightarrow> Raised x | Inr res \<Rightarrow> Done res)"
    using eq by auto
  have "calls_bound (case r of Inl x \<Rightarrow> Raised x | Inr res \<Rightarrow> Done res) = 2"
    "execs_bound (case r of Inl x \<Rightarrow> Raised x | Inr res \<Rightarrow> Done res) = 2"
    by (cases r; simp)+
  with loop_reach_counts [OF reach] t eq show ?thesis by auto
qed

text \<open>A round calls \<open>nl2sql\<close> at most once, so each service at most twice.\<close>

lemma question_round_calls:
  "\<exists>t. w_trace (world (round_console (question_round env st line c))) = w_trace (world c) @ t \<and>
       model_calls t \<le> 2 \<and> db_execs t \<le> 2"
proof -
  let ?c1 = "py_print txt_generating c" and ?q = "py_strip line"
  obtain t where t: "w_trace (snd (nl2sql env ?q st examples (world ?c1))) = w_trace (world c) @ t"
    and b: "model_calls t \<le> 2" "db_execs t \<le> 2"
    using nl2sql_trace_bound [of env ?q st examples "world ?c1"] by auto
  show ?thesis
  proof (cases "py_lower ?q = txt_quit \<or> ?q = []")
    case True
    then show ?thesis by (auto simp: question_round_def Let_def intro: exI [of _ "[]"])
  next
    case False
    then show ?thesis using t b
      by (auto simp: question_round_def Let_def split: prod.splits sum.splits option.splits)
  qed
qed

lemma question_loop_calls:
  "question_loop env st lines c = (r, c') \<Longrightarrow>
   \<exists>t. w_trace (world c') = w_trace (world c) @ t \<and> model_calls t \<le> 2 * length lines \<and>
       db_execs t \<le> 2 * length lines"
proof (induction lines arbitrary: c)
  case Nil
  then show ?case by (auto intro: exI [of _ "[]"])
next
  case (Cons line lines)
  obtain t where t: "w_trace (world (round_console (question_round env st line (ask_question c)))) =
      w_trace (world c) @ t" and b: "model_calls t \<le> 2" "db_execs t \<le> 2"
    using question_round_calls [of env st line "ask_question c"] by auto
  show ?case
  proof (cases "question_round env st line (ask_question c)")
    case (Stop r0 c0)
    then show ?thesis using Cons.prems t b by auto
  next
    case (Next c0)
    with Cons.prems have "question_loop env st lines c0 = (r, c')" by simp
    from Cons.IH [OF this] obtain u where "w_trace (world c') = w_trace (world c0) @ u"
      "model_calls u \<le> 2 * length lines" "db_execs u \<le> 2 * length lines" by blast
    then show ?thesis using Next t b by (intro exI [of _ "t @ u"]) auto
  qed
qed

section \<open>Properties of the program\<close>

text \<open>
  C27. Bound: a whole run of the program calls the model service at most twice and
  executes at most two statements per line of input after the database path, whatever
  the user types and the services answer.
\<close>

theorem main_calls_bound:
  "case main env path_exists stdin c of (r, c') \<Rightarrow>
     \<exists>t. w_trace (world c') = w_trace (world c) @ t \<and>
         model_calls t \<le> 2 * (length stdin - 1) \<and> db_execs t \<le> 2 * (length stdin - 1)"
proof (cases stdin)
  case Nil
  then show ?thesis by (auto simp: main_def Let_def intro: exI [of _ "[]"])
next
  case (Cons line lines)
  show ?thesis
  proof (cases "path_exists (py_strip line)")
    case False
    then show ?thesis using Cons by (auto simp: main_def Let_def intro: exI [of _ "[]"])
  next
    case True
    then show ?thesis using Cons
      by (auto simp: main_def Let_def split: prod.splits sum.splits dest!: question_loop_calls
               intro: exI [of _ "[]"])
  qed
qed

text \<open>
  C28. Section 7 of the spec: a question whose query fails twice (or yields no SQL) is
  reported, its error printed under the error title, and the program goes on to read
  the next question with the database and calls as \<open>nl2sql\<close> left them.
\<close>

theorem question_loop_failure_continues:
  assumes "py_strip line \<noteq> []" and "py_lower (py_strip line) \<noteq> txt_quit"
    and "nl2sql env (py_strip line) st examples (world c) = (Inr (s, rows, False, err), w')"
  shows "question_loop env st (line # lines) c =
           question_loop env st lines
             (py_print err (py_print txt_error_title ((py_print txt_generating (ask_question c))\<lparr>world := w'\<rparr>)))"
  using assms by (simp add: question_round_def Let_def)

lemma question_loop_failure_continues_witness:
  "fst (question_loop (demo_env (\<lambda>h. Inr (U ''Sorry.''))) [] [U ''List all artists.'', txt_quit]
          \<lparr>stdout = [], world = demo_world\<rparr>) = Exited"
  using question_loop_failure_continues
    [where env = "demo_env (\<lambda>h. Inr (U ''Sorry.''))" and st = "[]" and line = "U ''List all artists.''"
       and lines = "[txt_quit]" and c = "\<lparr>stdout = [], world = demo_world\<rparr>" and s = None and rows = None
       and err = msg_no_sql
       and w' = "demo_world\<lparr>w_trace := [ModelCall model_name (nl2sql_prompt (U ''List all artists.'') [] examples)
                                         (Inr (U ''Sorry.''))]\<rparr>"]
  by (simp add: demo_simps nl2sql_eval py_strip_def py_lstrip_def py_rstrip_def py_isspace_def py_lower_def
                ascii_lower_def txt_quit_def question_round_def)

text \<open>
  C29. Against section 7 of the spec (no error of a question crashes the loop): when
  the model service raises, the exception ends the program.
\<close>

theorem question_loop_model_error_crash:
  assumes "py_strip line \<noteq> []" and "py_lower (py_strip line) \<noteq> txt_quit"
    and "fst (nl2sql env (py_strip line) st examples (world c)) = Inl e"
  shows "fst (question_loop env st (line # lines) c) = Crashed e"
proof -
  obtain w' where "nl2sql env (py_strip line) st examples (world c) = (Inl e, w')"
    using assms(3) by (cases "nl2sql env (py_strip line) st examples (world c)") auto
  then show ?thesis using assms(1,2) by (simp add: question_round_def Let_def)
qed

lemma question_loop_model_error_crash_witness:
  "fst (question_loop (demo_env (\<lambda>h. Inl (ModelServiceError (U ''connection refused'')))) []
          [U ''List all artists.'', txt_quit] \<lparr>stdout = [], world = demo_world\<rparr>) =
     Crashed (ModelServiceError (U ''connection refused''))"
  using question_loop_model_error_crash
    [where env = "demo_env (\<lambda>h. Inl (ModelServiceError (U ''connection refused'')))" and st = "[]"
       and line = "U ''List all artists.''" and lines = "[txt_quit]" and c = "\<lparr>stdout = [], world = demo_world\<rparr>"
       and e = "ModelServiceError (U ''connection refused'')"]
  by (simp add: demo_simps nl2sql_eval py_strip_def py_lstrip_def py_rstrip_def py_isspace_def py_lower_def
                ascii_lower_def txt_quit_def)

text \<open>
  C30. A count question whose query succeeds with a row of one column (as
  \<open>SELECT COUNT(*)\<close> gives) makes \<open>explain_result\<close> raise \<open>IndexError\<close> after the SQL
  was printed, and the program ends.
\<close>

theorem question_loop_count_crash:
  assumes "py_strip line \<noteq> []" and "py_lower (py_strip line) \<noteq> txt_quit"
    and "select_template (py_strip line) = CountT"
    and "fst (nl2sql env (py_strip line) st examples (world c)) = Inr (Some s, Some rows, True, m)"
    and "r \<in> set rows" and "length r < 2"
  shows "fst (question_loop env st (line # lines) c) = Crashed (IndexError (U ''tuple index out of range''))"
proof -
  obtain w' where "nl2sql env (py_strip line) st examples (world c) = (Inr (Some s, Some rows, True, m), w')"
    using assms(4) by (cases "nl2sql env (py_strip line) st examples (world c)") auto
  then show ?thesis using assms(1,2) explain_count_short_row [OF assms(3,5,6)]
    by (simp add: question_round_def Let_def)
qed

lemma question_loop_count_crash_witness:
  "fst (question_loop \<lparr>llm = (\<lambda>h m p. Inr (U ''SELECT COUNT(*) FROM tracks;'')),
                       driver = \<lparr>run_statement = (\<lambda>s db. Inr ([[SqlInt 3503]], db)), implicit_begin = cpython_is_dml\<rparr>\<rparr>
          [] [U ''Count all tracks.''] \<lparr>stdout = [], world = \<lparr>w_db = (0::nat), w_trace = []\<rparr>\<rparr>) =
     Crashed (IndexError (U ''tuple index out of range''))"
  using question_loop_count_crash
    [where env = "\<lparr>llm = (\<lambda>h m p. Inr (U ''SELECT COUNT(*) FROM tracks;'')),
                   driver = \<lparr>run_statement = (\<lambda>s db. Inr ([[SqlInt 3503]], db)), implicit_begin = cpython_is_dml\<rparr>\<rparr>"
       and st = "[]" and line = "U ''Count all tracks.''" and lines = "[]"
       and c = "\<lparr>stdout = [], world = \<lparr>w_db = (0::nat), w_trace = []\<rparr>\<rparr>"
       and s = "U ''SELECT COUNT(*) FROM tracks;''" and rows = "[[SqlInt 3503]]" and m = msg_success
       and r = "[SqlInt 3503]"]
  by (simp add: nl2sql_eval extract_eval py_lower_def txt_quit_def select_template_def kw_artist_th_def
                kw_find_employees_th_def kw_count_th_def)

text \<open>
  C31. Typing the quit word (with any surrounding blanks) ends the program normally at
  once: it prints the goodbye line, calls no service and reads no further input.
\<close>

theorem question_loop_quit:
  assumes "py_lower (py_strip line) = txt_quit"
  shows "question_loop env st (line # lines) c = (Exited, py_print txt_bye (ask_question c))"
  using assms by (simp add: question_round_def)

lemma question_loop_quit_witness:
  "question_loop (demo_env (\<lambda>h. Inr (U ''SELECT 1;''))) [] [[32] @ txt_quit, U ''List all artists.'']
       \<lparr>stdout = [], world = demo_world\<rparr> =
     (Exited, py_print txt_bye (ask_question \<lparr>stdout = [], world = demo_world\<rparr>))"
  using question_loop_quit [where env = "demo_env (\<lambda>h. Inr (U ''SELECT 1;''))" and st = "[]"
      and line = "[32] @ txt_quit" and lines = "[U ''List all artists.'']" and c = "\<lparr>stdout = [], world = demo_world\<rparr>"]
  by (simp add: py_strip_def py_lstrip_def py_rstrip_def py_isspace_def py_lower_def ascii_lower_def txt_quit_def)

end
