(* ===== verification/Ver1.thy ===== *)
theory Ver1
  imports PyRepr
begin

text \<open>
  The first version of the program, \<open>src/ver1.py\<close>: at import it loads a JSON file
  of table metadata (lines 6--11); \<open>main\<close> (lines 67--99) reads a question, a table
  name and an SQL dialect, looks up the table's columns (\<open>get_table_schema\<close>, lines
  14--19), renders a Jinja template into a prompt (lines 22--35), asks the model for
  SQL (\<open>generate_sql_with_ollama\<close>, lines 38--44) and prints it. It executes nothing.
  Every exception inside \<open>main\<close> is caught and printed.

  Values are those \<open>json.load\<close> produces (floats left out), with their \<open>str\<close> and
  \<open>repr\<close>, and subscription, \<open>in\<close> and \<open>.items()\<close> as Python 3.12 evaluates them,
  error messages included. A loaded dict has distinct keys (\<open>json.load\<close> keeps the
  last of duplicate keys). The terminal is the list of lines still to be read and the
  text printed so far.
\<close>

section \<open>Python values\<close>

datatype pyval =
    PNone | PBool bool | PInt int | PStr pystr | PList "pyval list" | PDict "(pystr \<times> pyval) list"

fun py_repr_val :: "pyval \<Rightarrow> pystr" where
  "py_repr_val PNone = U ''None''"
| "py_repr_val (PBool b) = (if b then U ''True'' else U ''False'')"
| "py_repr_val (PInt i) = py_str_int i"
| "py_repr_val (PStr s) = py_repr_str s"
| "py_repr_val (PList xs) = U ''['' @ py_join (U '', '') (map py_repr_val xs) @ U '']''"
| "py_repr_val (PDict kvs) =
     U ''{'' @ py_join (U '', '') (map (\<lambda>(k, v). py_repr_str k @ U '': '' @ py_repr_val v) kvs) @ U ''}''"

definition py_str_val :: "pyval \<Rightarrow> pystr" where
  "py_str_val v = (case v of PStr s \<Rightarrow> s | _ \<Rightarrow> py_repr_val v)"

fun py_type_name :: "pyval \<Rightarrow> pystr" where
  "py_type_name PNone = U ''NoneType''"
| "py_type_name (PBool b) = U ''bool''"
| "py_type_name (PInt i) = U ''int''"
| "py_type_name (PStr s) = U ''str''"
| "py_type_name (PList xs) = U ''list''"
| "py_type_name (PDict kvs) = U ''dict''"

text \<open>\<open>v[k]\<close> with a string key.\<close>

definition py_subscript :: "pyval \<Rightarrow> pystr \<Rightarrow> pyexc + pyval" where
  "py_subscript v k =
     (case v of
        PDict kvs \<Rightarrow> (case map_of kvs k of Some x \<Rightarrow> Inr x | None \<Rightarrow> Inl (KeyError (py_repr_str k)))
      | PList xs \<Rightarrow> Inl (TypeError (U ''list indices must be integers or slices, not str''))
      | PStr s \<Rightarrow> Inl (TypeError (U ''string indices must be integers, not '' @ [39] @ U ''str'' @ [39]))
      | _ \<Rightarrow> Inl (TypeError ([39] @ py_type_name v @ [39] @ U '' object is not subscriptable'')))"

text \<open>\<open>k in v\<close> with a string \<open>k\<close>.\<close>

definition py_contains :: "pyval \<Rightarrow> pystr \<Rightarrow> pyexc + bool" where
  "py_contains v k =
     (case v of
        PDict kvs \<Rightarrow> Inr (k \<in> set (map fst kvs))
      | PList xs \<Rightarrow> Inr (PStr k \<in> set xs)
      | PStr s \<Rightarrow> Inr (py_in k s)
      | _ \<Rightarrow> Inl (TypeError (U ''argument of type '' @ [39] @ py_type_name v @ [39] @ U '' is not iterable'')))"

text \<open>\<open>v.items()\<close>.\<close>

definition py_items :: "pyval \<Rightarrow> pyexc + (pystr \<times> pyval) list" where
  "py_items v =
     (case v of
        PDict kvs \<Rightarrow> Inr kvs
      | _ \<Rightarrow> Inl (AttributeError ([39] @ py_type_name v @ [39] @ U '' object has no attribute '' @
                               [39] @ U ''items'' @ [39])))"

section \<open>Terminal\<close>

record terminal =
  t_in :: "pystr list"
  t_out :: pystr

definition t_print :: "pystr \<Rightarrow> terminal \<Rightarrow> terminal" where
  "t_print s t = t\<lparr>t_out := t_out t @ s @ [10]\<rparr>"

text \<open>\<open>input(prompt)\<close>: the prompt is written, then a line is read or \<open>EOFError\<close> raised.\<close>

definition t_input :: "pystr \<Rightarrow> terminal \<Rightarrow> (pyexc + pystr) \<times> terminal" where
  "t_input prompt t =
     (case t_in t of
        [] \<Rightarrow> (Inl EOFError, t\<lparr>t_out := t_out t @ prompt\<rparr>)
      | l # ls \<Rightarrow> (Inr l, t\<lparr>t_in := ls, t_out := t_out t @ prompt\<rparr>))"

section \<open>The program\<close>

text \<open>Lines 14--19.\<close>

definition get_table_schema :: "pyval \<Rightarrow> pystr \<Rightarrow> pyexc + pystr option" where
  "get_table_schema table_metadata table_name =
     sbind (py_contains table_metadata table_name) (\<lambda>present.
       if present then
         sbind (py_subscript table_metadata table_name) (\<lambda>entry.
         sbind (py_subscript entry (U ''columns'')) (\<lambda>columns.
         sbind (py_items columns) (\<lambda>items.
           Inr (Some (py_join (U '', '') (map (\<lambda>(col, dtype). col @ U '' ('' @ py_str_val dtype @ U '')'') items))))))
       else Inr None)"

text \<open>
  Lines 22--35: the template, rendered by Jinja with its defaults (no escaping; the
  single newline that ends the template text is dropped).
\<close>

definition create_text2sql_prompt :: "pystr \<Rightarrow> pystr \<Rightarrow> pystr \<Rightarrow> pystr \<Rightarrow> pystr" where
  "create_text2sql_prompt question table schema sql_dialect =
     [10, 3648, 3586, 3637, 3618, 3609, 3588, 3635, 3626, 3633, 3656, 3591] @ U '' SQL '' @
     [3651, 3609] @ U '' '' @ sql_dialect @
     U '' '' @ [3648, 3614, 3639, 3656, 3629, 3605, 3629, 3610, 3588, 3635, 3606, 3634, 3617] @
     U '' '' @ [39] @ question @ [39] @ U '' '' @ [10] @
     [3650, 3604, 3618, 3651, 3594, 3657, 3605, 3634, 3619, 3634, 3591] @ U '' '' @ table @
     U '' '' @ [3607, 3637, 3656, 3617, 3637, 3588, 3629, 3621, 3633, 3617, 3609, 3660] @
     U '' '' @ schema @ U ''. '' @ [10] @
     [3605, 3629, 3610, 3648, 3593, 3614, 3634, 3632, 3588, 3635, 3626, 3633, 3656, 3591] @
     U '' SQL '' @ [3652, 3617, 3656, 3605, 3657, 3629, 3591, 3629, 3608, 3636, 3610, 3634, 3618] @ U ''.''"

definition model_name_v1 :: pystr where
  "model_name_v1 = U ''gemma3:12B''"

text \<open>Lines 38--44: the model service is any function of model name and prompt.\<close>

definition generate_sql_with_ollama ::
    "(pystr \<Rightarrow> pystr \<Rightarrow> pyexc + pystr) \<Rightarrow> pystr \<Rightarrow> terminal \<Rightarrow> pystr option \<times> terminal" where
  "generate_sql_with_ollama llm prompt t =
     (case llm model_name_v1 prompt of
        Inr response \<Rightarrow> (Some (py_strip response), t)
      | Inl e \<Rightarrow> (None, t_print (U ''Error while generating SQL with Ollama: '' @ py_str_exc e) t))"

text \<open>Lines 47--64: three stripped inputs, none of them empty.\<close>

definition read_field :: "pystr \<Rightarrow> pystr \<Rightarrow> terminal \<Rightarrow> (pyexc + pystr) \<times> terminal" where
  "read_field prompt err t =
     (case t_input prompt t of
        (Inl e, t') \<Rightarrow> (Inl e, t')
      | (Inr line, t') \<Rightarrow> if py_strip line = [] then (Inl (ValueError err), t') else (Inr (py_strip line), t'))"

definition prompt_question :: pystr where
  \<comment> \<open>line 48; the example asks what this month's sales are\<close>
  "prompt_question =
     U ''Enter your question (e.g., '' @ [39, 3618, 3629, 3604, 3586, 3634, 3618, 3651, 3609, 3648, 3604,
      3639, 3629, 3609, 3609, 3637, 3657, 3588, 3639, 3629, 3648, 3607, 3656, 3634, 3652, 3619, 39] @ U ''): ''"

definition prompt_table :: pystr where
  \<comment> \<open>line 52\<close>
  "prompt_table = U ''Enter the table name (e.g., orders): ''"

definition prompt_dialect :: pystr where
  \<comment> \<open>line 56\<close>
  "prompt_dialect = U ''Enter the SQL dialect (e.g., Presto, MySQL): ''"

definition get_user_input :: "terminal \<Rightarrow> (pyexc + pystr \<times> pystr \<times> pystr) \<times> terminal" where
  "get_user_input t =
     (case read_field prompt_question (U ''Question cannot be empty'') t of
        (Inl e, t1) \<Rightarrow> (Inl e, t1)
      | (Inr question, t1) \<Rightarrow>
          (case read_field prompt_table (U ''Table name cannot be empty'') t1 of
             (Inl e, t2) \<Rightarrow> (Inl e, t2)
           | (Inr table, t2) \<Rightarrow>
               (case read_field prompt_dialect (U ''SQL dialect cannot be empty'') t2 of
                  (Inl e, t3) \<Rightarrow> (Inl e, t3)
                | (Inr sql_dialect, t3) \<Rightarrow> (Inr (question, table, sql_dialect), t3))))"

text \<open>Lines 60--64: the dict \<open>get_user_input\<close> returns.\<close>

definition user_input_dict :: "pystr \<Rightarrow> pystr \<Rightarrow> pystr \<Rightarrow> pyval" where
  "user_input_dict question table sql_dialect =
     PDict [(U ''question'', PStr question), (U ''tables'', PList [PStr table]), (U ''sql_dialect'', PStr sql_dialect)]"

text \<open>Lines 96--99: the two handlers of \<open>main\<close>.\<close>

definition report :: "pyexc \<Rightarrow> terminal \<Rightarrow> terminal" where
  "report e t =
     (case e of
        ValueError m \<Rightarrow> t_print (U ''Error: '' @ m) t
      | _ \<Rightarrow> t_print (U ''An unexpected error occurred: '' @ py_str_exc e) t)"

text \<open>Lines 67--99.\<close>

definition main_v1 :: "pyval \<Rightarrow> (pystr \<Rightarrow> pystr \<Rightarrow> pyexc + pystr) \<Rightarrow> terminal \<Rightarrow> terminal" where
  "main_v1 table_metadata llm t0 =
     (let t = t_print (U ''=== Text-to-SQL System ==='') t0 in
      case get_user_input t of
        (Inl e, t1) \<Rightarrow> report e t1
      | (Inr (question, table, sql_dialect), t1) \<Rightarrow>
          let t2 = t_print ([10] @ U ''User Input: '' @ py_repr_val (user_input_dict question table sql_dialect)) t1 in
          (case get_table_schema table_metadata table of
             Inl e \<Rightarrow> report e t2
           | Inr schema \<Rightarrow>
               if schema = None \<or> schema = Some [] then
                 t_print (U ''Error: Table '' @ [39] @ table @ [39] @ U '' not found in metadata store'') t2
               else
                 let prompt = create_text2sql_prompt question table (the schema) sql_dialect;
                     t3 = t_print ([10] @ U ''Generated Prompt: '' @ prompt) t2 in
                 (case generate_sql_with_ollama llm prompt t3 of
                    (Some generated_sql, t4) \<Rightarrow>
                      if generated_sql \<noteq> [] then t_print ([10] @ U ''Generated SQL: '' @ generated_sql) t4
                      else t_print (U ''Failed to generate SQL.'') t4
                  | (None, t4) \<Rightarrow> t_print (U ''Failed to generate SQL.'') t4)))"

text \<open>
  Lines 1--11 and 101--102: the metadata file is missing, fails to parse (the error
  escapes at import), or is loaded; then \<open>main\<close> runs.
\<close>

datatype v1_exit = Returned | Exit1 | Raised1 pyexc

definition program_v1 ::
    "(pyexc + pyval) option \<Rightarrow> (pystr \<Rightarrow> pystr \<Rightarrow> pyexc + pystr) \<Rightarrow> pystr list \<Rightarrow> v1_exit \<times> terminal" where
  "program_v1 metadata_file llm stdin =
     (let t = \<lparr>t_in = stdin, t_out = []\<rparr> in
      case metadata_file of
        None \<Rightarrow> (Exit1, t_print (U ''Error: table_metadata.json not found. Please create the file with table metadata.'') t)
      | Some (Inl e) \<Rightarrow> (Raised1 e, t)
      | Some (Inr table_metadata) \<Rightarrow> (Returned, main_v1 table_metadata llm t))"

text \<open>
  A metadata file for the examples: a table with two columns, a table with none, and
  an entry whose columns are under another key.
\<close>

definition demo_metadata :: pyval where
  "demo_metadata =
     PDict [(U ''orders'', PDict [(U ''columns'', PDict [(U ''order_id'', PStr (U ''INT'')), (U ''amount'', PStr (U ''DECIMAL''))])]),
            (U ''archive'', PDict [(U ''columns'', PDict [])]),
            (U ''customers'', PDict [(U ''cols'', PList [PStr (U ''id'')])])]"

section \<open>Lemmas\<close>

lemma read_field_ok:
  "t_in t = l # ls \<Longrightarrow> py_strip l \<noteq> [] \<Longrightarrow>
   read_field p err t = (Inr (py_strip l), t\<lparr>t_in := ls, t_out := t_out t @ p\<rparr>)"
  by (simp add: read_field_def t_input_def)

lemma read_field_empty:
  "t_in t = l # ls \<Longrightarrow> py_strip l = [] \<Longrightarrow>
   read_field p err t = (Inl (ValueError err), t\<lparr>t_in := ls, t_out := t_out t @ p\<rparr>)"
  by (simp add: read_field_def t_input_def)

lemma read_field_eof: "t_in t = [] \<Longrightarrow> read_field p err t = (Inl EOFError, t\<lparr>t_out := t_out t @ p\<rparr>)"
  by (simp add: read_field_def t_input_def)

lemma get_user_input_ok:
  assumes "t_in t = q # tb # d # rest" and "py_strip q \<noteq> []" "py_strip tb \<noteq> []" "py_strip d \<noteq> []"
  shows "get_user_input t =
    (Inr (py_strip q, py_strip tb, py_strip d),
     t\<lparr>t_in := rest, t_out := t_out t @ prompt_question @ prompt_table @ prompt_dialect\<rparr>)"
  using assms by (simp add: get_user_input_def read_field_ok)

text \<open>The three answers after the banner of \<open>main\<close>.\<close>

lemma get_user_input_banner:
  assumes "t_in tm = q # tb # d # rest" and "py_strip q \<noteq> []" "py_strip tb \<noteq> []" "py_strip d \<noteq> []"
  shows "get_user_input (t_print (U ''=== Text-to-SQL System ==='') tm) =
    (Inr (py_strip q, py_strip tb, py_strip d),
     (t_print (U ''=== Text-to-SQL System ==='') tm)\<lparr>t_in := rest,
        t_out := t_out (t_print (U ''=== Text-to-SQL System ==='') tm) @ prompt_question @ prompt_table @ prompt_dialect\<rparr>)"
  using assms by (intro get_user_input_ok) (simp_all add: t_print_def)

lemmas metadata_eval = get_table_schema_def py_contains_def py_subscript_def py_items_def py_str_val_def
  demo_metadata_def py_strip_def py_lstrip_def py_rstrip_def py_isspace_def

section \<open>Properties of the first version\<close>

text \<open>
  C32. A complete run: with a question, a known table with columns and a dialect, and
  a model answer that is not blank, \<open>main\<close> prints the banner, the three prompts, the
  input dict, the rendered prompt and the stripped answer, and reads nothing more.
\<close>

theorem main_v1_success:
  assumes "t_in tm = q # tb # d # rest" and "py_strip q \<noteq> []" "py_strip tb \<noteq> []" "py_strip d \<noteq> []"
    and "get_table_schema md (py_strip tb) = Inr (Some s)" and "s \<noteq> []"
    and "llm model_name_v1 (create_text2sql_prompt (py_strip q) (py_strip tb) s (py_strip d)) = Inr r"
    and "py_strip r \<noteq> []"
  shows "main_v1 md llm tm =
    \<lparr>t_in = rest,
     t_out = t_out tm @ U ''=== Text-to-SQL System ==='' @ [10] @ prompt_question @ prompt_table @ prompt_dialect @
       [10] @ U ''User Input: '' @ py_repr_val (user_input_dict (py_strip q) (py_strip tb) (py_strip d)) @ [10] @
       [10] @ U ''Generated Prompt: '' @ create_text2sql_prompt (py_strip q) (py_strip tb) s (py_strip d) @ [10] @
       [10] @ U ''Generated SQL: '' @ py_strip r @ [10]\<rparr>"
proof -
  note get_user_input_banner [OF assms(1-4)]
  then show ?thesis
    using assms(5-8) by (simp add: main_v1_def generate_sql_with_ollama_def t_print_def)
qed


lemma main_v1_success_witness:
  "t_out (main_v1 demo_metadata (\<lambda>m p. Inr (U '' SELECT SUM(amount) FROM orders; ''))
            \<lparr>t_in = [U ''What is the total amount?'', U ''orders'', U ''SQLite''], t_out = []\<rparr>) =
     U ''=== Text-to-SQL System ==='' @ [10] @ prompt_question @ prompt_table @ prompt_dialect @
     [10] @ U ''User Input: '' @ py_repr_val (user_input_dict (U ''What is the total amount?'') (U ''orders'') (U ''SQLite'')) @ [10] @
     [10] @ U ''Generated Prompt: '' @
       create_text2sql_prompt (U ''What is the total amount?'') (U ''orders'') (U ''order_id (INT), amount (DECIMAL)'') (U ''SQLite'') @ [10] @
     [10] @ U ''Generated SQL: '' @ U ''SELECT SUM(amount) FROM orders;'' @ [10]"
  using main_v1_success
    [where tm = "\<lparr>t_in = [U ''What is the total amount?'', U ''orders'', U ''SQLite''], t_out = []\<rparr>"
       and q = "U ''What is the total amount?''" and tb = "U ''orders''" and d = "U ''SQLite''" and rest = "[]"
       and md = demo_metadata and s = "U ''order_id (INT), amount (DECIMAL)''"
       and llm = "\<lambda>m p. Inr (U '' SELECT SUM(amount) FROM orders; '')" and r = "U '' SELECT SUM(amount) FROM orders; ''"]
  by (simp add: metadata_eval)

text \<open>
  C33. An empty question is rejected with the \<open>ValueError\<close> message before any
  further input is read or the model is asked, whatever the model would answer.
\<close>

theorem main_v1_empty_question:
  assumes "t_in tm = q # rest" and "py_strip q = []"
  shows "main_v1 md llm tm =
           \<lparr>t_in = rest, t_out = t_out tm @ U ''=== Text-to-SQL System ==='' @ [10] @ prompt_question @
                               U ''Error: Question cannot be empty'' @ [10]\<rparr>"
  using assms by (simp add: main_v1_def get_user_input_def read_field_empty t_print_def report_def)

lemma main_v1_empty_question_witness:
  "main_v1 demo_metadata (\<lambda>m p. Inr (U ''SELECT 1;'')) \<lparr>t_in = [U ''   '', U ''orders''], t_out = []\<rparr> =
     \<lparr>t_in = [U ''orders''], t_out = U ''=== Text-to-SQL System ==='' @ [10] @ prompt_question @
                                     U ''Error: Question cannot be empty'' @ [10]\<rparr>"
  using main_v1_empty_question [where tm = "\<lparr>t_in = [U ''   '', U ''orders''], t_out = []\<rparr>"
      and q = "U ''   ''" and rest = "[U ''orders'']" and md = demo_metadata and llm = "\<lambda>m p. Inr (U ''SELECT 1;'')"]
  by (simp add: py_strip_def py_lstrip_def py_rstrip_def py_isspace_def)

text \<open>
  C34. Unlike \<open>src/ver1-1.py\<close>, this version handles a failure of the model service
  as section 7 of the spec asks: the error is printed, then the failure message, and
  \<open>main\<close> returns.
\<close>

theorem main_v1_model_error:
  assumes "t_in tm = q # tb # d # rest" and "py_strip q \<noteq> []" "py_strip tb \<noteq> []" "py_strip d \<noteq> []"
    and "get_table_schema md (py_strip tb) = Inr (Some s)" and "s \<noteq> []"
    and "llm model_name_v1 (create_text2sql_prompt (py_strip q) (py_strip tb) s (py_strip d)) = Inl e"
  shows "\<exists>pre. t_out (main_v1 md llm tm) =
           pre @ U ''Error while generating SQL with Ollama: '' @ py_str_exc e @ [10] @ U ''Failed to generate SQL.'' @ [10]"
proof -
  note get_user_input_banner [OF assms(1-4)]
  then show ?thesis
    using assms(5-7) by (simp add: main_v1_def generate_sql_with_ollama_def t_print_def)
qed

lemma main_v1_model_error_witness:
  "\<exists>pre. t_out (main_v1 demo_metadata (\<lambda>m p. Inl (ModelServiceError (U ''connection refused'')))
            \<lparr>t_in = [U ''What is the total amount?'', U ''orders'', U ''SQLite''], t_out = []\<rparr>) =
     pre @ U ''Error while generating SQL with Ollama: connection refused'' @ [10] @ U ''Failed to generate SQL.'' @ [10]"
  using main_v1_model_error
    [where tm = "\<lparr>t_in = [U ''What is the total amount?'', U ''orders'', U ''SQLite''], t_out = []\<rparr>"
       and q = "U ''What is the total amount?''" and tb = "U ''orders''" and d = "U ''SQLite''" and rest = "[]"
       and md = demo_metadata and s = "U ''order_id (INT), amount (DECIMAL)''"
       and llm = "\<lambda>m p. Inl (ModelServiceError (U ''connection refused''))" and e = "ModelServiceError (U ''connection refused'')"]
  by (simp add: metadata_eval)

text \<open>
  C35. A table that is in the metadata but has no columns renders as the empty string,
  which \<open>main\<close> takes for a missing table: it reports the table as not found.
\<close>

theorem main_v1_no_columns_not_found:
  assumes "t_in tm = q # tb # d # rest" and "py_strip q \<noteq> []" "py_strip tb \<noteq> []" "py_strip d \<noteq> []"
    and "py_contains md (py_strip tb) = Inr True" and "py_subscript md (py_strip tb) = Inr entry"
    and "py_subscript entry (U ''columns'') = Inr (PDict [])"
  shows "\<exists>pre. t_out (main_v1 md llm tm) =
           pre @ U ''Error: Table '' @ [39] @ py_strip tb @ [39] @ U '' not found in metadata store'' @ [10]"
proof -
  note get_user_input_banner [OF assms(1-4)]
  moreover have "get_table_schema md (py_strip tb) = Inr (Some [])"
    using assms(5-7) by (simp add: get_table_schema_def py_items_def)
  ultimately show ?thesis by (simp add: main_v1_def t_print_def)
qed

lemma main_v1_no_columns_not_found_witness:
  "\<exists>pre. t_out (main_v1 demo_metadata (\<lambda>m p. Inr (U ''SELECT 1;''))
            \<lparr>t_in = [U ''Show the archive'', U ''archive'', U ''SQLite''], t_out = []\<rparr>) =
     pre @ U ''Error: Table '' @ [39] @ U ''archive'' @ [39] @ U '' not found in metadata store'' @ [10]"
  using main_v1_no_columns_not_found
    [where tm = "\<lparr>t_in = [U ''Show the archive'', U ''archive'', U ''SQLite''], t_out = []\<rparr>"
       and q = "U ''Show the archive''" and tb = "U ''archive''" and d = "U ''SQLite''" and rest = "[]"
       and md = demo_metadata and llm = "\<lambda>m p. Inr (U ''SELECT 1;'')" and entry = "PDict [(U ''columns'', PDict [])]"]
  by (simp add: metadata_eval)

text \<open>
  C36. A metadata entry without a \<open>columns\<close> key raises \<open>KeyError\<close>, which \<open>main\<close>
  reports with the bare key as its whole message: \<open>An unexpected error occurred: 'columns'\<close>.
\<close>

theorem main_v1_missing_columns_key:
  assumes "t_in tm = q # tb # d # rest" and "py_strip q \<noteq> []" "py_strip tb \<noteq> []" "py_strip d \<noteq> []"
    and "md = PDict kvs" and "map_of kvs (py_strip tb) = Some (PDict entry_items)"
    and "map_of entry_items (U ''columns'') = None"
  shows "\<exists>pre. t_out (main_v1 md llm tm) =
           pre @ U ''An unexpected error occurred: '' @ [39] @ U ''columns'' @ [39] @ [10]"
proof -
  note get_user_input_banner [OF assms(1-4)]
  moreover have "py_strip tb \<in> fst ` set kvs"
    using assms(6) by (metis map_of_eq_None_iff option.distinct(1))
  then have "get_table_schema md (py_strip tb) = Inl (KeyError ([39] @ U ''columns'' @ [39]))"
    using assms(5-7)
    by (simp add: get_table_schema_def py_contains_def py_subscript_def py_repr_str_def repr_quote_def repr_char_def)
  ultimately show ?thesis by (simp add: main_v1_def t_print_def report_def)
qed

lemma main_v1_missing_columns_key_witness:
  "\<exists>pre. t_out (main_v1 demo_metadata (\<lambda>m p. Inr (U ''SELECT 1;''))
            \<lparr>t_in = [U ''List customers'', U ''customers'', U ''SQLite''], t_out = []\<rparr>) =
     pre @ U ''An unexpected error occurred: '' @ [39] @ U ''columns'' @ [39] @ [10]"
  using main_v1_missing_columns_key
    [where tm = "\<lparr>t_in = [U ''List customers'', U ''customers'', U ''SQLite''], t_out = []\<rparr>"
       and q = "U ''List customers''" and tb = "U ''customers''" and d = "U ''SQLite''" and rest = "[]"
       and md = demo_metadata and llm = "\<lambda>m p. Inr (U ''SELECT 1;'')"
       and kvs = "[(U ''orders'', PDict [(U ''columns'', PDict [(U ''order_id'', PStr (U ''INT'')), (U ''amount'', PStr (U ''DECIMAL''))])]),
                   (U ''archive'', PDict [(U ''columns'', PDict [])]),
                   (U ''customers'', PDict [(U ''cols'', PList [PStr (U ''id'')])])]"
       and entry_items = "[(U ''cols'', PList [PStr (U ''id'')])]"]
  by (simp add: metadata_eval)

end
