(* ===== verification/Spec2Isabelle.thy ===== *)
theory Spec2Isabelle
  imports Cli Ver1
begin

text \<open>
  \<^bold>\<open>A verification development of NL2SQL_Project.\<close>

  The repository turns a natural-language question into SQL with a local model service
  (Ollama). \<open>src/ver1-1.py\<close> is the program: it introspects an SQLite file, prompts the
  model with the schema, the question and few-shot examples, extracts the SQL from the
  answer, runs it and retries once with a correction prompt when the database rejects
  it, then explains the rows; a command-line loop drives it. \<open>src/ver1.py\<close> is an
  earlier version that looks the table up in a JSON metadata file, renders a Jinja
  template and prints the generated SQL without running it.

  \<^bold>\<open>Theories and what they model\<close> (file and function names of \<open>src/\<close>).
  \<^item> \<open>PyPrelude\<close>: Python \<open>str\<close> as a list of code points (\<open>pystr\<close>), \<open>str.isspace\<close>,
    \<open>strip\<close>, \<open>endswith\<close>, \<open>in\<close>, ASCII \<open>lower\<close>, \<open>str()\<close> of an int; the
    exceptions (\<open>pyexc\<close>) with \<open>str(e)\<close>; code that may raise as a sum type with
    \<open>sbind\<close> and \<open>smap\<close> (a comprehension stopped by the first exception);
    \<open>row[i]\<close> as \<open>py_index\<close>.
  \<^item> \<open>PyRepr\<close>: \<open>repr\<close> of a \<open>str\<close> as CPython writes it, \<open>str.join\<close>, and its
    inverse as \<open>ast.literal_eval\<close> reads it.
  \<^item> \<open>Extractor\<close>: \<open>extract_sql_query\<close> (lines 69--77); the regular-expression search
    modelled twice, as Python's backtracking order (\<open>bt_search\<close>) and as a scan
    (\<open>re_search\<close>), proved equal; Python's case-insensitive equivalences included.
  \<^item> \<open>Executor\<close>: \<open>execute_query\<close> (lines 57--66) over a driver interface
    (\<open>sqlite_driver\<close>: the statement semantics is a parameter), with the one rule of
    the \<open>sqlite3\<close> module the code depends on: an implicit transaction before
    INSERT/UPDATE/DELETE/REPLACE, rolled back by \<open>close()\<close> without \<open>commit()\<close>.
  \<^item> \<open>Schema\<close>: \<open>extract_schema\<close> (lines 7--36) through the same driver, with errors
    turned into the returned string, and \<open>format_schema_for_prompt\<close> (lines 39--54),
    raising \<open>AttributeError\<close> on that string. \<open>catalogue_driver\<close> gives SQLite's
    answers to the three catalogue queries for a database given by its tables, and
    \<open>describe\<close> the spec's schema description (section 4.1) of it.
  \<^item> \<open>Prompt\<close>: the first prompt (lines 81--89), the correction prompt (lines 100--101),
    the failure messages and the few-shot examples (lines 143--152). Thai literals are
    their code points with English glosses.
  \<^item> \<open>Correction\<close>: \<open>nl2sql\<close> (lines 80--109), split at line 100 into \<open>nl2sql\<close> and
    \<open>nl2sql_retry\<close>. The world is the database and a trace of the calls to the model
    service and the database; the model service is a function of the whole history
    and the prompt, so every sequence of answers and exceptions is covered.
    \<open>loop_step\<close>/\<open>loop_reach\<close> are the state machine of section 4.5 of the spec as an
    inductive step relation labelled with the calls, plus a terminal state
    \<open>Raised\<close> for an exception of the model service.
  \<^item> \<open>Explainer\<close>: \<open>explain_result\<close> (lines 112--140), its four templates, the
    Thai/English choice and the \<open>IndexError\<close> of a short row.
  \<^item> \<open>Cli\<close>: \<open>main\<close> of \<open>ver1-1.py\<close> (lines 154--198) over an explicit console: the
    lines still to be typed and the text printed; \<open>question_round\<close> is one iteration,
    \<open>question_loop\<close> recurses on the input lines, an uncaught exception ends the run
    as \<open>Crashed\<close>.
  \<^item> \<open>Ver1\<close>: all of \<open>src/ver1.py\<close>: the values \<open>json.load\<close> produces with their
    \<open>str\<close>/\<open>repr\<close> and Python 3.12's subscription, \<open>in\<close> and \<open>.items()\<close> with their
    error messages, \<open>get_table_schema\<close>, the Jinja template as rendered with default
    settings, \<open>generate_sql_with_ollama\<close>, \<open>get_user_input\<close>, \<open>main\<close> with its
    handlers and the metadata loading at import.

  \<^bold>\<open>What is proved.\<close>
  \<^item> Correction loop: refinement of the spec's machine with at most two model calls and
    two executions; every execution runs the statement extracted from the answer just
    before it; the three scenarios of section 8; no execution without SQL; the
    exception of the model service escapes.
  \<^item> Extractor: the spec's example; an extracted query is one statement of the answer;
    re-extraction is the identity except on a bare keyword; prose keywords are taken
    for SQL; the scan equals the backtracking search.
  \<^item> Executor: the contract on both branches; data-modifying statements are reported
    as successes but rolled back, also through the whole loop (here).
  \<^item> Schema: refinement of section 4.1 for databases without composite keys and the
    composite-key counterexample; a well-formedness invariant for any driver; the
    spec's rendering example; the start-up crash on an unparsable table name; the
    rendering of an implicit foreign-key target as None.
  \<^item> Explainer and \<open>repr\<close>: exactly when \<open>explain_result\<close> raises; the round trip of
    \<open>repr\<close>; the missing newline of the salary template.
  \<^item> Command line: a bound of two model calls and two executions per input line;
    failures are reported and the loop goes on; a model exception or a one-column
    count result ends the program; the quit word ends it at once.
  \<^item> \<open>ver1.py\<close>: a complete run; an empty question rejected before any model call; a
    model failure handled as the spec asks; an empty column list reported as a
    missing table; the message of a malformed metadata entry.
  \<^item> Prompt: the few-shot examples follow the question, where the spec puts them
    before.

  \<^bold>\<open>Bounds, fuel and termination.\<close> No function needs fuel. \<open>nl2sql\<close> has no loop;
  the regular-expression scan, the schema loop, the row loops and \<open>unrepr_body\<close>
  recurse structurally (the last on a shorter suffix); the command-line loop recurses
  on the list of input lines, one line per round, which is why a run ends: at the quit
  word, at an exception, or at the end of the input with \<open>EOFError\<close>.

  \<^bold>\<open>Not modelled.\<close> The internals of SQLite, of the model service and of JSON parsing:
  they are parameters (\<open>run_statement\<close>, \<open>llm\<close>, the loaded metadata). SQLite REAL and
  BLOB values and JSON floats are left out. Which unquoted table names SQLite parses in
  a PRAGMA is a parameter (\<open>parses\<close>). Printability of code points outside ASCII,
  Latin-1 and the Thai block is approximated by listed ranges. Opening the database
  file: the world holds the one database the path names. Catalogue statements of
  \<open>extract_schema\<close> are not recorded in the trace (they are not \<open>execute_query\<close>
  calls). \<open>str.lower\<close> is ASCII lowering, which gives the same answers on the words
  the code tests.
\<close>

section \<open>Properties across components\<close>

text \<open>
  C16. With Python's \<open>sqlite3\<close> driver, when the model's first answer yields an INSERT,
  UPDATE or DELETE that the database accepts, \<open>nl2sql\<close> reports success with the
  statement, while the database afterwards is the one before.
\<close>

theorem nl2sql_dml_not_persisted:
  assumes "L (w_trace w) model_name (nl2sql_prompt q st exs) = Inr resp"
    and "extract_sql_query (py_strip resp) = Some s"
    and "cpython_is_dml s"
    and "run s (w_db w) = Inr (rows, db')"
  shows "fst (nl2sql \<lparr>llm = L, driver = cpython_driver run\<rparr> q st exs w) =
           Inr (Some s, Some rows, True, msg_success) \<and>
         w_db (snd (nl2sql \<lparr>llm = L, driver = cpython_driver run\<rparr> q st exs w)) = w_db w"
proof -
  have "run_statement (driver \<lparr>llm = L, driver = cpython_driver run\<rparr>) s (w_db w) = Inr (rows, db')"
    using assms(4) by (simp add: cpython_driver_def)
  from nl2sql_success [OF _ assms(2) this] assms(1,3) show ?thesis
    by (simp add: cpython_driver_def)
qed

lemma nl2sql_dml_not_persisted_witness:
  "fst (nl2sql \<lparr>llm = (\<lambda>h m p. Inr (U ''INSERT INTO artists VALUES (1);'')),
                driver = cpython_driver (\<lambda>s n. Inr ([], Suc n))\<rparr>
          (U ''Add an artist.'') [] [] \<lparr>w_db = 0::nat, w_trace = []\<rparr>) =
     Inr (Some (U ''INSERT INTO artists VALUES (1);''), Some [], True, msg_success) \<and>
   w_db (snd (nl2sql \<lparr>llm = (\<lambda>h m p. Inr (U ''INSERT INTO artists VALUES (1);'')),
                driver = cpython_driver (\<lambda>s n. Inr ([], Suc n))\<rparr>
          (U ''Add an artist.'') [] [] \<lparr>w_db = 0::nat, w_trace = []\<rparr>)) = 0"
  using nl2sql_dml_not_persisted
    [where L = "\<lambda>h m p. Inr (U ''INSERT INTO artists VALUES (1);'')" and run = "\<lambda>s n. Inr ([], Suc n)"
       and w = "\<lparr>w_db = 0::nat, w_trace = []\<rparr>" and q = "U ''Add an artist.''" and st = "[]" and exs = "[]"
       and resp = "U ''INSERT INTO artists VALUES (1);''" and s = "U ''INSERT INTO artists VALUES (1);''"
       and rows = "[]" and db' = 1]
  by (simp add: extract_eval cpython_is_dml_def ascii_ci_prefix_def)

end
